theory Spec2Isabelle
  imports Main "HOL-Library.Word"
begin

unbundle bit_operations_syntax

chapter \<open>OTAShip backend: a shallow embedding of the protocol and storage core\<close>

text \<open>
  The development follows the Go packages of the backend: the standard-library
  functions the handlers rely on, \<open>models\<close>, \<open>database\<close> (the update
  repository over a MongoDB collection), \<open>services\<close> (hashing, signing, rollout) and
  \<open>handlers\<close> (manifest, assets, admin). Go strings and byte slices are byte
  sequences: both are \<open>string\<close> (a list of 8-bit \<open>char\<close>) here. Go's \<open>int\<close>
  is the 64-bit signed integer; it is an \<open>int\<close> here, with the wrap-around written
  out where a sum is accumulated.
\<close>

section \<open>Standard library\<close>

subsection \<open>strconv\<close>

definition isDigit :: "char \<Rightarrow> bool" where
  "isDigit c = (48 \<le> (of_char c :: nat) \<and> (of_char c :: nat) \<le> 57)"

definition digitsValue :: "string \<Rightarrow> nat" where
  "digitsValue ds = foldl (\<lambda>n c. n * 10 + (of_char c - 48)) 0 ds"

text \<open>
  \<open>strconv.Atoi\<close>, as the handlers use it: the error is discarded
  (\<open>v, _ := strconv.Atoi(s)\<close>), so the model returns the value alone. A syntax error
  gives 0; a value outside the 64-bit range gives the nearest bound.
\<close>

definition strconv_Atoi :: "string \<Rightarrow> int" where
  "strconv_Atoi s =
     (let neg = (s \<noteq> [] \<and> hd s = CHR ''-'');
          ds = (if s \<noteq> [] \<and> (hd s = CHR ''-'' \<or> hd s = CHR ''+'') then tl s else s)
      in if ds = [] \<or> \<not> list_all isDigit ds then 0
         else (let n = int (digitsValue ds)
               in if neg then (if n > 2 ^ 63 then - (2 ^ 63) else - n)
                  else (if n \<ge> 2 ^ 63 then 2 ^ 63 - 1 else n)))"

definition digitChar :: "nat \<Rightarrow> char" where
  "digitChar n = ''0123456789'' ! n"

fun natDigits :: "nat \<Rightarrow> string" where
  "natDigits n = (if n < 10 then [digitChar n] else natDigits (n div 10) @ [digitChar (n mod 10)])"

declare natDigits.simps [simp del]

definition strconv_Itoa :: "int \<Rightarrow> string" where
  "strconv_Itoa i = (if i < 0 then CHR ''-'' # natDigits (nat (- i)) else natDigits (nat i))"

subsection \<open>strings and path/filepath (Unix separators)\<close>

type_synonym filepath = string
type_synonym urlstring = string

definition strings_HasPrefix :: "string \<Rightarrow> string \<Rightarrow> bool" where
  "strings_HasPrefix s p = (take (length p) s = p)"

fun strings_Contains :: "string \<Rightarrow> string \<Rightarrow> bool" where
  "strings_Contains [] sub = (sub = [])"
| "strings_Contains (c # s) sub = (strings_HasPrefix (c # s) sub \<or> strings_Contains s sub)"

definition toLowerChar :: "char \<Rightarrow> char" where
  "toLowerChar c =
     (case map_of (zip ''ABCDEFGHIJKLMNOPQRSTUVWXYZ'' ''abcdefghijklmnopqrstuvwxyz'') c of
        None \<Rightarrow> c
      | Some l \<Rightarrow> l)"

definition filepath_IsAbs :: "string \<Rightarrow> bool" where
  "filepath_IsAbs p = strings_HasPrefix p ''/''"

definition filepath_ToSlash :: "string \<Rightarrow> string" where
  "filepath_ToSlash p = p"

definition filepath_FromSlash :: "string \<Rightarrow> string" where
  "filepath_FromSlash p = p"

text \<open>
  \<open>filepath.Ext\<close>: the suffix beginning at the last dot of the last path element,
  empty when there is none.
\<close>

fun extScan :: "string \<Rightarrow> string \<Rightarrow> string" where
  "extScan [] acc = []"
| "extScan (c # r) acc =
     (if c = CHR ''/'' then []
      else if c = CHR ''.'' then c # acc
      else extScan r (c # acc))"

definition filepath_Ext :: "string \<Rightarrow> string" where
  "filepath_Ext p = extScan (rev p) []"

subsection \<open>unicode/utf8: the runes of a \<open>range\<close> loop over a string\<close>

type_synonym rune = nat

definition runeError :: rune where
  "runeError = 0xFFFD"

definition isCont :: "char \<Rightarrow> bool" where
  "isCont c = (0x80 \<le> (of_char c :: nat) \<and> (of_char c :: nat) \<le> 0xBF)"

text \<open>
  The runtime's \<open>decoderune\<close>, for a string whose first byte \<open>c0\<close> is not ASCII and
  whose remaining bytes are \<open>s\<close>: the rune and the number of bytes consumed. An
  ill-formed sequence yields U+FFFD and consumes one byte.
\<close>

definition decoderune :: "char \<Rightarrow> string \<Rightarrow> rune \<times> nat" where
  "decoderune c0 s =
     (let s0 = (of_char c0 :: nat) in
      if 0xC0 \<le> s0 \<and> s0 < 0xE0 then
        (case s of
           c1 # _ \<Rightarrow>
             if isCont c1 then
               (let r = (s0 mod 32) * 64 + (of_char c1 mod 64) in
                if 0x7F < r then (r, 2) else (runeError, 1))
             else (runeError, 1)
         | _ \<Rightarrow> (runeError, 1))
      else if 0xE0 \<le> s0 \<and> s0 < 0xF0 then
        (case s of
           c1 # c2 # _ \<Rightarrow>
             if isCont c1 \<and> isCont c2 then
               (let r = (s0 mod 16) * 4096 + (of_char c1 mod 64) * 64 + (of_char c2 mod 64) in
                if 0x7FF < r \<and> \<not> (0xD800 \<le> r \<and> r \<le> 0xDFFF) then (r, 3)
                else (runeError, 1))
             else (runeError, 1)
         | _ \<Rightarrow> (runeError, 1))
      else if 0xF0 \<le> s0 \<and> s0 < 0xF8 then
        (case s of
           c1 # c2 # c3 # _ \<Rightarrow>
             if isCont c1 \<and> isCont c2 \<and> isCont c3 then
               (let r = (s0 mod 8) * 262144 + (of_char c1 mod 64) * 4096
                        + (of_char c2 mod 64) * 64 + (of_char c3 mod 64) in
                if 0xFFFF < r \<and> r \<le> 0x10FFFF then (r, 4) else (runeError, 1))
             else (runeError, 1)
         | _ \<Rightarrow> (runeError, 1))
      else (runeError, 1))"

text \<open>\<open>for _, c := range s\<close>: the sequence of values \<open>c\<close> takes.\<close>

function rangeRunes :: "string \<Rightarrow> rune list" where
  "rangeRunes [] = []"
| "rangeRunes (c # s) =
     (if (of_char c :: nat) < 0x80 then of_char c # rangeRunes s
      else fst (decoderune c s) # rangeRunes (drop (snd (decoderune c s) - 1) s))"
  by pat_completeness auto
termination
  by (relation "measure length") auto

text \<open>
  \<open>utf8.AppendRune\<close>: the UTF-8 encoding of a rune, that of U+FFFD for a
  surrogate and for a value beyond U+10FFFF.
\<close>

definition utf8_AppendRune :: "rune \<Rightarrow> string" where
  "utf8_AppendRune r =
     (if r < 0x80 then [char_of r]
      else if r < 0x800 then [char_of (0xC0 + r div 64), char_of (0x80 + r mod 64)]
      else if (0xD800 \<le> r \<and> r \<le> 0xDFFF) \<or> 0x10FFFF < r then [CHR 0xEF, CHR 0xBF, CHR 0xBD]
      else if r < 0x10000 then
        [char_of (0xE0 + r div 4096), char_of (0x80 + r div 64 mod 64), char_of (0x80 + r mod 64)]
      else
        [char_of (0xF0 + r div 262144), char_of (0x80 + r div 4096 mod 64),
         char_of (0x80 + r div 64 mod 64), char_of (0x80 + r mod 64)])"

text \<open>
  \<open>unicode.ToLower\<close>, over the case table of package \<open>unicode\<close> for the runes
  beyond ASCII (a parameter), and \<open>strings.ToLower\<close>: a string of ASCII bytes is
  lowered byte by byte; any other string is mapped rune by rune, so that each
  ill-formed byte becomes the encoding of U+FFFD.
\<close>

definition unicode_ToLower :: "(rune \<Rightarrow> rune) \<Rightarrow> rune \<Rightarrow> rune" where
  "unicode_ToLower caseTable r =
     (if r < 0x80 then (if 0x41 \<le> r \<and> r \<le> 0x5A then r + 0x20 else r) else caseTable r)"

definition strings_ToLower :: "(rune \<Rightarrow> rune) \<Rightarrow> string \<Rightarrow> string" where
  "strings_ToLower caseTable s =
     (if list_all (\<lambda>c. (of_char c :: nat) < 0x80) s then map toLowerChar s
      else concat (map (\<lambda>r. utf8_AppendRune (unicode_ToLower caseTable r)) (rangeRunes s)))"

subsection \<open>Integer arithmetic of Go's \<open>int\<close>\<close>

definition wrap64 :: "int \<Rightarrow> int" where
  "wrap64 x = (x + 2 ^ 63) mod 2 ^ 64 - 2 ^ 63"

text \<open>Go's \<open>%\<close> truncates towards zero: the remainder has the sign of the dividend.\<close>

definition go_rem :: "int \<Rightarrow> int \<Rightarrow> int" where
  "go_rem a b = a - b * (sgn a * sgn b * (\<bar>a\<bar> div \<bar>b\<bar>))"

subsection \<open>encoding/json values\<close>

text \<open>
  A marshalled document is kept as its value; the entries of an object stand in the
  order \<open>json.Marshal\<close> emits the keys of a map (sorted).
\<close>

datatype json =
    JNull
  | JBool bool
  | JNumber int
  | JString string
  | JArray "json list"
  | JObject "(string \<times> json) list"

subsection \<open>time: \<open>t.UTC().Format\<close> with the layout \<open>2006-01-02T15:04:05.000Z\<close>\<close>

text \<open>
  A stored \<open>createdAt\<close> is a BSON date: milliseconds since the Unix epoch, an
  \<open>int\<close> here. \<open>appendInt\<close> is the zero-padding integer printer of package
  \<open>time\<close>; \<open>civil\<close> is the proleptic Gregorian date of a day count. In the
  layout, \<open>2006\<close>, \<open>01\<close>, \<open>02\<close>, \<open>15\<close>, \<open>04\<close>, \<open>05\<close> are the
  zero-padded fields, \<open>.000\<close> is the millisecond fraction (truncated), and the
  final \<open>Z\<close> is a literal.
\<close>

definition appendInt :: "int \<Rightarrow> nat \<Rightarrow> string" where
  "appendInt x width =
     (let ds = natDigits (nat \<bar>x\<bar>)
      in (if x < 0 then ''-'' else []) @ replicate (width - length ds) (CHR ''0'') @ ds)"

definition civil :: "int \<Rightarrow> int \<times> int \<times> int" where
  "civil days =
     (let z = days + 719468;
          era = z div 146097;
          doe = z mod 146097;
          yoe = (doe - doe div 1460 + doe div 36524 - doe div 146096) div 365;
          y = yoe + era * 400;
          doy = doe - (365 * yoe + yoe div 4 - yoe div 100);
          mp = (5 * doy + 2) div 153;
          d = doy - (153 * mp + 2) div 5 + 1;
          m = (if mp < 10 then mp + 3 else mp - 9)
      in (if m \<le> 2 then y + 1 else y, m, d))"

definition FormatUTCMillis :: "int \<Rightarrow> string" where
  "FormatUTCMillis ms =
     (let secs = ms div 1000;
          milli = ms mod 1000;
          sod = secs mod 86400
      in case civil (secs div 86400) of (y, m, d) \<Rightarrow>
           appendInt y 4 @ ''-'' @ appendInt m 2 @ ''-'' @ appendInt d 2 @ ''T'' @
           appendInt (sod div 3600) 2 @ '':'' @ appendInt ((sod mod 3600) div 60) 2 @ '':'' @
           appendInt (sod mod 60) 2 @ ''.'' @ appendInt milli 3 @ ''Z'')"

subsection \<open>crypto/sha256 (FIPS 180-4), encoding/hex, encoding/base64\<close>

type_synonym u32 = "32 word"

definition rotr :: "nat \<Rightarrow> u32 \<Rightarrow> u32" where
  "rotr n x = word_rotr n x"

definition Ch :: "u32 \<Rightarrow> u32 \<Rightarrow> u32 \<Rightarrow> u32" where
  "Ch x y z = (x AND y) XOR (NOT x AND z)"

definition Maj :: "u32 \<Rightarrow> u32 \<Rightarrow> u32 \<Rightarrow> u32" where
  "Maj x y z = (x AND y) XOR (x AND z) XOR (y AND z)"

definition bsig0 :: "u32 \<Rightarrow> u32" where
  "bsig0 x = rotr 2 x XOR rotr 13 x XOR rotr 22 x"

definition bsig1 :: "u32 \<Rightarrow> u32" where
  "bsig1 x = rotr 6 x XOR rotr 11 x XOR rotr 25 x"

definition ssig0 :: "u32 \<Rightarrow> u32" where
  "ssig0 x = rotr 7 x XOR rotr 18 x XOR drop_bit 3 x"

definition ssig1 :: "u32 \<Rightarrow> u32" where
  "ssig1 x = rotr 17 x XOR rotr 19 x XOR drop_bit 10 x"

text \<open>The 64 round constants, eight to a row.\<close>

definition sha256_K :: "u32 list" where
  "sha256_K = concat
    [[0x428a2f98, 0x71374491, 0xb5c0fbcf, 0xe9b5dba5, 0x3956c25b, 0x59f111f1, 0x923f82a4, 0xab1c5ed5],
     [0xd807aa98, 0x12835b01, 0x243185be, 0x550c7dc3, 0x72be5d74, 0x80deb1fe, 0x9bdc06a7, 0xc19bf174],
     [0xe49b69c1, 0xefbe4786, 0x0fc19dc6, 0x240ca1cc, 0x2de92c6f, 0x4a7484aa, 0x5cb0a9dc, 0x76f988da],
     [0x983e5152, 0xa831c66d, 0xb00327c8, 0xbf597fc7, 0xc6e00bf3, 0xd5a79147, 0x06ca6351, 0x14292967],
     [0x27b70a85, 0x2e1b2138, 0x4d2c6dfc, 0x53380d13, 0x650a7354, 0x766a0abb, 0x81c2c92e, 0x92722c85],
     [0xa2bfe8a1, 0xa81a664b, 0xc24b8b70, 0xc76c51a3, 0xd192e819, 0xd6990624, 0xf40e3585, 0x106aa070],
     [0x19a4c116, 0x1e376c08, 0x2748774c, 0x34b0bcb5, 0x391c0cb3, 0x4ed8aa4a, 0x5b9cca4f, 0x682e6ff3],
     [0x748f82ee, 0x78a5636f, 0x84c87814, 0x8cc70208, 0x90befffa, 0xa4506ceb, 0xbef9a3f7, 0xc67178f2]]"

type_synonym sha256_state = "u32 \<times> u32 \<times> u32 \<times> u32 \<times> u32 \<times> u32 \<times> u32 \<times> u32"

definition sha256_init :: sha256_state where
  "sha256_init =
    (0x6a09e667, 0xbb67ae85, 0x3c6ef372, 0xa54ff53a, 0x510e527f, 0x9b05688c, 0x1f83d9ab, 0x5be0cd19)"

definition be64 :: "nat \<Rightarrow> nat list" where
  "be64 n = map (\<lambda>i. (n div 256 ^ (7 - i)) mod 256) [0..<8]"

definition sha256_pad :: "nat list \<Rightarrow> nat list" where
  "sha256_pad m =
     (let r = length m mod 64;
          k = (if r < 56 then 55 - r else 119 - r)
      in m @ [0x80] @ replicate k 0 @ be64 ((8 * length m) mod 2 ^ 64))"

definition be32 :: "nat list \<Rightarrow> u32" where
  "be32 bs = of_nat (foldl (\<lambda>n b. n * 256 + b) 0 bs)"

definition block_words :: "nat list \<Rightarrow> u32 list" where
  "block_words blk = map (\<lambda>i. be32 (take 4 (drop (4 * i) blk))) [0..<16]"

definition schedule :: "u32 list \<Rightarrow> u32 list" where
  "schedule w16 =
     foldl (\<lambda>w i. w @ [ssig1 (w ! (i - 2)) + w ! (i - 7) + ssig0 (w ! (i - 15)) + w ! (i - 16)])
       w16 [16..<64]"

definition sha256_round :: "u32 list \<Rightarrow> sha256_state \<Rightarrow> nat \<Rightarrow> sha256_state" where
  "sha256_round w st i =
     (case st of (a, b, c, d, e, f, g, h) \<Rightarrow>
        (let t1 = h + bsig1 e + Ch e f g + sha256_K ! i + w ! i;
             t2 = bsig0 a + Maj a b c
         in (t1 + t2, a, b, c, d + t1, e, f, g)))"

definition sha256_block :: "sha256_state \<Rightarrow> nat list \<Rightarrow> sha256_state" where
  "sha256_block st blk =
     (case st of (a, b, c, d, e, f, g, h) \<Rightarrow>
        (case foldl (sha256_round (schedule (block_words blk))) st [0..<64] of
           (a', b', c', d', e', f', g', h') \<Rightarrow>
             (a + a', b + b', c + c', d + d', e + e', f + f', g + g', h + h')))"

definition word_bytes :: "u32 \<Rightarrow> string" where
  "word_bytes w = map (\<lambda>i. char_of (unat (drop_bit (8 * (3 - i)) w))) [0..<4]"

text \<open>\<open>sha256.Sum256\<close>: the 32-byte digest.\<close>

definition sha256_Sum256 :: "string \<Rightarrow> string" where
  "sha256_Sum256 data =
     (let p = sha256_pad (map of_char data);
          blocks = map (\<lambda>i. take 64 (drop (64 * i) p)) [0..<length p div 64]
      in case foldl sha256_block sha256_init blocks of
           (a, b, c, d, e, f, g, h) \<Rightarrow>
             word_bytes a @ word_bytes b @ word_bytes c @ word_bytes d @
             word_bytes e @ word_bytes f @ word_bytes g @ word_bytes h)"

definition hexdigit :: "nat \<Rightarrow> char" where
  "hexdigit n = ''0123456789abcdef'' ! n"

text \<open>\<open>fmt.Sprintf("%x", bytes)\<close>: two lower-case hexadecimal digits per byte.\<close>

definition hex_EncodeToString :: "string \<Rightarrow> string" where
  "hex_EncodeToString bs =
     concat (map (\<lambda>c. [hexdigit (of_char c div 16), hexdigit (of_char c mod 16)]) bs)"

definition encodeURL :: string where
  "encodeURL = ''ABCDEFGHIJKLMNOPQRSTUVWXYZabcdefghijklmnopqrstuvwxyz0123456789-_''"

definition b64char :: "nat \<Rightarrow> char" where
  "b64char n = encodeURL ! n"

text \<open>\<open>base64.RawURLEncoding.EncodeToString\<close>: URL-safe alphabet, no padding.\<close>

fun b64enc :: "nat list \<Rightarrow> string" where
  "b64enc (a # b # c # r) =
     [b64char (a div 4), b64char ((a mod 4) * 16 + b div 16),
      b64char ((b mod 16) * 4 + c div 64), b64char (c mod 64)] @ b64enc r"
| "b64enc [a, b] =
     [b64char (a div 4), b64char ((a mod 4) * 16 + b div 16), b64char ((b mod 16) * 4)]"
| "b64enc [a] = [b64char (a div 4), b64char ((a mod 4) * 16)]"
| "b64enc [] = []"

definition RawURLEncoding_EncodeToString :: "string \<Rightarrow> string" where
  "RawURLEncoding_EncodeToString data = b64enc (map of_char data)"

section \<open>models\<close>

record Asset =
  Path :: string
  Ext :: string
  Url :: string
  Key :: string
  Hash :: string

record PlatformMetadata =
  Bundle :: string
  BundleUrl :: string
  BundleKey :: string
  BundleHash :: string
  Assets :: "Asset list"

text \<open>
  \<open>FileMetadata\<close> is a Go map that may be nil (\<open>None\<close>); \<open>ExpoConfig\<close> is the
  list of entries of a free-form object, empty for a nil or empty map (both are
  omitted when the document is marshalled).
\<close>

record UpdateMetadata =
  FileMetadata :: "(string \<rightharpoonup> PlatformMetadata) option"
  ExpoConfig :: "(string \<times> json) list"

text \<open>
  \<open>ID\<close> is the ObjectID in its 24-digit hexadecimal form; \<open>CreatedAt\<close> is in
  milliseconds since the Unix epoch; \<open>Metadata\<close> is a pointer that may be nil.
\<close>

record Update =
  ID :: string
  ProjectSlug :: string
  UpdateID :: string
  RuntimeVersion :: string
  Channel :: string
  Platform :: string
  BundlePath :: string
  CreatedAt :: int
  IsActive :: bool
  IsRollback :: bool
  RolloutPercentage :: int
  Downloads :: int
  Metadata :: "UpdateMetadata option"

definition ChannelProduction :: string where
  "ChannelProduction = ''production''"

definition PlatformAll :: string where
  "PlatformAll = ''all''"

definition NilObjectID :: string where
  "NilObjectID = ''000000000000000000000000''"

text \<open>The zero \<open>time.Time\<close> (January 1, year 1, UTC) in milliseconds since the epoch.\<close>

definition zeroTime :: int where
  "zeroTime = - 62135596800000"

text \<open>
  A project, as \<open>models.Project\<close> decodes it from the \<open>projects\<close> collection (a
  stored document without \<open>description\<close> decodes with the empty string).
\<close>

record Project =
  Project_ID :: string
  Slug :: string
  Name :: string
  Description :: string
  Project_CreatedAt :: int
  UpdateCount :: int

section \<open>database: the update repository\<close>

text \<open>
  The MongoDB collection \<open>updates\<close> is the list of its documents in natural
  (insertion) order. \<open>fault\<close> is the error the driver returns for every call while
  the server is unreachable. A repository is a pointer that may be nil.
\<close>

record Collection =
  docs :: "Update list"
  fault :: "string option"

type_synonym UpdateRepository = "Collection option"

text \<open>The \<open>$set\<close> documents (\<open>bson.M\<close>) that the callers of \<open>Update\<close> build.\<close>

record SetDoc =
  set_isActive :: "bool option"
  set_rolloutPercentage :: "int option"

definition isHexChar :: "char \<Rightarrow> bool" where
  "isHexChar c =
     (let n = (of_char c :: nat)
      in (48 \<le> n \<and> n \<le> 57) \<or> (97 \<le> n \<and> n \<le> 102) \<or> (65 \<le> n \<and> n \<le> 70))"

text \<open>
  \<open>primitive.ObjectIDFromHex\<close>: 24 hexadecimal digits, in either case; the result is
  the identifier in the lower-case form \<open>Hex()\<close> prints. The message of its error
  is that of \<open>ErrInvalidHex\<close> for a string that is not 24 bytes long, and else that
  of the \<open>hex.InvalidByteError\<close> for the first byte that is not a hexadecimal
  digit, printed with the verb \<open>%#U\<close>: the code point in four upper-case
  hexadecimal digits, followed by the quoted character when it is printable.
\<close>

definition ObjectIDFromHex :: "string \<Rightarrow> string option" where
  "ObjectIDFromHex s =
     (if length s = 24 \<and> list_all isHexChar s then Some (map toLowerChar s) else None)"

definition InvalidByteError :: "char \<Rightarrow> string" where
  "InvalidByteError c =
     (let n = (of_char c :: nat);
          digit = (\<lambda>d. ''0123456789ABCDEF'' ! d);
          printable = ((0x20 \<le> n \<and> n \<le> 0x7E) \<or> (0xA1 \<le> n \<and> n \<noteq> 0xAD))
      in ''encoding/hex: invalid byte: U+00'' @ [digit (n div 16), digit (n mod 16)] @
         (if printable then '' '' @ [CHR 0x27] @ utf8_AppendRune n @ [CHR 0x27] else []))"

definition ObjectIDFromHex_error :: "string \<Rightarrow> string" where
  "ObjectIDFromHex_error s =
     (if length s \<noteq> 24 then ''the provided hex string is not a valid ObjectID''
      else (case find (\<lambda>c. \<not> isHexChar c) s of
              None \<Rightarrow> []
            | Some c \<Rightarrow> InvalidByteError c))"

text \<open>
  \<open>Create\<close>, given the clock reading \<open>now\<close> and the ObjectID \<open>newID\<close> the driver
  generates for a document without \<open>_id\<close>: the error, or the record as the caller
  sees it afterwards and the repository with the document inserted.
\<close>

definition UpdateRepository_Create ::
  "UpdateRepository \<Rightarrow> int \<Rightarrow> string \<Rightarrow> Update \<Rightarrow> string + (Update \<times> UpdateRepository)" where
  "UpdateRepository_Create r now newID update =
     (case r of
        None \<Rightarrow> Inl ''database not connected''
      | Some coll \<Rightarrow>
          (let u1 = update\<lparr>CreatedAt := now\<rparr>;
               u2 = (if RolloutPercentage u1 = 0 then u1\<lparr>RolloutPercentage := 100\<rparr> else u1);
               u3 = (if Channel u2 = [] then u2\<lparr>Channel := ChannelProduction\<rparr> else u2)
           in case fault coll of
                Some e \<Rightarrow> Inl (''failed to insert update: '' @ e)
              | None \<Rightarrow>
                  (let u4 = u3\<lparr>ID := (if ID u3 = NilObjectID then newID else ID u3)\<rparr>
                   in Inr (u4, Some (coll\<lparr>docs := docs coll @ [u4]\<rparr>)))))"

text \<open>The filter document of \<open>FindLatest\<close>; the platform clause is added only for a non-empty platform.\<close>

definition findLatestFilter :: "string \<Rightarrow> string \<Rightarrow> string \<Rightarrow> string \<Rightarrow> Update \<Rightarrow> bool" where
  "findLatestFilter projectSlug runtimeVersion channel platform u =
     (ProjectSlug u = projectSlug \<and> RuntimeVersion u = runtimeVersion \<and> Channel u = channel \<and>
      IsActive u \<and>
      (if platform \<noteq> [] then Platform u = platform \<or> Platform u = PlatformAll else True))"

text \<open>
  \<open>FindOne\<close> with the sort \<open>createdAt: -1\<close>: the first document of the matching
  ones in descending order of \<open>createdAt\<close>. Among equal timestamps the server's
  order is unspecified; the model takes the first in natural order.
\<close>

fun findOneNewest :: "Update list \<Rightarrow> Update option" where
  "findOneNewest [] = None"
| "findOneNewest (u # us) =
     (case findOneNewest us of
        None \<Rightarrow> Some u
      | Some v \<Rightarrow> (if CreatedAt u < CreatedAt v then Some v else Some u))"

definition UpdateRepository_FindLatest ::
  "UpdateRepository \<Rightarrow> string \<Rightarrow> string \<Rightarrow> string \<Rightarrow> string \<Rightarrow> string + Update option" where
  "UpdateRepository_FindLatest r projectSlug runtimeVersion channel platform =
     (case r of
        None \<Rightarrow> Inl ''database not connected''
      | Some coll \<Rightarrow>
          (case fault coll of
             Some e \<Rightarrow> Inl (''failed to find latest update: '' @ e)
           | None \<Rightarrow>
               Inr (findOneNewest
                      (filter (findLatestFilter projectSlug runtimeVersion channel platform)
                         (docs coll)))))"

definition applySet :: "SetDoc \<Rightarrow> Update \<Rightarrow> Update" where
  "applySet s u =
     (let u1 = (case set_isActive s of None \<Rightarrow> u | Some b \<Rightarrow> u\<lparr>IsActive := b\<rparr>)
      in case set_rolloutPercentage s of None \<Rightarrow> u1 | Some p \<Rightarrow> u1\<lparr>RolloutPercentage := p\<rparr>)"

text \<open>\<open>UpdateOne\<close>: the first document that matches is modified.\<close>

fun updateOne :: "(Update \<Rightarrow> bool) \<Rightarrow> (Update \<Rightarrow> Update) \<Rightarrow> Update list \<Rightarrow> Update list" where
  "updateOne P f [] = []"
| "updateOne P f (u # us) = (if P u then f u # us else u # updateOne P f us)"

definition UpdateRepository_Update ::
  "UpdateRepository \<Rightarrow> string \<Rightarrow> SetDoc \<Rightarrow> string + UpdateRepository" where
  "UpdateRepository_Update r idHex update =
     (case r of
        None \<Rightarrow> Inl ''database not connected''
      | Some coll \<Rightarrow>
          (case ObjectIDFromHex idHex of
             None \<Rightarrow> Inl (''invalid update ID: '' @ ObjectIDFromHex_error idHex)
           | Some objectID \<Rightarrow>
               (case fault coll of
                  Some e \<Rightarrow> Inl (''failed to update: '' @ e)
                | None \<Rightarrow>
                    if \<not> list_ex (\<lambda>u. ID u = objectID) (docs coll) then Inl ''update not found''
                    else Inr (Some (coll\<lparr>docs :=
                           updateOne (\<lambda>u. ID u = objectID) (applySet update) (docs coll)\<rparr>)))))"

definition UpdateRepository_Deactivate :: "UpdateRepository \<Rightarrow> string \<Rightarrow> string + UpdateRepository" where
  "UpdateRepository_Deactivate r idHex =
     UpdateRepository_Update r idHex \<lparr>set_isActive = Some False, set_rolloutPercentage = None\<rparr>"

definition UpdateRepository_SetRollout ::
  "UpdateRepository \<Rightarrow> string \<Rightarrow> int \<Rightarrow> string + UpdateRepository" where
  "UpdateRepository_SetRollout r idHex percentage =
     (let p1 = (if percentage < 0 then 0 else percentage);
          p2 = (if p1 > 100 then 100 else p1)
      in UpdateRepository_Update r idHex \<lparr>set_isActive = None, set_rolloutPercentage = Some p2\<rparr>)"

text \<open>\<open>IncrementDownloads\<close>: errors are swallowed, so the result is the repository alone.\<close>

definition UpdateRepository_IncrementDownloads :: "UpdateRepository \<Rightarrow> string \<Rightarrow> UpdateRepository" where
  "UpdateRepository_IncrementDownloads r updateID =
     (case r of
        None \<Rightarrow> None
      | Some coll \<Rightarrow>
          (case ObjectIDFromHex updateID of
             None \<Rightarrow> r
           | Some objectID \<Rightarrow>
               (case fault coll of
                  Some e \<Rightarrow> r
                | None \<Rightarrow>
                    Some (coll\<lparr>docs :=
                      updateOne (\<lambda>u. ID u = objectID) (\<lambda>u. u\<lparr>Downloads := Downloads u + 1\<rparr>)
                        (docs coll)\<rparr>))))"

section \<open>database: the project repository\<close>

text \<open>
  The collection \<open>projects\<close>, with the error the driver returns while the server
  is unreachable. A \<open>ProjectRepository\<close> is the \<open>collection\<close> field of the struct,
  nil when the server runs without a database.
\<close>

record ProjectCollection =
  projectDocs :: "Project list"
  projectFault :: "string option"

type_synonym ProjectRepository = "ProjectCollection option"

text \<open>
  \<open>EnsureProjectExists\<close>: \<open>UpdateOne\<close> with the filter \<open>slug\<close>, the update
  \<open>$setOnInsert\<close> and the option \<open>upsert\<close>. A matching document is left as it is;
  without one, the document made of the filter and the \<open>$setOnInsert\<close> fields is
  inserted, with the clock reading \<open>now\<close> and the ObjectID \<open>newID\<close> the server
  generates. The result is the error, if any, and the repository afterwards.
\<close>

definition EnsureProjectExists ::
  "ProjectRepository \<Rightarrow> int \<Rightarrow> string \<Rightarrow> string \<Rightarrow> string \<Rightarrow> string option \<times> ProjectRepository" where
  "EnsureProjectExists r now newID slug name =
     (case r of
        None \<Rightarrow> (None, None)
      | Some coll \<Rightarrow>
          (case projectFault coll of
             Some e \<Rightarrow> (Some e, r)
           | None \<Rightarrow>
               if list_ex (\<lambda>p. Slug p = slug) (projectDocs coll) then (None, r)
               else (None,
                     Some (coll\<lparr>projectDocs := projectDocs coll @
                       [\<lparr>Project_ID = newID, Slug = slug, Name = name, Description = [],
                         Project_CreatedAt = now, UpdateCount = 0\<rparr>]\<rparr>))))"

section \<open>services\<close>

subsection \<open>Hashing\<close>

definition ComputeSHA256Hash :: "string \<Rightarrow> string" where
  "ComputeSHA256Hash data = hex_EncodeToString (sha256_Sum256 data)"

definition ComputeSHA256HashBytes :: "string \<Rightarrow> string" where
  "ComputeSHA256HashBytes data = sha256_Sum256 data"

definition Base64URLEncode :: "string \<Rightarrow> string" where
  "Base64URLEncode data = RawURLEncoding_EncodeToString data"

definition ConvertSHA256ToUUID :: "string \<Rightarrow> string" where
  "ConvertSHA256ToUUID hash =
     (if length hash < 32 then hash
      else take 8 hash @ ''-'' @ take 4 (drop 8 hash) @ ''-'' @ take 4 (drop 12 hash) @ ''-'' @
           take 4 (drop 16 hash) @ ''-'' @ take 12 (drop 20 hash))"

subsection \<open>Signing\<close>

text \<open>
  The service holds an RSA private key or none. A loaded key is the function it
  computes: from the document to the standard-base64 PKCS#1 v1.5 signature of its
  SHA-256 digest, or \<open>None\<close> when \<open>rsa.SignPKCS1v15\<close> fails.
\<close>

type_synonym SigningService = "(json \<Rightarrow> string option) option"

definition IsLoaded :: "SigningService \<Rightarrow> bool" where
  "IsLoaded s = (s \<noteq> None)"

definition SignManifest :: "SigningService \<Rightarrow> json \<Rightarrow> string + string" where
  "SignManifest s data =
     (case s of
        None \<Rightarrow> Inl ''private key not loaded''
      | Some privateKey \<Rightarrow>
          (case privateKey data of
             None \<Rightarrow> Inl ''failed to sign''
           | Some signature \<Rightarrow> Inr signature))"

definition CreateSignatureHeader :: "SigningService \<Rightarrow> json \<Rightarrow> string + string" where
  "CreateSignatureHeader s data =
     (case SignManifest s data of
        Inl err \<Rightarrow> Inl err
      | Inr sig \<Rightarrow> Inr (''sig='' @ [CHR 0x22] @ sig @ [CHR 0x22] @ '', keyid='' @ [CHR 0x22] @ ''main'' @ [CHR 0x22]))"

subsection \<open>Rollout\<close>

text \<open>
  The service's state is its random generator; \<open>nextIntn\<close> is the value the next
  call \<open>rng.Intn(100)\<close> returns.
\<close>

record RolloutService =
  nextIntn :: int

definition hashSum :: "string \<Rightarrow> int" where
  "hashSum deviceHash = foldl (\<lambda>s c. wrap64 (s + int c)) 0 (rangeRunes deviceHash)"

definition deterministicRollout :: "int \<Rightarrow> string \<Rightarrow> bool" where
  "deterministicRollout percentage deviceHash =
     (let bucket = go_rem (hashSum deviceHash) 100 in bucket < percentage)"

definition ShouldReceiveUpdate :: "RolloutService \<Rightarrow> int \<Rightarrow> string \<Rightarrow> bool" where
  "ShouldReceiveUpdate r percentage deviceHash =
     (if percentage \<ge> 100 then True
      else if percentage \<le> 0 then False
      else if deviceHash \<noteq> [] then deterministicRollout percentage deviceHash
      else nextIntn r < percentage)"

definition CalculateRolloutBucket :: "string \<Rightarrow> int" where
  "CalculateRolloutBucket deviceHash = go_rem (hashSum deviceHash) 100"

section \<open>The environment of the handlers\<close>

subsection \<open>path/filepath: \<open>Clean\<close> and \<open>Join\<close>\<close>

fun splitOn :: "char \<Rightarrow> string \<Rightarrow> string \<Rightarrow> string list" where
  "splitOn sep [] cur = [rev cur]"
| "splitOn sep (c # s) cur =
     (if c = sep then rev cur # splitOn sep s [] else splitOn sep s (c # cur))"

fun joinSlash :: "string list \<Rightarrow> string" where
  "joinSlash [] = []"
| "joinSlash [x] = x"
| "joinSlash (x # y # r) = x @ ''/'' @ joinSlash (y # r)"

text \<open>
  One element of the path against the stack of elements kept so far (innermost
  first): empty and \<open>.\<close> elements vanish, \<open>..\<close> removes the element before it,
  is dropped at the root, and is kept at the front of a relative path.
\<close>

definition cleanStep :: "bool \<Rightarrow> string list \<Rightarrow> string \<Rightarrow> string list" where
  "cleanStep rooted stack elem =
     (if elem = [] \<or> elem = ''.'' then stack
      else if elem = ''..'' then
        (case stack of
           [] \<Rightarrow> if rooted then [] else [''..'']
         | el # rest \<Rightarrow> if el = ''..'' then ''..'' # stack else rest)
      else elem # stack)"

definition filepath_Clean :: "string \<Rightarrow> string" where
  "filepath_Clean p =
     (if p = [] then ''.''
      else (let rooted = (hd p = CHR ''/'');
                body = joinSlash (rev (foldl (cleanStep rooted) [] (splitOn (CHR ''/'') p [])))
            in if rooted then CHR ''/'' # body
               else if body = [] then ''.'' else body))"

definition filepath_Join :: "string \<Rightarrow> string \<Rightarrow> string" where
  "filepath_Join a b =
     (if a \<noteq> [] then filepath_Clean (a @ ''/'' @ b)
      else if b \<noteq> [] then filepath_Clean b
      else [])"

subsection \<open>The file system, the configuration and the JSON decoder\<close>

datatype file_state = NotExist | Directory | Unreadable | Regular string

text \<open>
  \<open>Hostname\<close> is \<open>config.AppConfig.Hostname\<close>; \<open>Files\<close> is the file system, by
  path; \<open>filepath_Rel\<close> is \<open>filepath.Rel\<close> (\<open>None\<close> for its error);
  \<open>json_Unmarshal_map\<close> is \<open>json.Unmarshal\<close> into a \<open>map[string]interface{}\<close>
  (\<open>JNull\<close> for a nil map) and \<open>json_Unmarshal_UpdateMetadata\<close> into an
  \<open>UpdateMetadata\<close>, \<open>None\<close> for a decoding error; \<open>url_parseAuthority\<close> is
  the authority parser of \<open>net/url\<close> (user information, host and port): the
  host it finds, \<open>None\<close> for its error; \<open>unicode_CaseTable\<close> is the lower-case
  mapping of package \<open>unicode\<close> for the runes beyond ASCII.
\<close>

record Env =
  Hostname :: string
  Files :: "string \<Rightarrow> file_state"
  filepath_Rel :: "string \<Rightarrow> string \<Rightarrow> string option"
  json_Unmarshal_map :: "string \<Rightarrow> json option"
  json_Unmarshal_UpdateMetadata :: "string \<Rightarrow> UpdateMetadata option"
  url_parseAuthority :: "string \<Rightarrow> string option"
  unicode_CaseTable :: "rune \<Rightarrow> rune"

definition os_ReadFile :: "Env \<Rightarrow> string \<Rightarrow> string option" where
  "os_ReadFile env p = (case Files env p of Regular data \<Rightarrow> Some data | _ \<Rightarrow> None)"

subsection \<open>net/url and net/http: the \<open>Location\<close> of \<open>http.Redirect\<close>\<close>

definition isLetter :: "char \<Rightarrow> bool" where
  "isLetter c =
     (let n = (of_char c :: nat) in (97 \<le> n \<and> n \<le> 122) \<or> (65 \<le> n \<and> n \<le> 90))"

definition ishex :: "char \<Rightarrow> bool" where
  "ishex c =
     (let n = (of_char c :: nat)
      in (48 \<le> n \<and> n \<le> 57) \<or> (97 \<le> n \<and> n \<le> 102) \<or> (65 \<le> n \<and> n \<le> 70))"

definition strings_HasSuffix :: "string \<Rightarrow> string \<Rightarrow> bool" where
  "strings_HasSuffix s suffix =
     (length suffix \<le> length s \<and> drop (length s - length suffix) s = suffix)"

text \<open>
  \<open>strings.Cut\<close> at a one-byte separator: the text before and after its first
  occurrence, the whole string and the empty one when there is none.
\<close>

definition strings_Cut :: "string \<Rightarrow> char \<Rightarrow> string \<times> string" where
  "strings_Cut s sep =
     (takeWhile (\<lambda>c. c \<noteq> sep) s, drop 1 (dropWhile (\<lambda>c. c \<noteq> sep) s))"

definition stringContainsCTLByte :: "string \<Rightarrow> bool" where
  "stringContainsCTLByte s =
     list_ex (\<lambda>c. (of_char c :: nat) < 0x20 \<or> (of_char c :: nat) = 0x7f) s"

text \<open>
  \<open>getScheme\<close>, as a scan of the bytes not yet read (\<open>pre\<close> holds the bytes read,
  so \<open>pre = []\<close> is \<open>i == 0\<close>): the scheme and the rest, the empty scheme and the
  whole string when there is no scheme, \<open>None\<close> for the error of a leading colon.
\<close>

fun schemeScan :: "string \<Rightarrow> string \<Rightarrow> string \<Rightarrow> (string \<times> string) option" where
  "schemeScan rawURL pre [] = Some ([], rawURL)"
| "schemeScan rawURL pre (c # r) =
     (if isLetter c then schemeScan rawURL (pre @ [c]) r
      else if isDigit c \<or> c = CHR ''+'' \<or> c = CHR ''-'' \<or> c = CHR ''.'' then
        (if pre = [] then Some ([], rawURL) else schemeScan rawURL (pre @ [c]) r)
      else if c = CHR '':'' then (if pre = [] then None else Some (pre, r))
      else Some ([], rawURL))"

definition getScheme :: "string \<Rightarrow> (string \<times> string) option" where
  "getScheme rawURL = schemeScan rawURL [] rawURL"

text \<open>
  \<open>unescape\<close> in the modes of a path and of a fragment fails only on a per cent
  sign that is not followed by two hexadecimal digits.
\<close>

fun validEscapes :: "string \<Rightarrow> bool" where
  "validEscapes [] = True"
| "validEscapes (c # s) =
     (if c = CHR ''%'' then
        (case s of
           h1 # h2 # r \<Rightarrow> ishex h1 \<and> ishex h2 \<and> validEscapes r
         | _ \<Rightarrow> False)
      else validEscapes s)"

text \<open>
  \<open>url.Parse\<close>, as far as \<open>http.Redirect\<close> looks at its result: the scheme and the
  host, \<open>None\<close> for an error. The query is split off at the first question mark
  (with or without \<open>ForceQuery\<close>, the rest is the text before it). A reference
  with a scheme and no leading slash is opaque; without a scheme its first
  segment must not contain a colon; an authority follows two slashes (not three,
  unless there is a scheme).
\<close>

definition url_parse :: "Env \<Rightarrow> urlstring \<Rightarrow> (string \<times> string) option" where
  "url_parse env rawURL =
     (if stringContainsCTLByte rawURL then None
      else if rawURL = ''*'' then Some ([], [])
      else
        (case getScheme rawURL of
           None \<Rightarrow> None
         | Some (scheme0, rest0) \<Rightarrow>
             (let scheme = map toLowerChar scheme0;
                  rest = fst (strings_Cut rest0 (CHR ''?''))
              in if \<not> strings_HasPrefix rest ''/'' \<and> scheme \<noteq> [] then Some (scheme, [])
                 else if \<not> strings_HasPrefix rest ''/'' \<and>
                         strings_Contains (fst (strings_Cut rest (CHR ''/''))) '':'' then None
                 else if (scheme \<noteq> [] \<or> \<not> strings_HasPrefix rest ''///'') \<and>
                         strings_HasPrefix rest ''//'' then
                   (let authority = takeWhile (\<lambda>c. c \<noteq> CHR ''/'') (drop 2 rest);
                        path = dropWhile (\<lambda>c. c \<noteq> CHR ''/'') (drop 2 rest)
                    in case url_parseAuthority env authority of
                         None \<Rightarrow> None
                       | Some host \<Rightarrow> if validEscapes path then Some (scheme, host) else None)
                 else if validEscapes rest then Some (scheme, []) else None)))"

definition url_Parse :: "Env \<Rightarrow> urlstring \<Rightarrow> (string \<times> string) option" where
  "url_Parse env rawURL =
     (case strings_Cut rawURL (CHR ''#'') of
        (u, frag) \<Rightarrow>
          (case url_parse env u of
             None \<Rightarrow> None
           | Some parsed \<Rightarrow>
               if frag = [] then Some parsed
               else if validEscapes frag then Some parsed else None))"

text \<open>\<open>hexEscapeNonASCII\<close>: every byte from 0x80 on becomes a per cent sign and two hexadecimal digits.\<close>

definition hexEscapeNonASCII :: "string \<Rightarrow> string" where
  "hexEscapeNonASCII s =
     concat (map (\<lambda>c. if (of_char c :: nat) < 0x80 then [c]
                       else CHR ''%'' # hex_EncodeToString [c]) s)"

text \<open>
  The \<open>Location\<close> header \<open>http.Redirect\<close> sets for the target \<open>url\<close> on a request
  with the path \<open>urlPath\<close>. A target that parses without scheme and without host
  is made absolute against the directory of the request path and cleaned
  (\<open>path.Clean\<close> is \<open>filepath.Clean\<close> with the slash as separator), keeping a
  trailing slash and the query; any other target is left as it is.
\<close>

definition http_RedirectLocation :: "Env \<Rightarrow> string \<Rightarrow> urlstring \<Rightarrow> urlstring" where
  "http_RedirectLocation env urlPath url =
     hexEscapeNonASCII
       (case url_Parse env url of
          None \<Rightarrow> url
        | Some (scheme, host) \<Rightarrow>
            if scheme = [] \<and> host = [] then
              (let oldpath = (if urlPath = [] then ''/'' else urlPath);
                   olddir = rev (dropWhile (\<lambda>c. c \<noteq> CHR ''/'') (rev oldpath));
                   url1 = (if url = [] \<or> hd url \<noteq> CHR ''/'' then olddir @ url else url);
                   url2 = takeWhile (\<lambda>c. c \<noteq> CHR ''?'') url1;
                   query = dropWhile (\<lambda>c. c \<noteq> CHR ''?'') url1;
                   trailing = strings_HasSuffix url2 ''/'';
                   url3 = filepath_Clean url2;
                   url4 = (if trailing \<and> \<not> strings_HasSuffix url3 ''/'' then url3 @ ''/'' else url3)
               in url4 @ query)
            else url)"

subsection \<open>gin: requests and responses\<close>

text \<open>
  \<open>URLPath\<close> is \<open>c.Request.URL.Path\<close>; \<open>Headers\<close> is \<open>c.GetHeader\<close> and
  \<open>Params\<close> is \<open>c.Param\<close> (both empty when absent); \<open>QueryValues\<close> is the
  query string.
\<close>

record Request =
  Method :: string
  URLPath :: string
  Headers :: "string \<Rightarrow> string"
  QueryValues :: "string \<rightharpoonup> string"
  Params :: "string \<Rightarrow> string"

definition c_Query :: "Request \<Rightarrow> string \<Rightarrow> string" where
  "c_Query req k = (case QueryValues req k of None \<Rightarrow> [] | Some v \<Rightarrow> v)"

definition c_DefaultQuery :: "Request \<Rightarrow> string \<Rightarrow> string \<Rightarrow> string" where
  "c_DefaultQuery req k d = (case QueryValues req k of None \<Rightarrow> d | Some v \<Rightarrow> v)"

text \<open>
  The responses the handlers write: \<open>c.JSON\<close>; \<open>c.JSON\<close> of a \<open>gin.H\<close> that
  carries an update record under one key beside its other entries; the multipart
  reply (status, response headers, part headers, part body; its content type is
  \<open>multipart/mixed\<close> with the writer's boundary); \<open>c.Redirect\<close>; \<open>c.Status\<close>;
  and \<open>c.DataFromReader\<close> (status, headers, content type, bytes).
\<close>

datatype response =
    JSON nat json
  | JSONWithUpdate nat "(string \<times> json) list" string Update
  | Multipart nat "(string \<times> string) list" "(string \<times> string) list" json
  | Redirect nat string
  | DataFromReader nat "(string \<times> string) list" string string

definition errorBody :: "string \<Rightarrow> json" where
  "errorBody msg = JObject [(''error'', JString msg)]"

section \<open>handlers: the manifest endpoint\<close>

record ManifestHandler =
  signingService :: SigningService
  rolloutService :: RolloutService
  updateRepo :: UpdateRepository
  updatesDir :: string

definition sendMultipartResponse :: "string \<Rightarrow> json \<Rightarrow> string \<Rightarrow> int \<Rightarrow> response" where
  "sendMultipartResponse partName data signature protocolVersion =
     Multipart 200
       [(''expo-protocol-version'', strconv_Itoa protocolVersion),
        (''expo-sfv-version'', ''0''),
        (''cache-control'', ''private, max-age=0'')]
       ([(''Content-Type'', ''application/json''),
         (''Content-Disposition'', ''form-data; name='' @ [CHR 0x22] @ partName @ [CHR 0x22])] @
        (if signature \<noteq> [] then [(''expo-signature'', signature)] else []))
       data"

text \<open>
  The signature the three senders compute: empty unless the client sent
  \<open>expo-expect-signature\<close> and a key is loaded, and empty when signing fails.
\<close>

definition signatureFor :: "ManifestHandler \<Rightarrow> Request \<Rightarrow> json \<Rightarrow> string" where
  "signatureFor h req data =
     (if Headers req ''expo-expect-signature'' \<noteq> [] \<and> IsLoaded (signingService h) then
        (case CreateSignatureHeader (signingService h) data of Inl err \<Rightarrow> [] | Inr s \<Rightarrow> s)
      else [])"

definition handleNoUpdateAvailable :: "ManifestHandler \<Rightarrow> Request \<Rightarrow> int \<Rightarrow> response" where
  "handleNoUpdateAvailable h req protocolVersion =
     (if protocolVersion = 0 then JSON 404 (errorBody ''No update available'')
      else (let directive = JObject [(''type'', JString ''noUpdateAvailable'')]
            in sendMultipartResponse ''directive'' directive (signatureFor h req directive)
                 protocolVersion))"

definition assetContentType :: "string \<Rightarrow> bool \<Rightarrow> string" where
  "assetContentType ext isLaunchAsset =
     (if isLaunchAsset then ''application/javascript''
      else if ext = ''png'' then ''image/png''
      else if ext = ''jpg'' \<or> ext = ''jpeg'' then ''image/jpeg''
      else if ext = ''gif'' then ''image/gif''
      else if ext = ''svg'' then ''image/svg+xml''
      else if ext = ''ttf'' then ''font/ttf''
      else if ext = ''otf'' then ''font/otf''
      else if ext = ''woff'' then ''font/woff''
      else if ext = ''woff2'' then ''font/woff2''
      else ''application/octet-stream'')"

definition assetInfo :: "string \<Rightarrow> string \<Rightarrow> string \<Rightarrow> string \<Rightarrow> string \<Rightarrow> json" where
  "assetInfo hash key fileExt contentType url =
     JObject [(''contentType'', JString contentType), (''fileExtension'', JString fileExt),
              (''hash'', JString hash), (''key'', JString key), (''url'', JString url)]"

definition getAssetInfoFromMetadataOrFile ::
  "Env \<Rightarrow> ManifestHandler \<Rightarrow> filepath \<Rightarrow> filepath \<Rightarrow> string \<Rightarrow> string \<Rightarrow> string \<Rightarrow>
   urlstring \<Rightarrow> string \<Rightarrow> string \<Rightarrow> string \<Rightarrow> string \<Rightarrow> bool \<Rightarrow> string + json" where
  "getAssetInfoFromMetadataOrFile env h updateBundlePath assetPath ext key hash url
       updateObjectID isLaunchAssetParam runtimeVersion platform isLaunchAsset =
     (let contentType = assetContentType ext isLaunchAsset;
          fileExt = (if isLaunchAsset then ''.bundle'' else ''.'' @ ext);
          relPath = (if filepath_IsAbs assetPath then
                       (case filepath_Rel env (updatesDir h) assetPath of
                          Some p \<Rightarrow> p | None \<Rightarrow> assetPath)
                     else assetPath);
          url0 = Hostname env @ ''/api/assets?asset='' @ filepath_ToSlash relPath @
                 ''&runtimeVersion='' @ runtimeVersion @ ''&platform='' @ platform;
          url1 = (if url \<noteq> [] then url0 @ ''&redirect='' @ url else url0);
          url2 = (if isLaunchAssetParam = ''true'' then url1 @ ''&isLaunchAsset=true'' else url1);
          baseAssetURL = (if updateObjectID \<noteq> [] then url2 @ ''&updateId='' @ updateObjectID else url2)
      in if key \<noteq> [] \<and> hash \<noteq> [] then Inr (assetInfo hash key fileExt contentType baseAssetURL)
         else (case os_ReadFile env (filepath_Join updateBundlePath assetPath) of
                 None \<Rightarrow> Inl ''read error''
               | Some data \<Rightarrow>
                   Inr (assetInfo (Base64URLEncode (ComputeSHA256HashBytes data))
                          (take 32 (ComputeSHA256Hash data)) fileExt contentType baseAssetURL)))"

definition getExpoConfig :: "Env \<Rightarrow> string \<Rightarrow> json" where
  "getExpoConfig env updateBundlePath =
     (case os_ReadFile env (filepath_Join updateBundlePath ''expoConfig.json'') of
        None \<Rightarrow> JNull
      | Some data \<Rightarrow> (case json_Unmarshal_map env data of None \<Rightarrow> JNull | Some config \<Rightarrow> config))"

text \<open>
  \<open>sendManifest\<close> receives the metadata after a marshal/unmarshal round trip into
  generic maps; the model reads the same fields from the typed record: a nil
  \<open>FileMetadata\<close> fails the first type assertion, a missing platform the second,
  and an empty \<open>ExpoConfig\<close> is absent from the generic map.
\<close>

definition sendManifest ::
  "Env \<Rightarrow> ManifestHandler \<Rightarrow> Request \<Rightarrow> string \<Rightarrow> UpdateMetadata \<Rightarrow> string \<Rightarrow> string \<Rightarrow>
   string \<Rightarrow> string \<Rightarrow> string \<Rightarrow> int \<Rightarrow> response" where
  "sendManifest env h req updateBundlePath metadata updateID updateObjectID createdAt
       runtimeVersion platform protocolVersion =
     (case FileMetadata metadata of
        None \<Rightarrow> JSON 500 (errorBody ''Invalid metadata format'')
      | Some fileMetadata \<Rightarrow>
          (case fileMetadata platform of
             None \<Rightarrow> JSON 500 (errorBody ''No metadata for platform'')
           | Some platformMetadata \<Rightarrow>
               (let assets =
                      List.map_filter
                        (\<lambda>a. case getAssetInfoFromMetadataOrFile env h updateBundlePath (Path a)
                                    (Ext a) (Key a) (Hash a) (Url a) [] [] runtimeVersion platform
                                    False of
                               Inl err \<Rightarrow> None | Inr info \<Rightarrow> Some info)
                        (Assets platformMetadata)
                in case getAssetInfoFromMetadataOrFile env h updateBundlePath
                          (Bundle platformMetadata) ''bundle'' (BundleKey platformMetadata)
                          (BundleHash platformMetadata) (BundleUrl platformMetadata)
                          updateObjectID ''true'' runtimeVersion platform True of
                     Inl err \<Rightarrow> JSON 500 (errorBody ''Failed to get launch asset'')
                   | Inr launchAsset \<Rightarrow>
                       (let expoConfig =
                              (if ExpoConfig metadata \<noteq> [] then JObject (ExpoConfig metadata)
                               else getExpoConfig env updateBundlePath);
                            manifest =
                              JObject [(''assets'', JArray assets),
                                       (''createdAt'', JString createdAt),
                                       (''extra'', JObject [(''expoClient'', expoConfig)]),
                                       (''id'', JString updateID),
                                       (''launchAsset'', launchAsset),
                                       (''metadata'', JObject []),
                                       (''runtimeVersion'', JString runtimeVersion)]
                        in sendMultipartResponse ''manifest'' manifest
                             (signatureFor h req manifest) protocolVersion))))"

definition ManifestHandler_Handle :: "Env \<Rightarrow> ManifestHandler \<Rightarrow> Request \<Rightarrow> response" where
  "ManifestHandler_Handle env h req =
     (if Method req \<noteq> ''GET'' then JSON 405 (errorBody ''Expected GET.'')
      else
        (let protocolVersionStr =
               (if Headers req ''expo-protocol-version'' = [] then ''0''
                else Headers req ''expo-protocol-version'');
             protocolVersion = strconv_Atoi protocolVersionStr;
             platform =
               (if Headers req ''expo-platform'' = [] then c_Query req ''platform''
                else Headers req ''expo-platform'')
         in if platform \<noteq> ''ios'' \<and> platform \<noteq> ''android'' then
              JSON 400 (errorBody ''Unsupported platform. Expected either ios or android.'')
            else
              (let runtimeVersion =
                     (if Headers req ''expo-runtime-version'' = [] then c_Query req ''runtime-version''
                      else Headers req ''expo-runtime-version'')
               in if runtimeVersion = [] then JSON 400 (errorBody ''No runtimeVersion provided.'')
                  else
                    (let channel =
                           (if Headers req ''expo-channel-name'' = [] then ''production''
                            else Headers req ''expo-channel-name'');
                         currentUpdateID = Headers req ''expo-current-update-id'';
                         projectSlug = Params req ''projectSlug''
                     in if projectSlug = [] then JSON 400 (errorBody ''Project slug is required'')
                        else if updateRepo h = None then
                          JSON 503 (errorBody ''Database not connected'')
                        else
                          (case UpdateRepository_FindLatest (updateRepo h) projectSlug
                                  runtimeVersion channel platform of
                             Inl err \<Rightarrow> handleNoUpdateAvailable h req protocolVersion
                           | Inr None \<Rightarrow> handleNoUpdateAvailable h req protocolVersion
                           | Inr (Some update) \<Rightarrow>
                               if IsRollback update then
                                 (let embeddedUpdateID = Headers req ''expo-embedded-update-id''
                                  in if currentUpdateID = embeddedUpdateID then
                                       handleNoUpdateAvailable h req protocolVersion
                                     else
                                       (let directive =
                                              JObject
                                                [(''parameters'',
                                                  JObject [(''commitTime'',
                                                    JString (FormatUTCMillis (CreatedAt update)))]),
                                                 (''type'', JString ''rollBackToEmbedded'')]
                                        in sendMultipartResponse ''directive'' directive
                                             (signatureFor h req directive) protocolVersion))
                               else if currentUpdateID = UpdateID update \<and> protocolVersion = 1 then
                                 handleNoUpdateAvailable h req protocolVersion
                               else
                                 (case Metadata update of
                                    None \<Rightarrow> JSON 500 (errorBody ''Update metadata missing'')
                                  | Some metadata \<Rightarrow>
                                      sendManifest env h req (BundlePath update) metadata
                                        (UpdateID update) (ID update)
                                        (FormatUTCMillis (CreatedAt update)) runtimeVersion
                                        platform protocolVersion))))))"

section \<open>handlers: the asset endpoint\<close>

definition getContentType :: "Env \<Rightarrow> string \<Rightarrow> string" where
  "getContentType env path =
     (let ext = strings_ToLower (unicode_CaseTable env) (filepath_Ext path)
      in if ext = ''.js'' \<or> ext = ''.hbc'' then ''application/javascript''
         else if ext = ''.bundle'' then ''application/javascript''
         else if ext = ''.png'' then ''image/png''
         else if ext = ''.jpg'' \<or> ext = ''.jpeg'' then ''image/jpeg''
         else if ext = ''.gif'' then ''image/gif''
         else if ext = ''.svg'' then ''image/svg+xml''
         else if ext = ''.webp'' then ''image/webp''
         else if ext = ''.ttf'' then ''font/ttf''
         else if ext = ''.otf'' then ''font/otf''
         else if ext = ''.woff'' then ''font/woff''
         else if ext = ''.woff2'' then ''font/woff2''
         else if ext = ''.json'' then ''application/json''
         else ''application/octet-stream'')"

text \<open>
  The handler of \<open>/api/assets\<close>, over the fields \<open>updatesDir\<close> and \<open>updateRepo\<close> of
  its struct. \<open>c.Redirect\<close> renders through \<open>http.Redirect\<close>. The second
  component is the repository once the detached download-counter task, when one
  was started, has run. An opened directory streams no bytes.
\<close>

definition AssetsHandler_Handle ::
  "Env \<Rightarrow> string \<Rightarrow> UpdateRepository \<Rightarrow> Request \<Rightarrow> response \<times> UpdateRepository" where
  "AssetsHandler_Handle env assetsUpdatesDir assetsUpdateRepo req =
     (let assetName = c_Query req ''asset'';
          platform = c_Query req ''platform'';
          runtimeVersion = c_Query req ''runtimeVersion'';
          redirectUrl = c_Query req ''redirect'';
          updateId = c_Query req ''updateId'';
          isLaunchAsset = c_Query req ''isLaunchAsset''
      in if redirectUrl \<noteq> [] then
           (Redirect 302 (http_RedirectLocation env (URLPath req) redirectUrl),
            if isLaunchAsset = ''true'' \<and> updateId \<noteq> [] \<and> assetsUpdateRepo \<noteq> None then
              UpdateRepository_IncrementDownloads assetsUpdateRepo updateId
            else assetsUpdateRepo)
         else if assetName = [] then
           (JSON 400 (errorBody ''No asset name provided.''), assetsUpdateRepo)
         else if platform \<noteq> ''ios'' \<and> platform \<noteq> ''android'' then
           (JSON 400 (errorBody (''No platform provided. Expected '' @ [CHR 0x22] @ ''ios'' @
              [CHR 0x22] @ '' or '' @ [CHR 0x22] @ ''android'' @ [CHR 0x22] @ ''.'')),
            assetsUpdateRepo)
         else if runtimeVersion = [] then
           (JSON 400 (errorBody ''No runtimeVersion provided.''), assetsUpdateRepo)
         else
           (let cleanPath = filepath_Clean assetName
            in if strings_Contains cleanPath ''..'' then
                 (JSON 400 (errorBody ''Invalid asset path.''), assetsUpdateRepo)
               else
                 (let assetPath = filepath_Join assetsUpdatesDir (filepath_FromSlash cleanPath)
                  in case Files env assetPath of
                       NotExist \<Rightarrow>
                         (JSON 404 (errorBody (''Asset '' @ [CHR 0x22] @ assetName @ [CHR 0x22] @
                            '' does not exist.'')), assetsUpdateRepo)
                     | Unreadable \<Rightarrow>
                         (JSON 500 (errorBody ''Failed to open asset.''), assetsUpdateRepo)
                     | Directory \<Rightarrow>
                         (DataFromReader 200
                            [(''Cache-Control'', ''public, max-age=31536000, immutable'')]
                            (getContentType env assetPath) [], assetsUpdateRepo)
                     | Regular data \<Rightarrow>
                         (DataFromReader 200
                            [(''Cache-Control'', ''public, max-age=31536000, immutable'')]
                            (getContentType env assetPath) data, assetsUpdateRepo))))"

section \<open>handlers: the admin surface\<close>

subsection \<open>RegisterUpdate (ingestion)\<close>

text \<open>
  The outcomes of the I/O steps of one ingestion request, in the order the handler
  performs them: parsing the multipart form; the form fields; the \<open>bundle\<close> file
  (its error, or its file name); the identifier \<open>services.GenerateUUID\<close> returns;
  the temporary directory (\<open>None\<close> for the error of \<open>os.MkdirTemp\<close>); creating
  and writing the ZIP; unpacking it; the entries (name, is-directory) of the
  extraction directory; the upload of the tree to the object store (\<open>None\<close> when
  the store is not connected, else the error or the map from relative path to
  URL); the clock and the ObjectID of the project upsert; the clock and the
  ObjectID of the insert. The unpacked tree itself is in \<open>Files\<close>.
\<close>

record UploadIO =
  ParseMultipartFormErr :: "string option"
  PostFormValues :: "string \<rightharpoonup> string"
  FormFileBundle :: "string + string"
  GenerateUUID :: string
  MkdirTemp :: "string option"
  CreateZipOk :: bool
  CopyZipOk :: bool
  UnzipErr :: "string option"
  ReadDirExtracted :: "(string \<times> bool) list option"
  UploadDirectory :: "(string + (string \<rightharpoonup> string)) option"
  ProjectTimeNow :: int
  ProjectInsertedID :: string
  TimeNow :: int
  InsertedID :: string

definition c_PostForm :: "UploadIO \<Rightarrow> string \<Rightarrow> string" where
  "c_PostForm io k = (case PostFormValues io k of None \<Rightarrow> [] | Some v \<Rightarrow> v)"

definition c_DefaultPostForm :: "UploadIO \<Rightarrow> string \<Rightarrow> string \<Rightarrow> string" where
  "c_DefaultPostForm io k d = (case PostFormValues io k of None \<Rightarrow> d | Some v \<Rightarrow> v)"

text \<open>The root of the unpacked build: a single wrapping directory, or \<open>dist\<close>.\<close>

definition resolveBundlePath :: "Env \<Rightarrow> UploadIO \<Rightarrow> string \<Rightarrow> string" where
  "resolveBundlePath env io extracted =
     (case ReadDirExtracted io of
        Some [(name, True)] \<Rightarrow> filepath_Join extracted name
      | _ \<Rightarrow>
          if Files env (filepath_Join extracted ''metadata.json'') = NotExist then
            (let distPath = filepath_Join extracted ''dist''
             in if Files env distPath = Directory \<and>
                   Files env (filepath_Join distPath ''metadata.json'') \<noteq> NotExist
                then distPath else extracted)
          else extracted)"

text \<open>
  The hashing pass over the parsed metadata. A file that cannot be read is passed
  over: its entry keeps the key and hash it had.
\<close>

definition hashAsset :: "Env \<Rightarrow> string \<Rightarrow> Asset \<Rightarrow> Asset" where
  "hashAsset env bundlePath asset =
     (case os_ReadFile env (filepath_Join bundlePath (Path asset)) of
        Some data \<Rightarrow>
          asset\<lparr>Key := take 32 (ComputeSHA256Hash data),
                Hash := Base64URLEncode (ComputeSHA256HashBytes data)\<rparr>
      | None \<Rightarrow> asset)"

definition hashPlatform :: "Env \<Rightarrow> string \<Rightarrow> PlatformMetadata \<Rightarrow> PlatformMetadata" where
  "hashPlatform env bundlePath pm =
     (let pm1 =
            (case os_ReadFile env (filepath_Join bundlePath (Bundle pm)) of
               Some data \<Rightarrow>
                 pm\<lparr>BundleKey := take 32 (ComputeSHA256Hash data),
                    BundleHash := Base64URLEncode (ComputeSHA256HashBytes data)\<rparr>
             | None \<Rightarrow> pm)
      in pm1\<lparr>Assets := map (hashAsset env bundlePath) (Assets pm1)\<rparr>)"

definition computeHashes :: "Env \<Rightarrow> string \<Rightarrow> UpdateMetadata \<Rightarrow> UpdateMetadata" where
  "computeHashes env bundlePath metadata =
     metadata\<lparr>FileMetadata :=
       map_option (\<lambda>fm. map_option (hashPlatform env bundlePath) \<circ> fm) (FileMetadata metadata)\<rparr>"

text \<open>Reading \<open>metadata.json\<close> and \<open>expoConfig.json\<close>; \<open>None\<close> is the nil pointer.\<close>

definition parseMetadata :: "Env \<Rightarrow> string \<Rightarrow> UpdateMetadata option" where
  "parseMetadata env bundlePath =
     (case os_ReadFile env (filepath_Join bundlePath ''metadata.json'') of
        None \<Rightarrow> None
      | Some metadataFile \<Rightarrow>
          (case json_Unmarshal_UpdateMetadata env metadataFile of
             None \<Rightarrow> None
           | Some metadata \<Rightarrow>
               (let metadata1 =
                      (case os_ReadFile env (filepath_Join bundlePath ''expoConfig.json'') of
                         None \<Rightarrow> metadata
                       | Some expoConfigFile \<Rightarrow>
                           (case json_Unmarshal_map env expoConfigFile of
                              None \<Rightarrow> metadata
                            | Some (JObject entries) \<Rightarrow> metadata\<lparr>ExpoConfig := entries\<rparr>
                            | Some _ \<Rightarrow> metadata\<lparr>ExpoConfig := []\<rparr>))
                in Some (computeHashes env bundlePath metadata1))))"

text \<open>Back-filling the object-store URLs from the upload map.\<close>

definition injectAssetUrl :: "(string \<rightharpoonup> string) \<Rightarrow> Asset \<Rightarrow> Asset" where
  "injectAssetUrl urlMap asset =
     (case urlMap (filepath_FromSlash (Path asset)) of
        Some url \<Rightarrow> asset\<lparr>Url := url\<rparr>
      | None \<Rightarrow> asset)"

definition injectUrls :: "(string \<rightharpoonup> string) \<Rightarrow> PlatformMetadata \<Rightarrow> PlatformMetadata" where
  "injectUrls urlMap pm =
     (let pm1 =
            (case urlMap (filepath_FromSlash (Bundle pm)) of
               Some url \<Rightarrow> pm\<lparr>BundleUrl := url\<rparr>
             | None \<Rightarrow> pm)
      in pm1\<lparr>Assets := map (injectAssetUrl urlMap) (Assets pm1)\<rparr>)"

definition uploadToCloudinary :: "UploadIO \<Rightarrow> UpdateMetadata option \<Rightarrow> UpdateMetadata option" where
  "uploadToCloudinary io md =
     (case UploadDirectory io of
        Some (Inr urlMap) \<Rightarrow>
          map_option
            (\<lambda>metadata. metadata\<lparr>FileMetadata :=
               map_option (\<lambda>fm. map_option (injectUrls urlMap) \<circ> fm) (FileMetadata metadata)\<rparr>)
            md
      | _ \<Rightarrow> md)"

text \<open>
  The handler, over the fields \<open>updateRepo\<close> and \<open>projectRepo\<close> of its struct
  (two pointers that may be nil): the response and the two repositories
  afterwards. The project is upserted once the build is unpacked, before the
  metadata is read; the error of the upsert is discarded.
\<close>

definition AdminHandler_RegisterUpdate ::
  "Env \<Rightarrow> UploadIO \<Rightarrow> UpdateRepository \<Rightarrow> ProjectRepository option \<Rightarrow>
   response \<times> UpdateRepository \<times> ProjectRepository option" where
  "AdminHandler_RegisterUpdate env io adminRepo projectRepo =
     (if adminRepo = None then
        (JSON 503 (errorBody ''Database not connected''), adminRepo, projectRepo)
      else
        (case ParseMultipartFormErr io of
           Some err \<Rightarrow>
             (JSON 400 (errorBody (''Failed to parse form: '' @ err)), adminRepo, projectRepo)
         | None \<Rightarrow>
             (let projectSlug = c_PostForm io ''projectSlug'';
                  runtimeVersion = c_PostForm io ''runtimeVersion'';
                  channel = c_DefaultPostForm io ''channel'' ChannelProduction;
                  platform = c_DefaultPostForm io ''platform'' PlatformAll;
                  rolloutStr = c_DefaultPostForm io ''rolloutPercentage'' ''100'';
                  updateID0 = c_PostForm io ''updateId''
              in if projectSlug = [] \<or> runtimeVersion = [] then
                   (JSON 400 (errorBody ''projectSlug and runtimeVersion are required''),
                    adminRepo, projectRepo)
                 else
                   (let rolloutPercentage = strconv_Atoi rolloutStr
                    in case FormFileBundle io of
                         Inl err \<Rightarrow>
                           (JSON 400 (errorBody (''Bundle file is required: '' @ err)),
                            adminRepo, projectRepo)
                       | Inr filename \<Rightarrow>
                           (let updateID = (if updateID0 = [] then GenerateUUID io else updateID0)
                            in case MkdirTemp io of
                                 None \<Rightarrow>
                                   (JSON 500 (errorBody ''Failed to create temp dir''),
                                    adminRepo, projectRepo)
                               | Some tempDir \<Rightarrow>
                                   if \<not> CreateZipOk io then
                                     (JSON 500 (errorBody ''Failed to save zip file''),
                                      adminRepo, projectRepo)
                                   else if \<not> CopyZipOk io then
                                     (JSON 500 (errorBody ''Failed to write zip file''),
                                      adminRepo, projectRepo)
                                   else
                                     (case UnzipErr io of
                                        Some err \<Rightarrow>
                                          (JSON 500 (errorBody (''Failed to unzip bundle: '' @ err)),
                                           adminRepo, projectRepo)
                                      | None \<Rightarrow>
                                          (let bundlePath =
                                                 resolveBundlePath env io
                                                   (filepath_Join tempDir ''extracted'');
                                               projects =
                                                 map_option
                                                   (\<lambda>r. snd (EnsureProjectExists r
                                                      (ProjectTimeNow io) (ProjectInsertedID io)
                                                      projectSlug projectSlug))
                                                   projectRepo;
                                               update =
                                                 \<lparr>ID = NilObjectID, ProjectSlug = projectSlug,
                                                  UpdateID = updateID,
                                                  RuntimeVersion = runtimeVersion,
                                                  Channel = channel, Platform = platform,
                                                  BundlePath = bundlePath, CreatedAt = zeroTime,
                                                  IsActive = True, IsRollback = False,
                                                  RolloutPercentage = rolloutPercentage,
                                                  Downloads = 0,
                                                  Metadata =
                                                    uploadToCloudinary io
                                                      (parseMetadata env bundlePath)\<rparr>
                                           in case UpdateRepository_Create adminRepo (TimeNow io)
                                                     (InsertedID io) update of
                                                Inl err \<Rightarrow>
                                                  (JSON 500 (errorBody err), adminRepo, projects)
                                              | Inr (created, repo') \<Rightarrow>
                                                  (JSONWithUpdate 201
                                                     [(''message'',
                                                       JString ''Update registered successfully'')]
                                                     ''update'' created, repo', projects))))))))"

subsection \<open>UpdateUpdate (patch)\<close>

text \<open>The request body after \<open>ShouldBindJSON\<close>: two optional fields.\<close>

record PatchRequest =
  req_IsActive :: "bool option"
  req_RolloutPercentage :: "int option"

definition AdminHandler_UpdateUpdate ::
  "UpdateRepository \<Rightarrow> string \<Rightarrow> string + PatchRequest \<Rightarrow> response \<times> UpdateRepository" where
  "AdminHandler_UpdateUpdate adminRepo idParam body =
     (if adminRepo = None then (JSON 503 (errorBody ''Database not connected''), adminRepo)
      else
        (case body of
           Inl err \<Rightarrow> (JSON 400 (errorBody err), adminRepo)
         | Inr req \<Rightarrow>
             (let updates =
                    \<lparr>set_isActive = req_IsActive req,
                     set_rolloutPercentage = req_RolloutPercentage req\<rparr>
              in if set_isActive updates = None \<and> set_rolloutPercentage updates = None then
                   (JSON 400 (errorBody ''No updates provided''), adminRepo)
                 else
                   (case UpdateRepository_Update adminRepo idParam updates of
                      Inl err \<Rightarrow> (JSON 500 (errorBody err), adminRepo)
                    | Inr repo' \<Rightarrow>
                        (JSON 200
                           (JObject [(''id'', JString idParam),
                                     (''message'', JString ''Update modified successfully'')]),
                         repo')))))"

subsection \<open>CreateRollback\<close>

definition rollbackRecord :: "Request \<Rightarrow> Update" where
  "rollbackRecord req =
     \<lparr>ID = NilObjectID, ProjectSlug = [], UpdateID = [],
      RuntimeVersion = c_Query req ''runtimeVersion'',
      Channel = c_DefaultQuery req ''channel'' ChannelProduction,
      Platform = PlatformAll, BundlePath = [], CreatedAt = zeroTime,
      IsActive = True, IsRollback = True, RolloutPercentage = 100,
      Downloads = 0, Metadata = None\<rparr>"

definition AdminHandler_CreateRollback ::
  "UpdateRepository \<Rightarrow> Request \<Rightarrow> int \<Rightarrow> string \<Rightarrow> response \<times> UpdateRepository" where
  "AdminHandler_CreateRollback adminRepo req now newID =
     (if adminRepo = None then (JSON 503 (errorBody ''Database not connected''), adminRepo)
      else
        (case UpdateRepository_Create adminRepo now newID (rollbackRecord req) of
           Inl err \<Rightarrow> (JSON 500 (errorBody err), adminRepo)
         | Inr (rollback, repo') \<Rightarrow>
             (JSONWithUpdate 201
                [(''message'', JString ''Rollback created successfully''),
                 (''previousId'', JString (Params req ''id''))]
                ''rollback'' rollback, repo')))"

chapter \<open>The vocabulary of the properties\<close>

section \<open>Manifest requests\<close>

text \<open>
  The values the manifest handler derives from a request before it queries the
  store, its pre-checks, and the query it makes.
\<close>

definition effectivePlatform :: "Request \<Rightarrow> string" where
  "effectivePlatform req =
     (if Headers req ''expo-platform'' = [] then c_Query req ''platform''
      else Headers req ''expo-platform'')"

definition effectiveRuntimeVersion :: "Request \<Rightarrow> string" where
  "effectiveRuntimeVersion req =
     (if Headers req ''expo-runtime-version'' = [] then c_Query req ''runtime-version''
      else Headers req ''expo-runtime-version'')"

definition effectiveChannel :: "Request \<Rightarrow> string" where
  "effectiveChannel req =
     (if Headers req ''expo-channel-name'' = [] then ''production''
      else Headers req ''expo-channel-name'')"

definition effectiveProtocolVersion :: "Request \<Rightarrow> int" where
  "effectiveProtocolVersion req =
     strconv_Atoi (if Headers req ''expo-protocol-version'' = [] then ''0''
                   else Headers req ''expo-protocol-version'')"

definition passesPreChecks :: "ManifestHandler \<Rightarrow> Request \<Rightarrow> bool" where
  "passesPreChecks h req =
     (Method req = ''GET'' \<and>
      (effectivePlatform req = ''ios'' \<or> effectivePlatform req = ''android'') \<and>
      effectiveRuntimeVersion req \<noteq> [] \<and>
      Params req ''projectSlug'' \<noteq> [] \<and>
      updateRepo h \<noteq> None)"

definition latestCandidate :: "ManifestHandler \<Rightarrow> Request \<Rightarrow> string + Update option" where
  "latestCandidate h req =
     UpdateRepository_FindLatest (updateRepo h) (Params req ''projectSlug'')
       (effectiveRuntimeVersion req) (effectiveChannel req) (effectivePlatform req)"

text \<open>
  The multipart reply with one part named \<open>directive\<close>, and the two directive
  documents.
\<close>

definition multipartDirective :: "int \<Rightarrow> string \<Rightarrow> json \<Rightarrow> response" where
  "multipartDirective protocolVersion signature body =
     Multipart 200
       [(''expo-protocol-version'', strconv_Itoa protocolVersion), (''expo-sfv-version'', ''0''),
        (''cache-control'', ''private, max-age=0'')]
       ([(''Content-Type'', ''application/json''),
         (''Content-Disposition'', ''form-data; name='' @ [CHR 0x22] @ ''directive'' @ [CHR 0x22])] @
        (if signature \<noteq> [] then [(''expo-signature'', signature)] else []))
       body"

definition noUpdateAvailableDirective :: json where
  "noUpdateAvailableDirective = JObject [(''type'', JString ''noUpdateAvailable'')]"

definition rollBackToEmbeddedDirective :: "string \<Rightarrow> json" where
  "rollBackToEmbeddedDirective commitTime =
     JObject [(''parameters'', JObject [(''commitTime'', JString commitTime)]),
              (''type'', JString ''rollBackToEmbedded'')]"

section \<open>Timestamps\<close>

text \<open>
  The reading of a timestamp written \<open>YYYY-MM-DDTHH:MM:SS.sssZ\<close>, in the words of
  the calendar: the leap years, the lengths of the months, the days of a year
  before a month, the leap years before a year (counted from year 1), the days
  from 1970-01-01 to the first day of a year and to a date; the decimal digits
  and the number a run of them denotes. \<open>readUTCMillis\<close> accepts a string of that
  shape whose fields are digits and denote a date of the calendar and a time of
  day, and gives the milliseconds from 1970-01-01T00:00:00.000Z to that instant.
\<close>

definition isLeapYear :: "int \<Rightarrow> bool" where
  "isLeapYear y = (y mod 4 = 0 \<and> (y mod 100 \<noteq> 0 \<or> y mod 400 = 0))"

definition daysInMonth :: "int \<Rightarrow> int \<Rightarrow> int" where
  "daysInMonth y m =
     (if m = 2 then (if isLeapYear y then 29 else 28)
      else if m = 4 \<or> m = 6 \<or> m = 9 \<or> m = 11 then 30 else 31)"

definition daysBeforeMonth :: "int \<Rightarrow> int \<Rightarrow> int" where
  "daysBeforeMonth y m = sum_list (map (daysInMonth y) [1..m - 1])"

definition leapYearsBefore :: "int \<Rightarrow> int" where
  "leapYearsBefore y = (y - 1) div 4 - (y - 1) div 100 + (y - 1) div 400"

definition daysBeforeYear :: "int \<Rightarrow> int" where
  "daysBeforeYear y = 365 * (y - 1970) + (leapYearsBefore y - leapYearsBefore 1970)"

definition unixDay :: "int \<Rightarrow> int \<Rightarrow> int \<Rightarrow> int" where
  "unixDay y m d = daysBeforeYear y + daysBeforeMonth y m + (d - 1)"


definition decimalDigit :: "char \<Rightarrow> bool" where
  "decimalDigit c = (c \<in> set ''0123456789'')"

definition decimalValue :: "string \<Rightarrow> int" where
  "decimalValue ds = foldl (\<lambda>n c. 10 * n + (int (of_char c) - 48)) 0 ds"

definition readUTCMillis :: "string \<Rightarrow> int option" where
  "readUTCMillis s =
     (let year = take 4 s; month = take 2 (drop 5 s); day = take 2 (drop 8 s);
          hour = take 2 (drop 11 s); minute = take 2 (drop 14 s); second = take 2 (drop 17 s);
          fraction = take 3 (drop 20 s);
          y = decimalValue year; m = decimalValue month; d = decimalValue day
      in if length s = 24 \<and> s ! 4 = CHR ''-'' \<and> s ! 7 = CHR ''-'' \<and> s ! 10 = CHR ''T'' \<and>
            s ! 13 = CHR '':'' \<and> s ! 16 = CHR '':'' \<and> s ! 19 = CHR ''.'' \<and> s ! 23 = CHR ''Z'' \<and>
            list_all decimalDigit (year @ month @ day @ hour @ minute @ second @ fraction) \<and>
            1 \<le> m \<and> m \<le> 12 \<and> 1 \<le> d \<and> d \<le> daysInMonth y m \<and>
            decimalValue hour < 24 \<and> decimalValue minute < 60 \<and> decimalValue second < 60
         then Some ((((unixDay y m d * 24 + decimalValue hour) * 60 + decimalValue minute) * 60
                      + decimalValue second) * 1000 + decimalValue fraction)
         else None)"


section \<open>Concrete inputs\<close>

text \<open>
  An environment with an empty file system; a GET request for project \<open>demo\<close>
  with the given headers; a handler without signing key over a store holding the
  given documents; a rollback record created at 2025-01-02T03:04:05.678Z.
\<close>

definition env0 :: Env where
  "env0 =
     \<lparr>Hostname = ''https://ota.example'', Files = (\<lambda>p. NotExist),
      filepath_Rel = (\<lambda>b t. None), json_Unmarshal_map = (\<lambda>d. None),
      json_Unmarshal_UpdateMetadata = (\<lambda>d. None),
      url_parseAuthority = (\<lambda>a. Some a), unicode_CaseTable = (\<lambda>r. r)\<rparr>"

definition manifestRequest :: "(string \<times> string) list \<Rightarrow> Request" where
  "manifestRequest hs =
     \<lparr>Method = ''GET'', URLPath = ''/api/demo/manifest'',
      Headers = (\<lambda>k. case map_of hs k of None \<Rightarrow> [] | Some v \<Rightarrow> v),
      QueryValues = Map.empty,
      Params = (\<lambda>k. if k = ''projectSlug'' then ''demo'' else [])\<rparr>"

definition handlerOver :: "Update list \<Rightarrow> ManifestHandler" where
  "handlerOver ds =
     \<lparr>signingService = None, rolloutService = \<lparr>nextIntn = 0\<rparr>,
      updateRepo = Some \<lparr>docs = ds, fault = None\<rparr>, updatesDir = ''./updates''\<rparr>"

definition rollbackDoc :: Update where
  "rollbackDoc =
     \<lparr>ID = ''65a000000000000000000001'', ProjectSlug = ''demo'', UpdateID = [],
      RuntimeVersion = ''1'', Channel = ''production'', Platform = ''all'', BundlePath = [],
      CreatedAt = 1735787045678, IsActive = True, IsRollback = True, RolloutPercentage = 100,
      Downloads = 0, Metadata = None\<rparr>"

section \<open>Redirect targets\<close>

text \<open>
  A target begins with a scheme when a colon follows a non-empty run of letters,
  digits, plus, minus and dot that starts with a letter.
\<close>

definition isSchemeChar :: "char \<Rightarrow> bool" where
  "isSchemeChar c = (isLetter c \<or> isDigit c \<or> c = CHR ''+'' \<or> c = CHR ''-'' \<or> c = CHR ''.'')"

definition beginsWithScheme :: "urlstring \<Rightarrow> bool" where
  "beginsWithScheme u =
     (let p = takeWhile isSchemeChar u
      in p \<noteq> [] \<and> isLetter (hd p) \<and> length p < length u \<and> u ! length p = CHR '':'')"

section \<open>Store queries\<close>

text \<open>
  The set of records \<open>find_latest\<close> selects from, first in the words of the
  specification (the platform is the requested one or \<open>all\<close>), then with the
  platform clause dropped for an empty requested platform.
\<close>

definition claimedMatch :: "string \<Rightarrow> string \<Rightarrow> string \<Rightarrow> string \<Rightarrow> Update \<Rightarrow> bool" where
  "claimedMatch project runtime channel platform u =
     (ProjectSlug u = project \<and> RuntimeVersion u = runtime \<and> Channel u = channel \<and>
      (Platform u = platform \<or> Platform u = ''all'') \<and> IsActive u)"

definition amendedMatch :: "string \<Rightarrow> string \<Rightarrow> string \<Rightarrow> string \<Rightarrow> Update \<Rightarrow> bool" where
  "amendedMatch project runtime channel platform u =
     (ProjectSlug u = project \<and> RuntimeVersion u = runtime \<and> Channel u = channel \<and>
      (platform = [] \<or> Platform u = platform \<or> Platform u = ''all'') \<and> IsActive u)"

text \<open>
  A stored, active, non-rollback update of project \<open>demo\<close>, runtime \<open>1\<close>, channel
  \<open>production\<close>; and the record the create-rollback endpoint inserts.
\<close>

definition storedUpdate :: "string \<Rightarrow> string \<Rightarrow> int \<Rightarrow> int \<Rightarrow> Update" where
  "storedUpdate objectID platform createdAt rollout =
     \<lparr>ID = objectID, ProjectSlug = ''demo'', UpdateID = ''u-'' @ objectID,
      RuntimeVersion = ''1'', Channel = ''production'', Platform = platform, BundlePath = [],
      CreatedAt = createdAt, IsActive = True, IsRollback = False, RolloutPercentage = rollout,
      Downloads = 0, Metadata = None\<rparr>"

definition insertedRollback :: "Request \<Rightarrow> int \<Rightarrow> string \<Rightarrow> Update" where
  "insertedRollback req now newID =
     \<lparr>ID = newID, ProjectSlug = [], UpdateID = [],
      RuntimeVersion = c_Query req ''runtimeVersion'',
      Channel = (case QueryValues req ''channel'' of
                   None \<Rightarrow> ''production''
                 | Some ch \<Rightarrow> if ch = [] then ''production'' else ch),
      Platform = ''all'', BundlePath = [], CreatedAt = now,
      IsActive = True, IsRollback = True, RolloutPercentage = 100,
      Downloads = 0, Metadata = None\<rparr>"

section \<open>Rollout\<close>

text \<open>
  The sum of the bytes of a fingerprint, the sum of the runes a \<open>range\<close> loop
  reads from it, and the fingerprints made of ASCII bytes only.
\<close>

definition byteSum :: "string \<Rightarrow> nat" where
  "byteSum f = sum_list (map of_char f)"

definition runeSum :: "string \<Rightarrow> nat" where
  "runeSum f = sum_list (rangeRunes f)"

definition isASCII :: "string \<Rightarrow> bool" where
  "isASCII f = list_all (\<lambda>c. (of_char c :: nat) < 0x80) f"

text \<open>
  An active android update of project \<open>demo\<close> whose metadata carries the key and
  hash of its launch bundle, with a given rollout percentage; and the manifest
  the endpoint builds for it.
\<close>

definition shippedUpdate :: "int \<Rightarrow> Update" where
  "shippedUpdate rollout =
     \<lparr>ID = ''65a000000000000000000007'', ProjectSlug = ''demo'',
      UpdateID = ''2d711642-b726-b044-0162-7ca9fbac32f5'',
      RuntimeVersion = ''1'', Channel = ''production'', Platform = ''android'', BundlePath = [],
      CreatedAt = 1735787045678, IsActive = True, IsRollback = False,
      RolloutPercentage = rollout, Downloads = 0,
      Metadata = Some
        \<lparr>FileMetadata = Some
           [''android'' \<mapsto>
              \<lparr>Bundle = ''bundles/android-a.js'', BundleUrl = [],
               BundleKey = ''2d711642b726b04401627ca9fbac32f5'',
               BundleHash = ''LXEWQrcmsEQBYnyp-6wy9chTD7GQPMTbAiWHF5IaSIE'',
               Assets = []\<rparr>],
         ExpoConfig = [(''slug'', JString ''demo'')]\<rparr>\<rparr>"

definition shippedManifest :: json where
  "shippedManifest =
     JObject
       [(''assets'', JArray []),
        (''createdAt'', JString ''2025-01-02T03:04:05.678Z''),
        (''extra'', JObject [(''expoClient'', JObject [(''slug'', JString ''demo'')])]),
        (''id'', JString ''2d711642-b726-b044-0162-7ca9fbac32f5''),
        (''launchAsset'',
         JObject
           [(''contentType'', JString ''application/javascript''),
            (''fileExtension'', JString ''.bundle''),
            (''hash'', JString ''LXEWQrcmsEQBYnyp-6wy9chTD7GQPMTbAiWHF5IaSIE''),
            (''key'', JString ''2d711642b726b04401627ca9fbac32f5''),
            (''url'', JString (''https://ota.example/api/assets?asset=bundles/android-a.js'' @
               ''&runtimeVersion=1&platform=android&isLaunchAsset=true'' @
               ''&updateId=65a000000000000000000007''))]),
        (''metadata'', JObject []),
        (''runtimeVersion'', JString ''1'')]"

section \<open>Decoders\<close>

text \<open>
  The decoders of \<open>encoding/hex\<close> and of \<open>base64.RawURLEncoding\<close>. The backend
  never decodes; they serve to state that a key and a hash are encodings of one
  digest.
\<close>

definition hexval :: "char \<Rightarrow> nat option" where
  "hexval c =
     (let n = (of_char c :: nat)
      in if 48 \<le> n \<and> n \<le> 57 then Some (n - 48)
         else if 97 \<le> n \<and> n \<le> 102 then Some (n - 87)
         else if 65 \<le> n \<and> n \<le> 70 then Some (n - 55)
         else None)"

fun hex_DecodeString :: "string \<Rightarrow> string option" where
  "hex_DecodeString [] = Some []"
| "hex_DecodeString [c] = None"
| "hex_DecodeString (a # b # r) =
     (case hexval a of
        None \<Rightarrow> None
      | Some x \<Rightarrow>
          (case hexval b of
             None \<Rightarrow> None
           | Some y \<Rightarrow> map_option ((#) (char_of (x * 16 + y))) (hex_DecodeString r)))"

definition b64val :: "char \<Rightarrow> nat option" where
  "b64val c =
     (let n = (of_char c :: nat)
      in if 65 \<le> n \<and> n \<le> 90 then Some (n - 65)
         else if 97 \<le> n \<and> n \<le> 122 then Some (n - 71)
         else if 48 \<le> n \<and> n \<le> 57 then Some (n + 4)
         else if n = 45 then Some 62
         else if n = 95 then Some 63
         else None)"

fun b64dec :: "nat list \<Rightarrow> nat list option" where
  "b64dec (a # b # c # d # r) =
     map_option (\<lambda>bs. (a * 4 + b div 16) # ((b mod 16) * 16 + c div 4) # ((c mod 4) * 64 + d) # bs)
       (b64dec r)"
| "b64dec [a, b, c] = Some [a * 4 + b div 16, (b mod 16) * 16 + c div 4]"
| "b64dec [a, b] = Some [a * 4 + b div 16]"
| "b64dec [a] = None"
| "b64dec [] = Some []"

definition RawURLEncoding_DecodeString :: "string \<Rightarrow> string option" where
  "RawURLEncoding_DecodeString s =
     (if list_all (\<lambda>c. b64val c \<noteq> None) s
      then map_option (map char_of) (b64dec (map (\<lambda>c. the (b64val c)) s))
      else None)"

section \<open>Ingestion\<close>

text \<open>
  A key and a hash agree on the bytes of a file when they are the first 32
  hexadecimal digits and the unpadded URL-safe base64 of the file's SHA-256
  digest. \<open>hashedFrom\<close> relates the key and hash of a persisted metadata entry to
  the file the entry names and to the key and hash the entry had when
  \<open>metadata.json\<close> was decoded: they agree on the file's bytes when the file can be
  read under the bundle path, and are the decoded ones when it cannot.
  \<open>platformHashed\<close> says it of the launch bundle and, position by position, of the
  listed assets of a platform entry. \<open>decodedMetadata\<close> is \<open>metadata.json\<close> under
  the bundle path as the JSON decoder reads it.
\<close>

definition keyHashAgree :: "string \<Rightarrow> string \<Rightarrow> string \<Rightarrow> bool" where
  "keyHashAgree key hash data =
     (key = take 32 (hex_EncodeToString (sha256_Sum256 data)) \<and>
      hash = RawURLEncoding_EncodeToString (sha256_Sum256 data))"

definition hashedFrom ::
  "Env \<Rightarrow> filepath \<Rightarrow> filepath \<Rightarrow> string \<Rightarrow> string \<Rightarrow> string \<Rightarrow> string \<Rightarrow> bool" where
  "hashedFrom env bundlePath path decodedKey decodedHash key hash =
     (case os_ReadFile env (filepath_Join bundlePath path) of
        None \<Rightarrow> key = decodedKey \<and> hash = decodedHash
      | Some data \<Rightarrow> keyHashAgree key hash data)"

definition platformHashed :: "Env \<Rightarrow> filepath \<Rightarrow> PlatformMetadata \<Rightarrow> PlatformMetadata \<Rightarrow> bool" where
  "platformHashed env bundlePath decoded pm =
     (Bundle pm = Bundle decoded \<and>
      hashedFrom env bundlePath (Bundle decoded) (BundleKey decoded) (BundleHash decoded)
        (BundleKey pm) (BundleHash pm) \<and>
      list_all2
        (\<lambda>d a. Path a = Path d \<and>
                hashedFrom env bundlePath (Path d) (Key d) (Hash d) (Key a) (Hash a))
        (Assets decoded) (Assets pm))"

definition decodedMetadata :: "Env \<Rightarrow> filepath \<Rightarrow> UpdateMetadata option" where
  "decodedMetadata env bundlePath =
     (case os_ReadFile env (filepath_Join bundlePath ''metadata.json'') of
        None \<Rightarrow> None
      | Some metadataFile \<Rightarrow> json_Unmarshal_UpdateMetadata env metadataFile)"

text \<open>
  An ingestion request reaches the insert when every step before the hashing
  succeeds; then the root of the unpacked build, the record handed to \<open>Create\<close>
  and the project repository after the upsert are these.
\<close>

definition ingestReachesCreate :: "UploadIO \<Rightarrow> UpdateRepository \<Rightarrow> bool" where
  "ingestReachesCreate io repo =
     (repo \<noteq> None \<and> ParseMultipartFormErr io = None \<and>
      c_PostForm io ''projectSlug'' \<noteq> [] \<and> c_PostForm io ''runtimeVersion'' \<noteq> [] \<and>
      (case FormFileBundle io of Inl err \<Rightarrow> False | Inr filename \<Rightarrow> True) \<and>
      MkdirTemp io \<noteq> None \<and> CreateZipOk io \<and> CopyZipOk io \<and> UnzipErr io = None)"

definition ingestBundlePath :: "Env \<Rightarrow> UploadIO \<Rightarrow> string" where
  "ingestBundlePath env io =
     (case MkdirTemp io of
        None \<Rightarrow> []
      | Some tempDir \<Rightarrow> resolveBundlePath env io (filepath_Join tempDir ''extracted''))"

definition ingestRecord :: "Env \<Rightarrow> UploadIO \<Rightarrow> Update" where
  "ingestRecord env io =
     \<lparr>ID = NilObjectID, ProjectSlug = c_PostForm io ''projectSlug'',
      UpdateID = (if c_PostForm io ''updateId'' = [] then GenerateUUID io
                  else c_PostForm io ''updateId''),
      RuntimeVersion = c_PostForm io ''runtimeVersion'',
      Channel = c_DefaultPostForm io ''channel'' ''production'',
      Platform = c_DefaultPostForm io ''platform'' ''all'',
      BundlePath = ingestBundlePath env io, CreatedAt = zeroTime,
      IsActive = True, IsRollback = False,
      RolloutPercentage = strconv_Atoi (c_DefaultPostForm io ''rolloutPercentage'' ''100''),
      Downloads = 0,
      Metadata = uploadToCloudinary io (parseMetadata env (ingestBundlePath env io))\<rparr>"

definition ingestProjects :: "UploadIO \<Rightarrow> ProjectRepository option \<Rightarrow> ProjectRepository option" where
  "ingestProjects io projectRepo =
     map_option
       (\<lambda>r. snd (EnsureProjectExists r (ProjectTimeNow io) (ProjectInsertedID io)
                   (c_PostForm io ''projectSlug'') (c_PostForm io ''projectSlug'')))
       projectRepo"

text \<open>
  A concrete upload for project \<open>demo\<close>: the decoded \<open>metadata.json\<close> names one
  android bundle and one asset (with the given bundle key and hash, none for the
  asset); the file system holds the given files under the extraction directory;
  every I/O step succeeds and the object store is not connected; the record the
  update store then holds; an empty project collection, and the project document
  the upsert inserts.
\<close>

definition parsedMetadata :: "string \<Rightarrow> string \<Rightarrow> UpdateMetadata" where
  "parsedMetadata bundleKey bundleHash =
     \<lparr>FileMetadata = Some
        [''android'' \<mapsto>
           \<lparr>Bundle = ''bundles/android-a.js'', BundleUrl = [],
            BundleKey = bundleKey, BundleHash = bundleHash,
            Assets = [\<lparr>Path = ''assets/a'', Ext = ''png'', Url = [], Key = [], Hash = []\<rparr>]\<rparr>],
      ExpoConfig = []\<rparr>"

definition ingestEnv :: "(string \<times> file_state) list \<Rightarrow> Env" where
  "ingestEnv files =
     \<lparr>Hostname = ''https://ota.example'',
      Files = (\<lambda>p. case map_of files p of None \<Rightarrow> NotExist | Some st \<Rightarrow> st),
      filepath_Rel = (\<lambda>b t. None), json_Unmarshal_map = (\<lambda>d. None),
      json_Unmarshal_UpdateMetadata =
        (\<lambda>d. if d = ''{metadata}'' then Some (parsedMetadata [] []) else None),
      url_parseAuthority = (\<lambda>a. Some a), unicode_CaseTable = (\<lambda>r. r)\<rparr>"

definition ingestIO :: UploadIO where
  "ingestIO =
     \<lparr>ParseMultipartFormErr = None,
      PostFormValues = [''projectSlug'' \<mapsto> ''demo'', ''runtimeVersion'' \<mapsto> ''1''],
      FormFileBundle = Inr ''dist.zip'',
      GenerateUUID = ''0f0e0d0c-0b0a-0908-0706-050403020100'',
      MkdirTemp = Some ''/tmp/otaship-upload-1'',
      CreateZipOk = True, CopyZipOk = True, UnzipErr = None,
      ReadDirExtracted = Some [(''metadata.json'', False), (''bundles'', True)],
      UploadDirectory = None,
      ProjectTimeNow = 4000, ProjectInsertedID = ''65a000000000000000000009'',
      TimeNow = 5000, InsertedID = ''65a00000000000000000000a''\<rparr>"

definition ingestedUpdate :: "string \<Rightarrow> string \<Rightarrow> Update" where
  "ingestedUpdate bundleKey bundleHash =
     \<lparr>ID = ''65a00000000000000000000a'', ProjectSlug = ''demo'',
      UpdateID = ''0f0e0d0c-0b0a-0908-0706-050403020100'', RuntimeVersion = ''1'',
      Channel = ''production'', Platform = ''all'',
      BundlePath = ''/tmp/otaship-upload-1/extracted'', CreatedAt = 5000,
      IsActive = True, IsRollback = False, RolloutPercentage = 100, Downloads = 0,
      Metadata = Some (parsedMetadata bundleKey bundleHash)\<rparr>"

definition noProjects :: "ProjectRepository option" where
  "noProjects = Some (Some \<lparr>projectDocs = [], projectFault = None\<rparr>)"

definition demoProject :: Project where
  "demoProject =
     \<lparr>Project_ID = ''65a000000000000000000009'', Slug = ''demo'', Name = ''demo'',
      Description = [], Project_CreatedAt = 4000, UpdateCount = 0\<rparr>"

chapter \<open>Properties\<close>

section \<open>Evaluation lemmas\<close>

lemma Itoa_0: "strconv_Itoa 0 = ''0''"
  by (simp add: strconv_Itoa_def natDigits.simps digitChar_def)

lemma Itoa_1: "strconv_Itoa 1 = ''1''"
  by (simp add: strconv_Itoa_def natDigits.simps digitChar_def)

lemma Atoi_0: "strconv_Atoi ''0'' = 0"
  by (simp add: strconv_Atoi_def isDigit_def digitsValue_def)

lemma Atoi_1: "strconv_Atoi ''1'' = 1"
  by (simp add: strconv_Atoi_def isDigit_def digitsValue_def)

lemma FormatUTCMillis_example: "FormatUTCMillis 1735787045678 = ''2025-01-02T03:04:05.678Z''"
  by code_simp

section \<open>The commit time\<close>

text \<open>
  The date \<open>civil\<close> computes is a date of the calendar, and the day count of
  that date is the one it was computed from; the formatter prints fields that
  read back as the instant.
\<close>

lemma div_eqI: "(b::int) * q \<le> a \<Longrightarrow> a < b * q + b \<Longrightarrow> a div b = q"
  by (rule int_div_pos_eq [of a b q "a - b * q"]) simp_all

lemma mod_eqI: "(b::int) * q \<le> a \<Longrightarrow> a < b * q + b \<Longrightarrow> a mod b = a - b * q"
  using div_eqI [of b q a] by (simp add: minus_mult_div_eq_mod [symmetric])

lemma yoe_formula:
  fixes c k j d doe :: int
  assumes b: "0 \<le> c" "c \<le> 3" "0 \<le> k" "k \<le> 24" "0 \<le> j" "j \<le> 3" "0 \<le> d" "d \<le> 365"
    and l: "d \<le> 364 \<or> (j = 3 \<and> (k < 24 \<or> c = 3))"
    and doe: "doe = 36524 * c + 1461 * k + 365 * j + d"
  shows "(doe - doe div 1460 + doe div 36524 - doe div 146096) div 365 = 100 * c + 4 * k + j"
proof -
  define e where "e = 24 * c + k + 365 * j + d"
  define t where "t = (if 1460 \<le> e then 1 else 0 :: int)"
  define f where "f = (if k = 24 \<and> j = 3 \<and> d = 365 then 1 else 0 :: int)"
  have e: "0 \<le> e" "e \<le> 1556" using b by (simp_all add: e_def)
  have q1: "doe div 1460 = 25 * c + k + t"
    using e by (intro div_eqI) (auto simp: doe e_def t_def)
  have q2: "doe div 36524 = c + f"
    using b l by (intro div_eqI) (auto simp: doe f_def)
  have q3: "doe div 146096 = f"
    using b l by (intro div_eqI) (auto simp: doe f_def)
  have r: "0 \<le> d - t" "d - t \<le> 364"
    using b l by (auto simp: t_def e_def)
  show ?thesis
    unfolding q1 q2 q3 using r by (intro div_eqI) (auto simp: doe)
qed

lemma decompose:
  fixes doe :: int
  assumes "0 \<le> doe" "doe \<le> 146096"
  obtains c k j d where "0 \<le> c" "c \<le> 3" "0 \<le> k" "k \<le> 24" "0 \<le> j" "j \<le> 3" "0 \<le> d" "d \<le> 365"
    "d \<le> 364 \<or> (j = 3 \<and> (k < 24 \<or> c = 3))" "doe = 36524 * c + 1461 * k + 365 * j + d"
proof -
  define c where "c = (if doe = 146096 then 3 else doe div 36524)"
  define r where "r = doe - 36524 * c"
  define k where "k = (if r = 36524 then 24 else r div 1461)"
  define s where "s = r - 1461 * k"
  define j where "j = (if s = 1460 then 3 else s div 365)"
  define d where "d = s - 365 * j"
  have c: "0 \<le> c" "c \<le> 3" using assms by (auto simp: c_def)
  have r: "0 \<le> r" "r \<le> 36524" "r = 36524 \<longrightarrow> c = 3" using assms by (auto simp: r_def c_def)
  have k: "0 \<le> k" "k \<le> 24" using r by (auto simp: k_def)
  have s: "0 \<le> s" "s \<le> 1460" "s = 1460 \<longrightarrow> k < 24 \<or> c = 3" using r by (auto simp: s_def k_def)
  have j: "0 \<le> j" "j \<le> 3" using s by (auto simp: j_def)
  have d: "0 \<le> d" "d \<le> 365" "d \<le> 364 \<or> (j = 3 \<and> (k < 24 \<or> c = 3))"
    using s by (auto simp: d_def j_def)
  have "doe = 36524 * c + 1461 * k + 365 * j + d" by (simp add: d_def s_def r_def)
  with c k j d show thesis by (rule that)
qed


lemma leap_coords:
  fixes era c k j :: int
  assumes "0 \<le> c" "c \<le> 3" "0 \<le> k" "k \<le> 24" "0 \<le> j" "j \<le> 3"
  shows "isLeapYear (400 * era + (100 * c + 4 * k + j)) \<longleftrightarrow> j = 0 \<and> (k \<noteq> 0 \<or> c = 0)"
proof -
  let ?y = "400 * era + (100 * c + 4 * k + j)"
  have m4: "?y mod 4 = j"
    using assms mod_eqI [of 4 "100 * era + 25 * c + k" ?y] by simp
  have m100: "?y mod 100 = 4 * k + j"
    using assms mod_eqI [of 100 "4 * era + c" ?y] by simp
  have m400: "?y mod 400 = 100 * c + 4 * k + j"
    using assms mod_eqI [of 400 era ?y] by simp
  show ?thesis
    unfolding isLeapYear_def m4 m100 m400 using assms by auto
qed

lemma leap_next:
  fixes era c k :: int
  assumes "0 \<le> c" "c \<le> 3" "0 \<le> k" "k \<le> 24" "k < 24 \<or> c = 3"
  shows "isLeapYear (400 * era + (100 * c + 4 * k + 3) + 1)"
proof -
  let ?y = "400 * era + (100 * c + 4 * k + 3) + 1"
  have m4: "?y mod 4 = 0"
    using assms mod_eqI [of 4 "100 * era + 25 * c + k + 1" ?y] by simp
  show ?thesis
  proof (cases "k < 24")
    case True
    have "?y mod 100 = 4 * k + 4"
      using assms True mod_eqI [of 100 "4 * era + c" ?y] by simp
    with assms m4 show ?thesis by (simp add: isLeapYear_def)
  next
    case False
    with assms have kc: "k = 24" "c = 3" by auto
    have "?y mod 400 = 0"
      using mod_eqI [of 400 "era + 1" ?y] by (simp add: kc)
    with m4 show ?thesis by (simp add: isLeapYear_def)
  qed
qed

lemma leapYearsBefore_coords:
  fixes era c k j :: int
  assumes "0 \<le> c" "c \<le> 3" "0 \<le> k" "k \<le> 24" "0 \<le> j" "j \<le> 3"
  shows "leapYearsBefore (400 * era + (100 * c + 4 * k + j)) =
         97 * era + 24 * c + k - (if j = 0 \<and> (k \<noteq> 0 \<or> c = 0) then 1 else 0)"
proof -
  let ?y = "400 * era + (100 * c + 4 * k + j)"
  have d4: "(?y - 1) div 4 = 100 * era + 25 * c + k - (if j = 0 then 1 else 0)"
    using assms by (intro div_eqI) auto
  have d100: "(?y - 1) div 100 = 4 * era + c - (if j = 0 \<and> k = 0 then 1 else 0)"
    using assms by (intro div_eqI) auto
  have d400: "(?y - 1) div 400 = era - (if j = 0 \<and> k = 0 \<and> c = 0 then 1 else 0)"
    using assms by (intro div_eqI) auto
  show ?thesis
    unfolding leapYearsBefore_def d4 d100 d400 by auto
qed

lemma leapYearsBefore_next:
  fixes era c k j :: int
  assumes "0 \<le> c" "c \<le> 3" "0 \<le> k" "k \<le> 24" "0 \<le> j" "j \<le> 3"
  shows "leapYearsBefore (400 * era + (100 * c + 4 * k + j) + 1) = 97 * era + 24 * c + k"
proof -
  let ?y = "400 * era + (100 * c + 4 * k + j)"
  have d4: "?y div 4 = 100 * era + 25 * c + k"
    using assms by (intro div_eqI) auto
  have d100: "?y div 100 = 4 * era + c"
    using assms by (intro div_eqI) auto
  have d400: "?y div 400 = era"
    using assms by (intro div_eqI) auto
  show ?thesis
    unfolding leapYearsBefore_def by (simp add: d4 d100 d400)
qed

lemma leapYearsBefore_1970: "leapYearsBefore 1970 = 477"
  by (simp add: leapYearsBefore_def)


lemma civil_coords:
  fixes era c k j d :: int
  assumes b: "0 \<le> c" "c \<le> 3" "0 \<le> k" "k \<le> 24" "0 \<le> j" "j \<le> 3" "0 \<le> d" "d \<le> 365"
    and l: "d \<le> 364 \<or> (j = 3 \<and> (k < 24 \<or> c = 3))"
  shows "civil (146097 * era + (36524 * c + 1461 * k + 365 * j + d) - 719468) =
    (if (5 * d + 2) div 153 < 10
     then (400 * era + (100 * c + 4 * k + j), (5 * d + 2) div 153 + 3,
           d - (153 * ((5 * d + 2) div 153) + 2) div 5 + 1)
     else (400 * era + (100 * c + 4 * k + j) + 1, (5 * d + 2) div 153 - 9,
           d - (153 * ((5 * d + 2) div 153) + 2) div 5 + 1))"
proof -
  define doe where "doe = 36524 * c + 1461 * k + 365 * j + d"
  define z where "z = 146097 * era + doe - 719468"
  have r: "0 \<le> doe" "doe \<le> 146096" using b l by (auto simp: doe_def)
  have e: "(z + 719468) div 146097 = era"
    using r by (intro div_eqI) (auto simp: z_def)
  have o: "(z + 719468) mod 146097 = doe"
    using r mod_eqI [of 146097 era "z + 719468"] by (simp add: z_def)
  have y: "(doe - doe div 1460 + doe div 36524 - doe div 146096) div 365 = 100 * c + 4 * k + j"
    using b l doe_def by (rule yoe_formula)
  have y4: "(100 * c + 4 * k + j) div 4 = 25 * c + k"
    using b by (intro div_eqI) auto
  have y100: "(100 * c + 4 * k + j) div 100 = c"
    using b by (intro div_eqI) auto
  have doy: "doe - (365 * (100 * c + 4 * k + j) + (25 * c + k) - c) = d"
    by (simp add: doe_def)
  have "civil z =
    (if (5 * d + 2) div 153 < 10
     then (400 * era + (100 * c + 4 * k + j), (5 * d + 2) div 153 + 3,
           d - (153 * ((5 * d + 2) div 153) + 2) div 5 + 1)
     else (400 * era + (100 * c + 4 * k + j) + 1, (5 * d + 2) div 153 - 9,
           d - (153 * ((5 * d + 2) div 153) + 2) div 5 + 1))"
    unfolding civil_def Let_def e o y y4 y100 doy
    using b by (auto simp: div_eqI)
  then show ?thesis by (simp add: z_def doe_def)
qed

lemma daysBeforeMonth_table:
  "daysBeforeMonth y 1 = 0"
  "daysBeforeMonth y 2 = 31"
  "daysBeforeMonth y 3 = 59 + (if isLeapYear y then 1 else 0)"
  "daysBeforeMonth y 4 = 90 + (if isLeapYear y then 1 else 0)"
  "daysBeforeMonth y 5 = 120 + (if isLeapYear y then 1 else 0)"
  "daysBeforeMonth y 6 = 151 + (if isLeapYear y then 1 else 0)"
  "daysBeforeMonth y 7 = 181 + (if isLeapYear y then 1 else 0)"
  "daysBeforeMonth y 8 = 212 + (if isLeapYear y then 1 else 0)"
  "daysBeforeMonth y 9 = 243 + (if isLeapYear y then 1 else 0)"
  "daysBeforeMonth y 10 = 273 + (if isLeapYear y then 1 else 0)"
  "daysBeforeMonth y 11 = 304 + (if isLeapYear y then 1 else 0)"
  "daysBeforeMonth y 12 = 334 + (if isLeapYear y then 1 else 0)"
  by (simp_all add: daysBeforeMonth_def daysInMonth_def upto_rec1)


lemma unixDay_coords:
  fixes era c k j d :: int
  assumes b: "0 \<le> c" "c \<le> 3" "0 \<le> k" "k \<le> 24" "0 \<le> j" "j \<le> 3" "0 \<le> d" "d \<le> 365"
    and l: "d \<le> 364 \<or> (j = 3 \<and> (k < 24 \<or> c = 3))"
    and z: "z = 146097 * era + (36524 * c + 1461 * k + 365 * j + d) - 719468"
    and v: "civil z = (y, m, dd)"
  shows "1 \<le> m \<and> m \<le> 12 \<and> 1 \<le> dd \<and> dd \<le> daysInMonth y m \<and> unixDay y m dd = z"
proof -
  define n where "n = 400 * era + (100 * c + 4 * k + j)"
  define mp where "mp = (5 * d + 2) div 153"
  note cv = v [unfolded z civil_coords [OF b l], folded n_def mp_def]
  have lp: "isLeapYear n \<longleftrightarrow> j = 0 \<and> (k \<noteq> 0 \<or> c = 0)"
    unfolding n_def using b(1-6) by (rule leap_coords)
  have ln: "isLeapYear (n + 1) \<or> d \<le> 364"
    using leap_next [of c k era] b l by (auto simp: n_def)
  have yb: "daysBeforeYear n = 146097 * era + (36524 * c + 1461 * k + 365 * j) - 719527
      - (if isLeapYear n then 1 else 0)"
    unfolding daysBeforeYear_def leapYearsBefore_1970 lp
    unfolding n_def leapYearsBefore_coords [OF b(1-6)] by simp
  have yn: "daysBeforeYear (n + 1) = 146097 * era + (36524 * c + 1461 * k + 365 * j) - 719162"
    unfolding daysBeforeYear_def leapYearsBefore_1970
    unfolding n_def leapYearsBefore_next [OF b(1-6)] by simp
  have "153 * mp + (5 * d + 2) mod 153 = 5 * d + 2"
    unfolding mp_def by (rule mult_div_mod_eq)
  moreover have "0 \<le> (5 * d + 2) mod 153" "(5 * d + 2) mod 153 < 153"
    by simp_all
  ultimately have m1: "153 * mp \<le> 5 * d + 2" "5 * d + 2 < 153 * mp + 153"
    by linarith+
  with b have "0 \<le> mp" "mp \<le> 11" by auto
  then consider "mp = 0" | "mp = 1" | "mp = 2" | "mp = 3" | "mp = 4" | "mp = 5" | "mp = 6"
    | "mp = 7" | "mp = 8" | "mp = 9" | "mp = 10" | "mp = 11" by atomize_elim arith
  then show ?thesis
  proof cases
    case 1
    with cv have f: "y = n" "m = 3" "dd = d + 1" by simp_all
    from m1 b 1 show ?thesis
      unfolding f z
      by (auto simp add: unixDay_def daysBeforeMonth_table daysInMonth_def yb)
  next
    case 2
    with cv have f: "y = n" "m = 4" "dd = d - 30" by simp_all
    from m1 b 2 show ?thesis
      unfolding f z
      by (auto simp add: unixDay_def daysBeforeMonth_table daysInMonth_def yb)
  next
    case 3
    with cv have f: "y = n" "m = 5" "dd = d - 60" by simp_all
    from m1 b 3 show ?thesis
      unfolding f z
      by (auto simp add: unixDay_def daysBeforeMonth_table daysInMonth_def yb)
  next
    case 4
    with cv have f: "y = n" "m = 6" "dd = d - 91" by simp_all
    from m1 b 4 show ?thesis
      unfolding f z
      by (auto simp add: unixDay_def daysBeforeMonth_table daysInMonth_def yb)
  next
    case 5
    with cv have f: "y = n" "m = 7" "dd = d - 121" by simp_all
    from m1 b 5 show ?thesis
      unfolding f z
      by (auto simp add: unixDay_def daysBeforeMonth_table daysInMonth_def yb)
  next
    case 6
    with cv have f: "y = n" "m = 8" "dd = d - 152" by simp_all
    from m1 b 6 show ?thesis
      unfolding f z
      by (auto simp add: unixDay_def daysBeforeMonth_table daysInMonth_def yb)
  next
    case 7
    with cv have f: "y = n" "m = 9" "dd = d - 183" by simp_all
    from m1 b 7 show ?thesis
      unfolding f z
      by (auto simp add: unixDay_def daysBeforeMonth_table daysInMonth_def yb)
  next
    case 8
    with cv have f: "y = n" "m = 10" "dd = d - 213" by simp_all
    from m1 b 8 show ?thesis
      unfolding f z
      by (auto simp add: unixDay_def daysBeforeMonth_table daysInMonth_def yb)
  next
    case 9
    with cv have f: "y = n" "m = 11" "dd = d - 244" by simp_all
    from m1 b 9 show ?thesis
      unfolding f z
      by (auto simp add: unixDay_def daysBeforeMonth_table daysInMonth_def yb)
  next
    case 10
    with cv have f: "y = n" "m = 12" "dd = d - 274" by simp_all
    from m1 b 10 show ?thesis
      unfolding f z
      by (auto simp add: unixDay_def daysBeforeMonth_table daysInMonth_def yb)
  next
    case 11
    with cv have f: "y = n + 1" "m = 1" "dd = d - 305" by simp_all
    from m1 b 11 show ?thesis
      unfolding f z
      by (auto simp add: unixDay_def daysBeforeMonth_table daysInMonth_def yn)
  next
    case 12
    with cv have f: "y = n + 1" "m = 2" "dd = d - 336" by simp_all
    from m1 b ln 12 show ?thesis
      unfolding f z
      by (auto simp add: unixDay_def daysBeforeMonth_table daysInMonth_def yn)
  qed
qed

lemma civil_correct:
  assumes "civil z = (y, m, d)"
  shows "1 \<le> m \<and> m \<le> 12 \<and> 1 \<le> d \<and> d \<le> daysInMonth y m \<and> unixDay y m d = z"
proof -
  define era where "era = (z + 719468) div 146097"
  define doe where "doe = (z + 719468) mod 146097"
  have r: "0 \<le> doe" "doe \<le> 146096" by (simp_all add: doe_def)
  have z: "z = 146097 * era + doe - 719468"
    by (simp add: era_def doe_def)
  from r obtain c k j dd where b: "0 \<le> c" "c \<le> 3" "0 \<le> k" "k \<le> 24" "0 \<le> j" "j \<le> 3"
      "0 \<le> dd" "dd \<le> 365"
    and l: "dd \<le> 364 \<or> (j = 3 \<and> (k < 24 \<or> c = 3))"
    and e: "doe = 36524 * c + 1461 * k + 365 * j + dd"
    by (rule decompose)
  from b l z [unfolded e] assms show ?thesis by (rule unixDay_coords)
qed

lemma div_pred:
  fixes y n :: int
  assumes "0 < n"
  shows "(y - 1) div n = y div n - (if y mod n = 0 then 1 else 0)"
proof -
  define q r where "q = y div n" and "r = y mod n"
  have e: "y = n * q + r" unfolding q_def r_def by simp
  have r: "0 \<le> r" "r < n" using assms by (simp_all add: r_def)
  show ?thesis
  proof (cases "r = 0")
    case True
    have "(y - 1) div n = q - 1"
      using r assms True by (intro div_eqI) (auto simp: e algebra_simps)
    with True show ?thesis by (simp add: q_def [symmetric] r_def [symmetric])
  next
    case False
    have "(y - 1) div n = q"
      using r assms False by (intro div_eqI) (auto simp: e algebra_simps)
    with False show ?thesis by (simp add: q_def [symmetric] r_def [symmetric])
  qed
qed

lemma daysBeforeYear_step:
  "daysBeforeYear (y + 1) = daysBeforeYear y + (if isLeapYear y then 366 else 365)"
proof -
  define p4 p100 p400 where "p4 \<longleftrightarrow> y mod 4 = 0" and "p100 \<longleftrightarrow> y mod 100 = 0"
    and "p400 \<longleftrightarrow> y mod 400 = 0"
  define q4 q100 q400 where "q4 = y div 4" and "q100 = y div 100" and "q400 = y div 400"
  have a: "p100 \<Longrightarrow> p4"
    using mod_mod_cancel [of 4 100 y] by (simp add: p4_def p100_def)
  have b: "p400 \<Longrightarrow> p100"
    using mod_mod_cancel [of 100 400 y] by (simp add: p100_def p400_def)
  have n: "leapYearsBefore (y + 1) = q4 - q100 + q400"
    by (simp add: leapYearsBefore_def q4_def q100_def q400_def)
  have o: "leapYearsBefore y = q4 - (if p4 then 1 else 0)
       - (q100 - (if p100 then 1 else 0)) + (q400 - (if p400 then 1 else 0))"
    unfolding leapYearsBefore_def p4_def p100_def p400_def q4_def q100_def q400_def
    by (simp only: div_pred [of 4 y] div_pred [of 100 y] div_pred [of 400 y]
        zero_less_numeral)
  have l: "isLeapYear y \<longleftrightarrow> p4 \<and> (\<not> p100 \<or> p400)"
    by (simp only: isLeapYear_def p4_def p100_def p400_def)
  have "leapYearsBefore (y + 1) = leapYearsBefore y + (if isLeapYear y then 1 else 0)"
    unfolding n o l using a b by (cases p4; cases p100; cases p400) simp_all
  then show ?thesis
    unfolding daysBeforeYear_def by (cases "isLeapYear y") simp_all
qed

lemma daysBeforeYear_mono: "y \<le> y' \<Longrightarrow> daysBeforeYear y \<le> daysBeforeYear y'"
proof (induction y' rule: int_ge_induct)
  case base
  show ?case by simp
next
  case (step i)
  then show ?case by (simp add: daysBeforeYear_step)
qed

lemma daysBeforeYear_0: "daysBeforeYear 0 = - 719528"
  by (simp add: daysBeforeYear_def leapYearsBefore_def)

lemma daysBeforeYear_10000: "daysBeforeYear 10000 = 2932897"
  by (simp add: daysBeforeYear_def leapYearsBefore_def)

lemma daysBeforeYear_1970: "daysBeforeYear 1970 = 0"
  by (simp add: daysBeforeYear_def)

lemma unixDay_examples:
  "unixDay 1970 1 1 = 0" "unixDay 2000 3 1 = 11017" "unixDay 2025 1 2 = 20090"
  by (simp_all add: unixDay_def daysBeforeYear_def leapYearsBefore_def daysBeforeMonth_table
      isLeapYear_def)

lemma daysBeforeMonth_range:
  "1 \<le> m \<Longrightarrow> m \<le> 12 \<Longrightarrow> 1 \<le> d \<Longrightarrow> d \<le> daysInMonth y m \<Longrightarrow>
   0 \<le> daysBeforeMonth y m + (d - 1) \<and>
   daysBeforeMonth y m + (d - 1) < (if isLeapYear y then 366 else 365)"
proof -
  assume a: "1 \<le> m" "m \<le> 12" "1 \<le> d" "d \<le> daysInMonth y m"
  from a(1,2) consider "m = 1" | "m = 2" | "m = 3" | "m = 4" | "m = 5" | "m = 6" | "m = 7"
    | "m = 8" | "m = 9" | "m = 10" | "m = 11" | "m = 12" by atomize_elim arith
  then show ?thesis
    using a(3,4) by cases (auto simp: daysBeforeMonth_table daysInMonth_def split: if_splits)
qed

lemma year_range:
  assumes "civil z = (y, m, d)" "- 719528 \<le> z" "z < 2932897"
  shows "0 \<le> y \<and> y \<le> 9999"
proof -
  from civil_correct [OF assms(1)]
  have v: "1 \<le> m" "m \<le> 12" "1 \<le> d" "d \<le> daysInMonth y m" and u: "unixDay y m d = z"
    by simp_all
  from daysBeforeMonth_range [OF v]
  have o: "0 \<le> daysBeforeMonth y m + (d - 1)"
    "daysBeforeMonth y m + (d - 1) < (if isLeapYear y then 366 else 365)" by simp_all
  from u o have lo: "daysBeforeYear y \<le> z" and hi: "z < daysBeforeYear (y + 1)"
    by (simp_all add: unixDay_def daysBeforeYear_step)
  have "\<not> y < 0"
  proof
    assume "y < 0"
    then have "daysBeforeYear (y + 1) \<le> daysBeforeYear 0" by (intro daysBeforeYear_mono) simp
    with hi assms(2) show False by (simp add: daysBeforeYear_0)
  qed
  moreover have "\<not> 10000 \<le> y"
  proof
    assume "10000 \<le> y"
    then have "daysBeforeYear 10000 \<le> daysBeforeYear y" by (rule daysBeforeYear_mono)
    with lo assms(3) show False by (simp add: daysBeforeYear_10000)
  qed
  ultimately show ?thesis by simp
qed

lemma digitChar_props:
  assumes "n < 10"
  shows "decimalDigit (digitChar n)" and "int (of_char (digitChar n)) - 48 = int n"
proof -
  from assms consider "n = 0" | "n = 1" | "n = 2" | "n = 3" | "n = 4" | "n = 5" | "n = 6"
    | "n = 7" | "n = 8" | "n = 9" by atomize_elim arith
  then show "decimalDigit (digitChar n)"
    by cases (simp_all add: digitChar_def decimalDigit_def)
  from assms consider "n = 0" | "n = 1" | "n = 2" | "n = 3" | "n = 4" | "n = 5" | "n = 6"
    | "n = 7" | "n = 8" | "n = 9" by atomize_elim arith
  then show "int (of_char (digitChar n)) - 48 = int n"
    by cases (simp_all add: digitChar_def)
qed

lemma decimalValue_snoc:
  "decimalValue (ds @ [c]) = 10 * decimalValue ds + (int (of_char c) - 48)"
  by (simp add: decimalValue_def)

lemma decimalValue_single: "decimalValue [c] = int (of_char c) - 48"
  by (simp add: decimalValue_def)

lemma natDigits_props:
  "list_all decimalDigit (natDigits n) \<and> decimalValue (natDigits n) = int n"
proof (induction n rule: natDigits.induct)
  case (1 n)
  show ?case
  proof (cases "n < 10")
    case True
    then show ?thesis
      by (simp add: natDigits.simps [of n] digitChar_props decimalValue_single)
  next
    case False
    have m: "n mod 10 < 10" by simp
    have "int (10 * (n div 10) + n mod 10) = int n" by (simp only: mult_div_mod_eq)
    then have e: "10 * int (n div 10) + int (n mod 10) = int n"
      by (simp only: of_nat_add of_nat_mult of_nat_numeral)
    from 1 [OF False] False e show ?thesis
      by (simp add: natDigits.simps [of n] digitChar_props [OF m] decimalValue_snoc)
  qed
qed

lemma natDigits_length: "0 < w \<Longrightarrow> n < 10 ^ w \<Longrightarrow> length (natDigits n) \<le> w"
proof (induction n arbitrary: w rule: natDigits.induct)
  case (1 n)
  show ?case
  proof (cases "n < 10")
    case True
    with 1(2) show ?thesis by (simp add: natDigits.simps [of n] Suc_leI)
  next
    case False
    from 1(2) obtain v where w: "w = Suc v" by (cases w) simp_all
    from False 1(3) have v: "0 < v" by (cases v) (simp_all add: w)
    from 1(3) have "n div 10 < 10 ^ v"
      by (simp add: w less_mult_imp_div_less mult.commute)
    from 1(1) [OF False v this] False show ?thesis
      by (simp add: natDigits.simps [of n] w)
  qed
qed

lemma decimalValue_zeros: "decimalValue (replicate k (CHR ''0'') @ ds) = decimalValue ds"
proof -
  have "foldl (\<lambda>n c. 10 * n + (int (of_char c) - 48)) 0 (replicate k (CHR ''0'')) = 0"
    by (induction k) simp_all
  then show ?thesis by (simp add: decimalValue_def)
qed

lemma appendInt_props:
  assumes "0 \<le> x" "x < 10 ^ w" "0 < w"
  shows "length (appendInt x w) = w" and "list_all decimalDigit (appendInt x w)"
    and "decimalValue (appendInt x w) = x"
proof -
  from assms have n: "nat \<bar>x\<bar> < 10 ^ w" "int (nat \<bar>x\<bar>) = x" "\<not> x < 0"
    by (simp_all add: nat_less_iff)
  from natDigits_length [OF assms(3) n(1)]
  show "length (appendInt x w) = w"
    by (simp add: appendInt_def Let_def n(3))
  have "list_all decimalDigit (replicate k (CHR ''0''))" for k
    by (induction k) (simp_all add: decimalDigit_def)
  then show "list_all decimalDigit (appendInt x w)"
    using natDigits_props [of "nat \<bar>x\<bar>"]
    by (simp add: appendInt_def Let_def n(3))
  show "decimalValue (appendInt x w) = x"
    using natDigits_props [of "nat \<bar>x\<bar>"] n(2)
    by (simp add: appendInt_def Let_def n(3) decimalValue_zeros)
qed

lemma read_shape:
  assumes "length Y = 4" "length Mo = 2" "length D = 2" "length H = 2" "length Mi = 2"
    "length S = 2" "length F = 3"
  shows "readUTCMillis (Y @ ''-'' @ Mo @ ''-'' @ D @ ''T'' @ H @ '':'' @ Mi @ '':'' @ S @ ''.'' @ F @ ''Z'') =
    (if list_all decimalDigit (Y @ Mo @ D @ H @ Mi @ S @ F) \<and>
        1 \<le> decimalValue Mo \<and> decimalValue Mo \<le> 12 \<and> 1 \<le> decimalValue D \<and>
        decimalValue D \<le> daysInMonth (decimalValue Y) (decimalValue Mo) \<and>
        decimalValue H < 24 \<and> decimalValue Mi < 60 \<and> decimalValue S < 60
     then Some ((((unixDay (decimalValue Y) (decimalValue Mo) (decimalValue D) * 24 + decimalValue H) * 60
                  + decimalValue Mi) * 60 + decimalValue S) * 1000 + decimalValue F)
     else None)"
  unfolding readUTCMillis_def Let_def
  by (simp add: nth_append assms)


lemma time_of_day:
  fixes t :: int
  defines "secs \<equiv> t div 1000" and "sod \<equiv> (t div 1000) mod 86400"
  shows "0 \<le> t mod 1000" "t mod 1000 < 1000"
    "0 \<le> sod div 3600" "sod div 3600 < 24"
    "0 \<le> (sod mod 3600) div 60" "(sod mod 3600) div 60 < 60"
    "0 \<le> sod mod 60" "sod mod 60 < 60"
    "((((secs div 86400) * 24 + sod div 3600) * 60 + (sod mod 3600) div 60) * 60 + sod mod 60) * 1000
       + t mod 1000 = t"
proof -
  show "0 \<le> t mod 1000" "t mod 1000 < 1000" by simp_all
  have s: "0 \<le> sod" "sod < 86400" by (simp_all add: sod_def)
  define h where "h = sod div 3600"
  define r where "r = sod mod 3600"
  define mi where "mi = r div 60"
  define se where "se = r mod 60"
  have e1: "sod = 3600 * h + r" unfolding h_def r_def by simp
  have r: "0 \<le> r" "r < 3600" by (simp_all add: r_def)
  have e2: "r = 60 * mi + se" unfolding mi_def se_def by simp
  have se: "0 \<le> se" "se < 60" by (simp_all add: se_def)
  have se': "sod mod 60 = se"
    unfolding se_def r_def by (rule mod_mod_cancel [symmetric]) simp
  from s e1 r show "0 \<le> sod div 3600" "sod div 3600 < 24"
    unfolding h_def [symmetric] by linarith+
  from r e2 se show "0 \<le> (sod mod 3600) div 60" "(sod mod 3600) div 60 < 60"
    unfolding r_def [symmetric] mi_def [symmetric] by linarith+
  from se show "0 \<le> sod mod 60" "sod mod 60 < 60" unfolding se' by simp_all
  define q where "q = secs div 86400"
  define ms where "ms = t mod 1000"
  have e3: "secs = 86400 * q + sod" unfolding q_def sod_def secs_def by simp
  have e4: "t = 1000 * secs + ms" unfolding secs_def ms_def by simp
  have "(((q * 24 + h) * 60 + mi) * 60 + se) * 1000 + ms = t"
    unfolding e4 e3 e1 e2 by (simp add: algebra_simps)
  then show "((((secs div 86400) * 24 + sod div 3600) * 60 + (sod mod 3600) div 60) * 60 + sod mod 60) * 1000
       + t mod 1000 = t"
    unfolding q_def h_def mi_def se' r_def ms_def .
qed

lemma day_range:
  fixes t :: int
  assumes "- 62167219200000 \<le> t" "t < 253402300800000"
  shows "- 719528 \<le> t div 1000 div 86400" "t div 1000 div 86400 < 2932897"
proof -
  have "(- 62167219200000) div 1000 div 86400 \<le> t div 1000 div 86400"
    using assms(1) by (intro zdiv_mono1) simp_all
  then show "- 719528 \<le> t div 1000 div 86400" by simp
  from assms(2) have "t \<le> 253402300799999" by simp
  then have "t div 1000 div 86400 \<le> 253402300799999 div 1000 div 86400"
    by (intro zdiv_mono1) simp_all
  then show "t div 1000 div 86400 < 2932897" by simp
qed

lemma daysInMonth_le: "daysInMonth y m \<le> 31"
  by (simp add: daysInMonth_def)

lemma readUTCMillis_Format:
  assumes "- 62167219200000 \<le> t" "t < 253402300800000"
  shows "readUTCMillis (FormatUTCMillis t) = Some t"
proof -
  define sod where "sod = (t div 1000) mod 86400"
  define zz where "zz = t div 1000 div 86400"
  define hh where "hh = sod div 3600"
  define mm where "mm = (sod mod 3600) div 60"
  define ss where "ss = sod mod 60"
  define ff where "ff = t mod 1000"
  obtain y m d where c: "civil zz = (y, m, d)"
    by (cases "civil zz") auto
  note z = day_range [OF assms, folded zz_def]
  from year_range [OF c z] have y: "0 \<le> y" "y < 10 ^ 4" by simp_all
  from civil_correct [OF c]
  have v: "1 \<le> m" "m \<le> 12" "1 \<le> d" "d \<le> daysInMonth y m"
    and u: "unixDay y m d = zz" by simp_all
  from v daysInMonth_le [of y m] have b: "0 \<le> m" "m < 10 ^ 2" "0 \<le> d" "d < 10 ^ 2"
    by simp_all
  note td = time_of_day [of t, folded sod_def, folded zz_def hh_def mm_def ss_def ff_def]
  from td have h: "0 \<le> hh" "hh < 10 ^ 2"
    and mi: "0 \<le> mm" "mm < 10 ^ 2"
    and se: "0 \<le> ss" "ss < 10 ^ 2"
    and ms: "0 \<le> ff" "ff < 10 ^ 3" by simp_all
  have w: "(0::nat) < 4" "(0::nat) < 2" "(0::nat) < 3" by simp_all
  note pY = appendInt_props [OF y w(1)]
  note pM = appendInt_props [OF b(1,2) w(2)]
  note pD = appendInt_props [OF b(3,4) w(2)]
  note pH = appendInt_props [OF h w(2)]
  note pMi = appendInt_props [OF mi w(2)]
  note pS = appendInt_props [OF se w(2)]
  note pF = appendInt_props [OF ms w(3)]
  have f: "FormatUTCMillis t =
      appendInt y 4 @ ''-'' @ appendInt m 2 @ ''-'' @ appendInt d 2 @ ''T'' @
      appendInt hh 2 @ '':'' @ appendInt mm 2 @ '':'' @
      appendInt ss 2 @ ''.'' @ appendInt ff 3 @ ''Z''"
    unfolding FormatUTCMillis_def Let_def zz_def [symmetric] c
      sod_def [symmetric] hh_def [symmetric] mm_def [symmetric] ss_def [symmetric]
      ff_def [symmetric]
    by (simp only: prod.case)
  have g: "list_all decimalDigit (appendInt y 4 @ appendInt m 2 @ appendInt d 2 @
      appendInt hh 2 @ appendInt mm 2 @ appendInt ss 2 @ appendInt ff 3)"
    using pY(2) pM(2) pD(2) pH(2) pMi(2) pS(2) pF(2) by (simp only: list_all_append simp_thms)
  show ?thesis
    unfolding f
    unfolding read_shape [OF pY(1) pM(1) pD(1) pH(1) pMi(1) pS(1) pF(1)]
    unfolding pY(3) pM(3) pD(3) pH(3) pMi(3) pS(3) pF(3) u
    using g v td(4,6,8) td(9)
    by (simp only: simp_thms if_True)
qed

section \<open>The manifest endpoint\<close>

text \<open>
  Once the pre-checks pass, the handler's reply is decided by the result of the
  store query alone.
\<close>

lemma Handle_after_prechecks:
  assumes "passesPreChecks h req"
  shows "ManifestHandler_Handle env h req =
     (case latestCandidate h req of
        Inl err \<Rightarrow> handleNoUpdateAvailable h req (effectiveProtocolVersion req)
      | Inr None \<Rightarrow> handleNoUpdateAvailable h req (effectiveProtocolVersion req)
      | Inr (Some update) \<Rightarrow>
          if IsRollback update then
            (if Headers req ''expo-current-update-id'' = Headers req ''expo-embedded-update-id'' then
               handleNoUpdateAvailable h req (effectiveProtocolVersion req)
             else
               sendMultipartResponse ''directive''
                 (JObject [(''parameters'',
                     JObject [(''commitTime'', JString (FormatUTCMillis (CreatedAt update)))]),
                    (''type'', JString ''rollBackToEmbedded'')])
                 (signatureFor h req
                    (JObject [(''parameters'',
                       JObject [(''commitTime'', JString (FormatUTCMillis (CreatedAt update)))]),
                      (''type'', JString ''rollBackToEmbedded'')]))
                 (effectiveProtocolVersion req))
          else if Headers req ''expo-current-update-id'' = UpdateID update \<and>
                  effectiveProtocolVersion req = 1 then
            handleNoUpdateAvailable h req (effectiveProtocolVersion req)
          else
            (case Metadata update of
               None \<Rightarrow> JSON 500 (errorBody ''Update metadata missing'')
             | Some metadata \<Rightarrow>
                 sendManifest env h req (BundlePath update) metadata (UpdateID update) (ID update)
                   (FormatUTCMillis (CreatedAt update)) (effectiveRuntimeVersion req)
                   (effectivePlatform req) (effectiveProtocolVersion req)))"
proof -
  from assms have m: "Method req = ''GET''"
    and p: "effectivePlatform req = ''ios'' \<or> effectivePlatform req = ''android''"
    and r: "effectiveRuntimeVersion req \<noteq> []"
    and s: "Params req ''projectSlug'' \<noteq> []"
    and d: "updateRepo h \<noteq> None"
    by (simp_all add: passesPreChecks_def)
  from p have p': "\<not> (effectivePlatform req \<noteq> ''ios'' \<and> effectivePlatform req \<noteq> ''android'')"
    by blast
  show ?thesis
    unfolding ManifestHandler_Handle_def Let_def
      effectivePlatform_def [symmetric] effectiveRuntimeVersion_def [symmetric]
      effectiveChannel_def [symmetric] effectiveProtocolVersion_def [symmetric]
      latestCandidate_def [symmetric]
    by (simp only: m p' r s d if_False if_True not_True_eq_False not_False_eq_True simp_thms)
qed

text \<open>
  C3: when the latest candidate of a manifest request is a rollback record, the
  reply is the no-update outcome if the request's \<open>expo-current-update-id\<close> header
  equals its \<open>expo-embedded-update-id\<close> header (HTTP 404 with the JSON error under
  protocol 0, the \<open>noUpdateAvailable\<close> directive otherwise), and else the
  \<open>rollBackToEmbedded\<close> directive whose \<open>parameters.commitTime\<close> is the record's
  \<open>createdAt\<close> printed in UTC with the layout \<open>2006-01-02T15:04:05.000Z\<close>. For a
  \<open>createdAt\<close> from year 0000 to year 9999, the years that four digits hold, that
  string has the shape \<open>YYYY-MM-DDTHH:MM:SS.sssZ\<close> and reads, as a date of the
  calendar and a time of day in UTC, as the instant \<open>createdAt\<close>.
\<close>

theorem C3_rollback:
  assumes "passesPreChecks h req"
    and "latestCandidate h req = Inr (Some u)"
    and "IsRollback u"
  shows "ManifestHandler_Handle env h req =
     (if Headers req ''expo-current-update-id'' = Headers req ''expo-embedded-update-id'' then
        (if effectiveProtocolVersion req = 0 then
           JSON 404 (JObject [(''error'', JString ''No update available'')])
         else
           multipartDirective (effectiveProtocolVersion req)
             (signatureFor h req noUpdateAvailableDirective) noUpdateAvailableDirective)
      else
        multipartDirective (effectiveProtocolVersion req)
          (signatureFor h req (rollBackToEmbeddedDirective (FormatUTCMillis (CreatedAt u))))
          (rollBackToEmbeddedDirective (FormatUTCMillis (CreatedAt u)))) \<and>
     (- 62167219200000 \<le> CreatedAt u \<and> CreatedAt u < 253402300800000 \<longrightarrow>
        readUTCMillis (FormatUTCMillis (CreatedAt u)) = Some (CreatedAt u))"
proof -
  have "ManifestHandler_Handle env h req =
     (if Headers req ''expo-current-update-id'' = Headers req ''expo-embedded-update-id'' then
        (if effectiveProtocolVersion req = 0 then
           JSON 404 (JObject [(''error'', JString ''No update available'')])
         else
           multipartDirective (effectiveProtocolVersion req)
             (signatureFor h req noUpdateAvailableDirective) noUpdateAvailableDirective)
      else
        multipartDirective (effectiveProtocolVersion req)
          (signatureFor h req (rollBackToEmbeddedDirective (FormatUTCMillis (CreatedAt u))))
          (rollBackToEmbeddedDirective (FormatUTCMillis (CreatedAt u))))"
    unfolding Handle_after_prechecks [OF assms(1)]
    by (simp add: assms(2,3) handleNoUpdateAvailable_def sendMultipartResponse_def errorBody_def
        multipartDirective_def noUpdateAvailableDirective_def rollBackToEmbeddedDirective_def Let_def)
  moreover have "- 62167219200000 \<le> CreatedAt u \<and> CreatedAt u < 253402300800000 \<longrightarrow>
        readUTCMillis (FormatUTCMillis (CreatedAt u)) = Some (CreatedAt u)"
    by (simp add: readUTCMillis_Format)
  ultimately show ?thesis by (rule conjI)
qed

text \<open>
  The scenario of a rollback record created at 2025-01-02T03:04:05.678Z: a client
  whose current and embedded identifiers differ is told to roll back with that
  commit time; a client whose identifiers agree gets \<open>noUpdateAvailable\<close>; and
  the commit time reads as the instant of creation.
\<close>

theorem C3_rollback_witness:
  "ManifestHandler_Handle env0 (handlerOver [rollbackDoc]) (manifestRequest
      [(''expo-protocol-version'', ''1''), (''expo-platform'', ''android''),
       (''expo-runtime-version'', ''1''), (''expo-current-update-id'', ''A''),
       (''expo-embedded-update-id'', ''B'')]) =
     multipartDirective 1 [] (rollBackToEmbeddedDirective ''2025-01-02T03:04:05.678Z'') \<and>
   ManifestHandler_Handle env0 (handlerOver [rollbackDoc]) (manifestRequest
      [(''expo-protocol-version'', ''1''), (''expo-platform'', ''android''),
       (''expo-runtime-version'', ''1''), (''expo-current-update-id'', ''X''),
       (''expo-embedded-update-id'', ''X'')]) =
     multipartDirective 1 [] noUpdateAvailableDirective \<and>
   readUTCMillis ''2025-01-02T03:04:05.678Z'' = Some 1735787045678"
proof -
  let ?h = "handlerOver [rollbackDoc]"
  let ?r1 = "manifestRequest [(''expo-protocol-version'', ''1''), (''expo-platform'', ''android''),
       (''expo-runtime-version'', ''1''), (''expo-current-update-id'', ''A''),
       (''expo-embedded-update-id'', ''B'')]"
  let ?r2 = "manifestRequest [(''expo-protocol-version'', ''1''), (''expo-platform'', ''android''),
       (''expo-runtime-version'', ''1''), (''expo-current-update-id'', ''X''),
       (''expo-embedded-update-id'', ''X'')]"
  have p1: "passesPreChecks ?h ?r1" and p2: "passesPreChecks ?h ?r2"
    by (simp_all add: passesPreChecks_def handlerOver_def manifestRequest_def
        effectivePlatform_def effectiveRuntimeVersion_def)
  have c1: "latestCandidate ?h ?r1 = Inr (Some rollbackDoc)"
    and c2: "latestCandidate ?h ?r2 = Inr (Some rollbackDoc)"
    by (simp_all add: latestCandidate_def handlerOver_def UpdateRepository_FindLatest_def
        manifestRequest_def effectivePlatform_def effectiveRuntimeVersion_def
        effectiveChannel_def findLatestFilter_def rollbackDoc_def PlatformAll_def)
  have r: "IsRollback rollbackDoc" and t: "CreatedAt rollbackDoc = 1735787045678"
    by (simp_all add: rollbackDoc_def)
  have v1: "effectiveProtocolVersion ?r1 = 1" and v2: "effectiveProtocolVersion ?r2 = 1"
    by (simp_all add: effectiveProtocolVersion_def manifestRequest_def Atoi_1)
  have s: "\<And>rq d. signatureFor ?h rq d = []"
    by (simp add: signatureFor_def handlerOver_def IsLoaded_def)
  have h1: "Headers ?r1 ''expo-current-update-id'' \<noteq> Headers ?r1 ''expo-embedded-update-id''"
    and h2: "Headers ?r2 ''expo-current-update-id'' = Headers ?r2 ''expo-embedded-update-id''"
    by (simp_all add: manifestRequest_def)
  have g: "- 62167219200000 \<le> (1735787045678 :: int) \<and> (1735787045678 :: int) < 253402300800000"
    by simp
  from C3_rollback [OF p1 c1 r, of env0] C3_rollback [OF p2 c2 r, of env0]
  show ?thesis
    unfolding t FormatUTCMillis_example
    by (simp only: h1 h2 v1 v2 s g if_True if_False simp_thms) simp
qed

text \<open>
  C4: for a manifest request that passes the pre-checks and for which the store
  query yields no candidate, the reply under protocol version 0 is HTTP 404 with
  the JSON body \<open>{"error": "No update available"}\<close>, and under protocol version 1 it
  is HTTP 200 with a multipart body of one part named \<open>directive\<close> whose JSON body
  is \<open>{"type":"noUpdateAvailable"}\<close> (signed when a signature was requested and a
  key is loaded).
\<close>

theorem C4_no_candidate:
  assumes "passesPreChecks h req"
    and "\<forall>u. latestCandidate h req \<noteq> Inr (Some u)"
  shows "(effectiveProtocolVersion req = 0 \<longrightarrow>
            ManifestHandler_Handle env h req =
              JSON 404 (JObject [(''error'', JString ''No update available'')])) \<and>
         (effectiveProtocolVersion req = 1 \<longrightarrow>
            ManifestHandler_Handle env h req =
              Multipart 200
                [(''expo-protocol-version'', ''1''), (''expo-sfv-version'', ''0''),
                 (''cache-control'', ''private, max-age=0'')]
                ([(''Content-Type'', ''application/json''),
                  (''Content-Disposition'',
                   ''form-data; name='' @ [CHR 0x22] @ ''directive'' @ [CHR 0x22])] @
                 (if signatureFor h req (JObject [(''type'', JString ''noUpdateAvailable'')]) \<noteq> []
                  then [(''expo-signature'',
                         signatureFor h req (JObject [(''type'', JString ''noUpdateAvailable'')]))]
                  else []))
                (JObject [(''type'', JString ''noUpdateAvailable'')]))"
proof -
  have "ManifestHandler_Handle env h req =
          handleNoUpdateAvailable h req (effectiveProtocolVersion req)"
    using assms(2) unfolding Handle_after_prechecks [OF assms(1)]
    by (cases "latestCandidate h req") (auto split: option.splits)
  then show ?thesis
    by (simp add: handleNoUpdateAvailable_def sendMultipartResponse_def errorBody_def Itoa_1 Let_def)
qed

text \<open>The empty store, queried without and with \<open>expo-protocol-version: 1\<close>.\<close>

theorem C4_no_candidate_witness:
  "ManifestHandler_Handle env0 (handlerOver []) (manifestRequest
      [(''expo-platform'', ''android''), (''expo-runtime-version'', ''1''),
       (''expo-channel-name'', ''production'')]) =
     JSON 404 (JObject [(''error'', JString ''No update available'')]) \<and>
   ManifestHandler_Handle env0 (handlerOver []) (manifestRequest
      [(''expo-protocol-version'', ''1''), (''expo-platform'', ''android''),
       (''expo-runtime-version'', ''1''), (''expo-channel-name'', ''production'')]) =
     Multipart 200
       [(''expo-protocol-version'', ''1''), (''expo-sfv-version'', ''0''),
        (''cache-control'', ''private, max-age=0'')]
       [(''Content-Type'', ''application/json''),
        (''Content-Disposition'', ''form-data; name='' @ [CHR 0x22] @ ''directive'' @ [CHR 0x22])]
       (JObject [(''type'', JString ''noUpdateAvailable'')])"
proof -
  let ?h = "handlerOver []"
  let ?r0 = "manifestRequest [(''expo-platform'', ''android''), (''expo-runtime-version'', ''1''),
       (''expo-channel-name'', ''production'')]"
  let ?r1 = "manifestRequest [(''expo-protocol-version'', ''1''), (''expo-platform'', ''android''),
       (''expo-runtime-version'', ''1''), (''expo-channel-name'', ''production'')]"
  have p0: "passesPreChecks ?h ?r0" and p1: "passesPreChecks ?h ?r1"
    by (simp_all add: passesPreChecks_def handlerOver_def manifestRequest_def
        effectivePlatform_def effectiveRuntimeVersion_def)
  have c0: "\<forall>u. latestCandidate ?h ?r0 \<noteq> Inr (Some u)"
    and c1: "\<forall>u. latestCandidate ?h ?r1 \<noteq> Inr (Some u)"
    by (simp_all add: latestCandidate_def handlerOver_def UpdateRepository_FindLatest_def)
  have v0: "effectiveProtocolVersion ?r0 = 0" and v1: "effectiveProtocolVersion ?r1 = 1"
    by (simp_all add: effectiveProtocolVersion_def manifestRequest_def Atoi_0 Atoi_1)
  have s1: "signatureFor ?h ?r1 (JObject [(''type'', JString ''noUpdateAvailable'')]) = []"
    by (simp add: signatureFor_def manifestRequest_def)
  from C4_no_candidate [OF p0 c0, of env0] C4_no_candidate [OF p1 c1, of env0] v0 v1 s1
  show ?thesis by simp
qed

section \<open>The asset endpoint\<close>

text \<open>
  A target that begins with a scheme parses with that scheme or not at all, so
  \<open>http.Redirect\<close> does not rewrite it.
\<close>

lemma isSchemeChar_not:
  "isSchemeChar c \<Longrightarrow> c \<noteq> CHR ''#''" "isSchemeChar c \<Longrightarrow> c \<noteq> CHR '':''"
  by (auto simp: isSchemeChar_def isLetter_def isDigit_def)

lemma schemeScan_found:
  "list_all isSchemeChar p \<Longrightarrow> pre \<noteq> [] \<or> (p \<noteq> [] \<and> isLetter (hd p)) \<Longrightarrow>
   schemeScan raw pre (p @ CHR '':'' # r) = Some (pre @ p, r)"
proof (induction p arbitrary: pre)
  case Nil
  then show ?case by (simp add: isLetter_def isDigit_def)
next
  case (Cons c p)
  from Cons.prems(1) have c: "isSchemeChar c" and p: "list_all isSchemeChar p" by simp_all
  show ?case
  proof (cases "isLetter c")
    case True
    with Cons.IH [OF p, of "pre @ [c]"] show ?thesis by simp
  next
    case False
    with Cons.prems(2) have n: "pre \<noteq> []" by simp
    from False c have d: "isDigit c \<or> c = CHR ''+'' \<or> c = CHR ''-'' \<or> c = CHR ''.''"
      by (simp add: isSchemeChar_def)
    from Cons.IH [OF p, of "pre @ [c]"] False n d show ?thesis by simp
  qed
qed

lemma beginsWithScheme_split:
  assumes "beginsWithScheme u"
  obtains p r where "u = p @ CHR '':'' # r" "p \<noteq> []" "isLetter (hd p)" "list_all isSchemeChar p"
proof -
  define p where "p = takeWhile isSchemeChar u"
  define q where "q = dropWhile isSchemeChar u"
  have u: "u = p @ q" by (simp add: p_def q_def)
  from assms have a: "p \<noteq> []" "isLetter (hd p)" "length p < length u" "u ! length p = CHR '':''"
    by (simp_all add: beginsWithScheme_def Let_def p_def)
  from a(3) u have "q \<noteq> []" by auto
  then obtain c r where q: "q = c # r" by (cases q) auto
  from a(4) have "c = CHR '':''" unfolding u q by simp
  with u q have e: "u = p @ CHR '':'' # r" by simp
  have l: "list_all isSchemeChar p"
    unfolding p_def list_all_iff by (auto dest: set_takeWhileD)
  from e a(1,2) l show thesis by (rule that)
qed

lemma url_Parse_scheme:
  assumes "beginsWithScheme u"
  shows "url_Parse env u = None \<or> (\<exists>scheme host. url_Parse env u = Some (scheme, host) \<and> scheme \<noteq> [])"
proof -
  from assms obtain p r where u: "u = p @ CHR '':'' # r" and p: "p \<noteq> []" "isLetter (hd p)"
    "list_all isSchemeChar p"
    by (rule beginsWithScheme_split)
  define r' where "r' = takeWhile (\<lambda>c. c \<noteq> CHR ''#'') r"
  from p(3) have "\<forall>c\<in>set p. c \<noteq> CHR ''#''"
    by (auto simp: list_all_iff dest: isSchemeChar_not)
  then have cut: "fst (strings_Cut u (CHR ''#'')) = p @ CHR '':'' # r'"
    by (simp add: strings_Cut_def u r'_def takeWhile_append2)
  have g: "getScheme (p @ CHR '':'' # r') = Some (p, r')"
    unfolding getScheme_def using schemeScan_found [OF p(3), of "[]" "p @ CHR '':'' # r'" r'] p
    by simp
  from p(1) have star: "p @ CHR '':'' # r' \<noteq> ''*''"
    by (cases p) simp_all
  have "url_parse env (p @ CHR '':'' # r') = None \<or>
        (\<exists>host. url_parse env (p @ CHR '':'' # r') = Some (map toLowerChar p, host))"
    unfolding url_parse_def g Let_def
    by (simp only: star if_False option.case prod.case split: if_splits option.splits) auto
  with p(1) show ?thesis
    unfolding url_Parse_def
    by (cases "strings_Cut u (CHR ''#'')") (use cut in \<open>auto split: option.splits\<close>)
qed

lemma hexEscapeNonASCII_ascii: "isASCII s \<Longrightarrow> hexEscapeNonASCII s = s"
  by (induction s) (simp_all add: isASCII_def hexEscapeNonASCII_def)

lemma RedirectLocation_scheme:
  assumes "beginsWithScheme u" "isASCII u"
  shows "http_RedirectLocation env urlPath u = u"
proof -
  from url_Parse_scheme [OF assms(1), of env]
  have "(case url_Parse env u of
          None \<Rightarrow> u
        | Some (scheme, host) \<Rightarrow>
            if scheme = [] \<and> host = [] then
              (let oldpath = (if urlPath = [] then ''/'' else urlPath);
                   olddir = rev (dropWhile (\<lambda>c. c \<noteq> CHR ''/'') (rev oldpath));
                   url1 = (if u = [] \<or> hd u \<noteq> CHR ''/'' then olddir @ u else u);
                   url2 = takeWhile (\<lambda>c. c \<noteq> CHR ''?'') url1;
                   query = dropWhile (\<lambda>c. c \<noteq> CHR ''?'') url1;
                   trailing = strings_HasSuffix url2 ''/'';
                   url3 = filepath_Clean url2;
                   url4 = (if trailing \<and> \<not> strings_HasSuffix url3 ''/'' then url3 @ ''/'' else url3)
               in url4 @ query)
            else u) = u"
    by auto
  then show ?thesis
    unfolding http_RedirectLocation_def by (simp only: hexEscapeNonASCII_ascii [OF assms(2)])
qed

lemma Redirect_relative:
  "http_RedirectLocation env0 ''/api/assets'' ''foo'' = ''/api/foo''"
  by (simp add: http_RedirectLocation_def url_Parse_def url_parse_def strings_Cut_def
      stringContainsCTLByte_def getScheme_def isLetter_def isDigit_def strings_HasPrefix_def
      validEscapes.simps hexEscapeNonASCII_def strings_HasSuffix_def filepath_Clean_def
      cleanStep_def Let_def)

lemma Redirect_escaped:
  "http_RedirectLocation env0 ''/api/assets'' (''https://cdn/'' @ [CHR 0xC3, CHR 0xA9]) =
     ''https://cdn/%c3%a9''"
proof -
  have b: "beginsWithScheme (''https://cdn/'' @ [CHR 0xC3, CHR 0xA9])"
    by (simp add: beginsWithScheme_def isSchemeChar_def isLetter_def isDigit_def)
  from url_Parse_scheme [OF b, of env0]
  have "(case url_Parse env0 (''https://cdn/'' @ [CHR 0xC3, CHR 0xA9]) of
          None \<Rightarrow> ''https://cdn/'' @ [CHR 0xC3, CHR 0xA9]
        | Some (scheme, host) \<Rightarrow>
            if scheme = [] \<and> host = [] then
              (let oldpath = (if ''/api/assets'' = [] then ''/'' else ''/api/assets'');
                   olddir = rev (dropWhile (\<lambda>c. c \<noteq> CHR ''/'') (rev oldpath));
                   url1 = (if ''https://cdn/'' @ [CHR 0xC3, CHR 0xA9] = [] \<or>
                              hd (''https://cdn/'' @ [CHR 0xC3, CHR 0xA9]) \<noteq> CHR ''/''
                           then olddir @ ''https://cdn/'' @ [CHR 0xC3, CHR 0xA9]
                           else ''https://cdn/'' @ [CHR 0xC3, CHR 0xA9]);
                   url2 = takeWhile (\<lambda>c. c \<noteq> CHR ''?'') url1;
                   query = dropWhile (\<lambda>c. c \<noteq> CHR ''?'') url1;
                   trailing = strings_HasSuffix url2 ''/'';
                   url3 = filepath_Clean url2;
                   url4 = (if trailing \<and> \<not> strings_HasSuffix url3 ''/'' then url3 @ ''/'' else url3)
               in url4 @ query)
            else ''https://cdn/'' @ [CHR 0xC3, CHR 0xA9]) = ''https://cdn/'' @ [CHR 0xC3, CHR 0xA9]"
    by auto
  then show ?thesis
    unfolding http_RedirectLocation_def
    by (simp add: hexEscapeNonASCII_def hex_EncodeToString_def hexdigit_def)
qed

text \<open>
  C10, as the code has it: an asset request whose \<open>redirect\<close> query parameter is
  non-empty is answered with a 302 redirect, whatever the \<open>asset\<close>, \<open>platform\<close> and
  \<open>runtimeVersion\<close> parameters are (absent included) and whatever the file system
  holds: the parameter validation, the path-traversal check and the
  file-existence check are not reached. The \<open>Location\<close> is the one
  \<open>http.Redirect\<close> sets for that URL; it is exactly that URL when the URL begins
  with a scheme and is made of ASCII bytes.
\<close>

theorem C10_redirect:
  assumes "c_Query req ''redirect'' \<noteq> []"
  shows "fst (AssetsHandler_Handle env dir repo req) =
           Redirect 302 (http_RedirectLocation env (URLPath req) (c_Query req ''redirect'')) \<and>
         (beginsWithScheme (c_Query req ''redirect'') \<and> isASCII (c_Query req ''redirect'') \<longrightarrow>
            fst (AssetsHandler_Handle env dir repo req) = Redirect 302 (c_Query req ''redirect''))"
proof -
  have r: "fst (AssetsHandler_Handle env dir repo req) =
           Redirect 302 (http_RedirectLocation env (URLPath req) (c_Query req ''redirect''))"
    using assms by (simp add: AssetsHandler_Handle_def Let_def)
  show ?thesis
    unfolding r by (simp add: RedirectLocation_scheme)
qed

text \<open>
  To exactly that URL, the property fails: on \<open>/api/assets\<close> the relative target
  \<open>foo\<close> is sent as \<open>/api/foo\<close>, and the two bytes of a non-ASCII letter in an
  absolute target are sent percent-escaped.
\<close>

theorem C10_counterexample:
  "fst (AssetsHandler_Handle env0 ''./updates'' None
         \<lparr>Method = ''GET'', URLPath = ''/api/assets'', Headers = (\<lambda>k. []),
          QueryValues = [''redirect'' \<mapsto> ''foo''], Params = (\<lambda>k. [])\<rparr>) =
     Redirect 302 ''/api/foo'' \<and>
   fst (AssetsHandler_Handle env0 ''./updates'' None
         \<lparr>Method = ''GET'', URLPath = ''/api/assets'', Headers = (\<lambda>k. []),
          QueryValues = [''redirect'' \<mapsto> ''https://cdn/'' @ [CHR 0xC3, CHR 0xA9]],
          Params = (\<lambda>k. [])\<rparr>) =
     Redirect 302 ''https://cdn/%c3%a9''"
proof -
  have a: "fst (AssetsHandler_Handle env0 ''./updates'' None
         \<lparr>Method = ''GET'', URLPath = ''/api/assets'', Headers = (\<lambda>k. []),
          QueryValues = [''redirect'' \<mapsto> ''foo''], Params = (\<lambda>k. [])\<rparr>) =
     Redirect 302 (http_RedirectLocation env0 ''/api/assets'' ''foo'')"
    by (simp add: AssetsHandler_Handle_def Let_def c_Query_def)
  have b: "fst (AssetsHandler_Handle env0 ''./updates'' None
         \<lparr>Method = ''GET'', URLPath = ''/api/assets'', Headers = (\<lambda>k. []),
          QueryValues = [''redirect'' \<mapsto> ''https://cdn/'' @ [CHR 0xC3, CHR 0xA9]],
          Params = (\<lambda>k. [])\<rparr>) =
     Redirect 302 (http_RedirectLocation env0 ''/api/assets''
        (''https://cdn/'' @ [CHR 0xC3, CHR 0xA9]))"
    by (simp add: AssetsHandler_Handle_def Let_def c_Query_def)
  show ?thesis
    unfolding a b Redirect_relative Redirect_escaped by simp
qed

text \<open>A request that carries an absolute \<open>redirect\<close> target and nothing else.\<close>

theorem C10_redirect_witness:
  "fst (AssetsHandler_Handle env0 ''./updates'' None
         \<lparr>Method = ''GET'', URLPath = ''/api/assets'', Headers = (\<lambda>k. []),
          QueryValues = [''redirect'' \<mapsto> ''https://cdn/x''], Params = (\<lambda>k. [])\<rparr>) =
     Redirect 302 ''https://cdn/x''"
proof -
  let ?req = "\<lparr>Method = ''GET'', URLPath = ''/api/assets'', Headers = (\<lambda>k. []),
          QueryValues = [''redirect'' \<mapsto> ''https://cdn/x''], Params = (\<lambda>k. [])\<rparr>"
  have q: "c_Query ?req ''redirect'' = ''https://cdn/x''"
    by (simp add: c_Query_def)
  have b: "beginsWithScheme ''https://cdn/x''"
    by (simp add: beginsWithScheme_def isSchemeChar_def isLetter_def isDigit_def)
  have i: "isASCII ''https://cdn/x''"
    by (simp add: isASCII_def)
  have n: "c_Query ?req ''redirect'' \<noteq> []"
    by (simp add: q)
  from C10_redirect [OF n, of env0 "''./updates''" None, THEN conjunct2] b i show ?thesis
    unfolding q by blast
qed

section \<open>The update repository\<close>

lemma findOneNewest_None: "(findOneNewest xs = None) = (xs = [])"
  by (induction xs) (auto split: option.splits)

lemma findOneNewest_Some:
  "findOneNewest xs = Some u \<Longrightarrow> u \<in> set xs \<and> (\<forall>v\<in>set xs. CreatedAt v \<le> CreatedAt u)"
proof (induction xs arbitrary: u)
  case Nil
  then show ?case by simp
next
  case (Cons x xs)
  show ?case
  proof (cases "findOneNewest xs")
    case None
    then have "xs = []" by (simp add: findOneNewest_None)
    with Cons.prems show ?thesis by simp
  next
    case (Some w)
    from Cons.IH [OF Some] have w: "w \<in> set xs" "\<forall>v\<in>set xs. CreatedAt v \<le> CreatedAt w"
      by simp_all
    show ?thesis
    proof (cases "CreatedAt x < CreatedAt w")
      case True
      with Some Cons.prems have "u = w" by simp
      with w True show ?thesis by auto
    next
      case False
      with Some Cons.prems have "u = x" by simp
      with w False show ?thesis by fastforce
    qed
  qed
qed

lemma findLatestFilter_amended: "findLatestFilter p r c pl = amendedMatch p r c pl"
  by (rule ext) (auto simp: findLatestFilter_def amendedMatch_def PlatformAll_def)

lemma findOneNewest_mem: "findOneNewest xs = Some u \<Longrightarrow> u \<in> set xs"
  by (induction xs arbitrary: u) (auto split: option.splits if_splits)

lemma FindLatest_slug:
  "UpdateRepository_FindLatest r slug rv ch pl = Inr (Some u) \<Longrightarrow> ProjectSlug u = slug"
  by (auto simp: UpdateRepository_FindLatest_def findLatestFilter_def
      split: option.splits dest!: findOneNewest_mem)

lemma Create_rollback:
  "UpdateRepository_Create (Some coll) now newID (rollbackRecord req) =
     (case fault coll of
        Some e \<Rightarrow> Inl (''failed to insert update: '' @ e)
      | None \<Rightarrow> Inr (insertedRollback req now newID,
                     Some (coll\<lparr>docs := docs coll @ [insertedRollback req now newID]\<rparr>)))"
  by (simp add: UpdateRepository_Create_def rollbackRecord_def insertedRollback_def
      c_DefaultQuery_def ChannelProduction_def PlatformAll_def NilObjectID_def Let_def
      split: option.splits)

text \<open>
  C2, as the code has it: over a reachable store, \<open>FindLatest\<close> returns a record
  with the greatest \<open>createdAt\<close> among the active records whose project, runtime
  version and channel equal the query and whose platform is the requested one
  or \<open>all\<close>, where the platform is constrained only when the requested platform is
  non-empty; it returns nil exactly when no record matches. For a non-empty
  requested platform the records selected from are those the specification names.
\<close>

theorem C2_find_latest:
  assumes "fault coll = None"
  shows "((\<exists>u. UpdateRepository_FindLatest (Some coll) project runtime channel platform = Inr (Some u) \<and>
              u \<in> set (docs coll) \<and> amendedMatch project runtime channel platform u \<and>
              (\<forall>v\<in>set (docs coll). amendedMatch project runtime channel platform v \<longrightarrow>
                 CreatedAt v \<le> CreatedAt u)) \<or>
          (UpdateRepository_FindLatest (Some coll) project runtime channel platform = Inr None \<and>
           (\<forall>v\<in>set (docs coll). \<not> amendedMatch project runtime channel platform v))) \<and>
         (platform \<noteq> [] \<longrightarrow>
            amendedMatch project runtime channel platform =
            claimedMatch project runtime channel platform)"
proof -
  let ?M = "filter (amendedMatch project runtime channel platform) (docs coll)"
  have r: "UpdateRepository_FindLatest (Some coll) project runtime channel platform =
             Inr (findOneNewest ?M)"
    using assms by (simp add: UpdateRepository_FindLatest_def findLatestFilter_amended)
  have a: "platform \<noteq> [] \<longrightarrow>
            amendedMatch project runtime channel platform =
            claimedMatch project runtime channel platform"
    by (auto simp: amendedMatch_def claimedMatch_def fun_eq_iff)
  show ?thesis
  proof (cases "findOneNewest ?M")
    case None
    then have "?M = []" by (simp add: findOneNewest_None)
    then have "\<forall>v\<in>set (docs coll). \<not> amendedMatch project runtime channel platform v"
      by (simp add: filter_empty_conv)
    with r None a show ?thesis by simp
  next
    case (Some u)
    from findOneNewest_Some [OF Some]
    have "u \<in> set (docs coll)" "amendedMatch project runtime channel platform u"
      "\<forall>v\<in>set (docs coll). amendedMatch project runtime channel platform v \<longrightarrow>
         CreatedAt v \<le> CreatedAt u"
      by auto
    with r Some a show ?thesis by simp
  qed
qed

text \<open>
  As stated for every query, the property fails for the empty platform: the store
  holds one android record, no record has platform \<open>""\<close> or \<open>all\<close>, and the query
  returns the android record instead of nil.
\<close>

theorem C2_counterexample:
  "UpdateRepository_FindLatest
     (Some \<lparr>docs = [storedUpdate ''65a000000000000000000003'' ''android'' 1000 100], fault = None\<rparr>)
     ''demo'' ''1'' ''production'' [] =
     Inr (Some (storedUpdate ''65a000000000000000000003'' ''android'' 1000 100)) \<and>
   filter (claimedMatch ''demo'' ''1'' ''production'' [])
     [storedUpdate ''65a000000000000000000003'' ''android'' 1000 100] = []"
  by (simp add: UpdateRepository_FindLatest_def findLatestFilter_def claimedMatch_def
      storedUpdate_def)

text \<open>Three records, queried for android: the newest of the two that match.\<close>

theorem C2_find_latest_witness:
  "UpdateRepository_FindLatest
     (Some \<lparr>docs = [storedUpdate ''65a000000000000000000003'' ''android'' 1000 100,
                    storedUpdate ''65a000000000000000000004'' ''all'' 2000 100,
                    storedUpdate ''65a000000000000000000005'' ''ios'' 3000 100], fault = None\<rparr>)
     ''demo'' ''1'' ''production'' ''android'' =
     Inr (Some (storedUpdate ''65a000000000000000000004'' ''all'' 2000 100)) \<and>
   amendedMatch ''demo'' ''1'' ''production'' ''android'' =
     claimedMatch ''demo'' ''1'' ''production'' ''android''"
  using C2_find_latest [of "\<lparr>docs = [storedUpdate ''65a000000000000000000003'' ''android'' 1000 100,
                    storedUpdate ''65a000000000000000000004'' ''all'' 2000 100,
                    storedUpdate ''65a000000000000000000005'' ''ios'' 3000 100], fault = None\<rparr>"
          "''demo''" "''1''" "''production''" "''android''"]
  by (simp add: UpdateRepository_FindLatest_def findLatestFilter_def storedUpdate_def
      PlatformAll_def)

section \<open>The admin surface\<close>

text \<open>
  C9: the record the create-rollback endpoint inserts has an empty project slug
  (it carries the runtime version and channel of the query, platform \<open>all\<close>,
  \<open>isActive\<close>, \<open>isRollback\<close> and rollout 100); a store failure inserts nothing;
  and \<open>FindLatest\<close>, whatever the store, never returns that record to a query with
  a non-empty project slug.
\<close>

theorem C9_rollback_empty_slug:
  "AdminHandler_CreateRollback (Some coll) req now newID =
     (case fault coll of
        Some e \<Rightarrow> (JSON 500 (errorBody (''failed to insert update: '' @ e)), Some coll)
      | None \<Rightarrow>
          (JSONWithUpdate 201
             [(''message'', JString ''Rollback created successfully''),
              (''previousId'', JString (Params req ''id''))]
             ''rollback'' (insertedRollback req now newID),
           Some (coll\<lparr>docs := docs coll @ [insertedRollback req now newID]\<rparr>))) \<and>
   ProjectSlug (insertedRollback req now newID) = [] \<and>
   (\<forall>r slug rv ch pl. slug \<noteq> [] \<longrightarrow>
      UpdateRepository_FindLatest r slug rv ch pl \<noteq> Inr (Some (insertedRollback req now newID)))"
proof -
  have "ProjectSlug (insertedRollback req now newID) = []"
    by (simp add: insertedRollback_def)
  moreover from this have "\<forall>r slug rv ch pl. slug \<noteq> [] \<longrightarrow>
      UpdateRepository_FindLatest r slug rv ch pl \<noteq> Inr (Some (insertedRollback req now newID))"
    using FindLatest_slug by fastforce
  moreover have "AdminHandler_CreateRollback (Some coll) req now newID =
     (case fault coll of
        Some e \<Rightarrow> (JSON 500 (errorBody (''failed to insert update: '' @ e)), Some coll)
      | None \<Rightarrow>
          (JSONWithUpdate 201
             [(''message'', JString ''Rollback created successfully''),
              (''previousId'', JString (Params req ''id''))]
             ''rollback'' (insertedRollback req now newID),
           Some (coll\<lparr>docs := docs coll @ [insertedRollback req now newID]\<rparr>)))"
    by (simp add: AdminHandler_CreateRollback_def Create_rollback split: option.splits)
  ultimately show ?thesis by blast
qed

text \<open>A rollback created on the empty store is invisible to project \<open>demo\<close>.\<close>

theorem C9_rollback_empty_slug_witness:
  "snd (AdminHandler_CreateRollback (Some \<lparr>docs = [], fault = None\<rparr>)
          \<lparr>Method = ''POST'',
           URLPath = ''/api/admin/updates/65a000000000000000000003/rollback'',
           Headers = (\<lambda>k. []),
           QueryValues = [''runtimeVersion'' \<mapsto> ''1''],
           Params = (\<lambda>k. if k = ''id'' then ''65a000000000000000000003'' else [])\<rparr>
          5000 ''65a000000000000000000009'') =
     Some \<lparr>docs =
       [\<lparr>ID = ''65a000000000000000000009'', ProjectSlug = [], UpdateID = [],
         RuntimeVersion = ''1'', Channel = ''production'', Platform = ''all'', BundlePath = [],
         CreatedAt = 5000, IsActive = True, IsRollback = True, RolloutPercentage = 100,
         Downloads = 0, Metadata = None\<rparr>], fault = None\<rparr> \<and>
   UpdateRepository_FindLatest
     (snd (AdminHandler_CreateRollback (Some \<lparr>docs = [], fault = None\<rparr>)
          \<lparr>Method = ''POST'',
           URLPath = ''/api/admin/updates/65a000000000000000000003/rollback'',
           Headers = (\<lambda>k. []),
           QueryValues = [''runtimeVersion'' \<mapsto> ''1''],
           Params = (\<lambda>k. if k = ''id'' then ''65a000000000000000000003'' else [])\<rparr>
          5000 ''65a000000000000000000009''))
     ''demo'' ''1'' ''production'' ''android'' = Inr None"
  using C9_rollback_empty_slug [of "\<lparr>docs = [], fault = None\<rparr>"
          "\<lparr>Method = ''POST'',
           URLPath = ''/api/admin/updates/65a000000000000000000003/rollback'',
           Headers = (\<lambda>k. []),
           QueryValues = [''runtimeVersion'' \<mapsto> ''1''],
           Params = (\<lambda>k. if k = ''id'' then ''65a000000000000000000003'' else [])\<rparr>"
          5000 "''65a000000000000000000009''"]
  by (simp add: insertedRollback_def c_Query_def UpdateRepository_FindLatest_def
      findLatestFilter_def)

text \<open>
  C5: an admin patch of \<open>rolloutPercentage\<close> is meant to persist the value clamped
  into [0, 100]. The patch handler writes the request's value unchanged: 150 is
  persisted as 150 and -5 as -5. The repository's \<open>SetRollout\<close>, which the handler
  does not call, clamps the same values to 100 and 0.
\<close>

theorem C5_patch_not_clamped:
  "AdminHandler_UpdateUpdate
     (Some \<lparr>docs = [storedUpdate ''65a000000000000000000003'' ''android'' 1000 50], fault = None\<rparr>)
     ''65a000000000000000000003''
     (Inr \<lparr>req_IsActive = None, req_RolloutPercentage = Some 150\<rparr>) =
     (JSON 200 (JObject [(''id'', JString ''65a000000000000000000003''),
                         (''message'', JString ''Update modified successfully'')]),
      Some \<lparr>docs = [storedUpdate ''65a000000000000000000003'' ''android'' 1000 150],
            fault = None\<rparr>) \<and>
   AdminHandler_UpdateUpdate
     (Some \<lparr>docs = [storedUpdate ''65a000000000000000000003'' ''android'' 1000 50], fault = None\<rparr>)
     ''65a000000000000000000003''
     (Inr \<lparr>req_IsActive = None, req_RolloutPercentage = Some (- 5)\<rparr>) =
     (JSON 200 (JObject [(''id'', JString ''65a000000000000000000003''),
                         (''message'', JString ''Update modified successfully'')]),
      Some \<lparr>docs = [storedUpdate ''65a000000000000000000003'' ''android'' 1000 (- 5)],
            fault = None\<rparr>) \<and>
   UpdateRepository_SetRollout
     (Some \<lparr>docs = [storedUpdate ''65a000000000000000000003'' ''android'' 1000 50], fault = None\<rparr>)
     ''65a000000000000000000003'' 150 =
     Inr (Some \<lparr>docs = [storedUpdate ''65a000000000000000000003'' ''android'' 1000 100],
                fault = None\<rparr>) \<and>
   UpdateRepository_SetRollout
     (Some \<lparr>docs = [storedUpdate ''65a000000000000000000003'' ''android'' 1000 50], fault = None\<rparr>)
     ''65a000000000000000000003'' (- 5) =
     Inr (Some \<lparr>docs = [storedUpdate ''65a000000000000000000003'' ''android'' 1000 0],
                fault = None\<rparr>)"
proof -
  have oid: "ObjectIDFromHex ''65a000000000000000000003'' = Some ''65a000000000000000000003''"
    by (simp add: ObjectIDFromHex_def isHexChar_def toLowerChar_def)
  show ?thesis
    by (simp add: AdminHandler_UpdateUpdate_def UpdateRepository_SetRollout_def
        UpdateRepository_Update_def oid applySet_def storedUpdate_def)
qed

section \<open>The rollout selector\<close>

lemma decoderune_le: "fst (decoderune c s) \<le> 0x10FFFF"
proof -
  have a: "\<And>x y. (x::nat) mod 32 * 64 + y mod 64 \<le> 0x10FFFF"
  proof -
    fix x y :: nat
    have "x mod 32 \<le> 31" "y mod 64 \<le> 63" by simp_all
    then show "x mod 32 * 64 + y mod 64 \<le> 0x10FFFF" by linarith
  qed
  have b: "\<And>x y z. (x::nat) mod 16 * 4096 + y mod 64 * 64 + z mod 64 \<le> 0x10FFFF"
  proof -
    fix x y z :: nat
    have "x mod 16 \<le> 15" "y mod 64 \<le> 63" "z mod 64 \<le> 63" by simp_all
    then show "x mod 16 * 4096 + y mod 64 * 64 + z mod 64 \<le> 0x10FFFF" by linarith
  qed
  show ?thesis
    unfolding decoderune_def Let_def runeError_def
    by (simp add: a b split: list.split)
qed

lemma rangeRunes_le: "\<forall>r\<in>set (rangeRunes f). r \<le> 0x10FFFF"
proof (induction f rule: rangeRunes.induct)
  case 1
  then show ?case by simp
next
  case (2 c s)
  show ?case
  proof (cases "(of_char c :: nat) < 0x80")
    case True
    with 2 show ?thesis by simp
  next
    case False
    with 2 decoderune_le [of c s] show ?thesis by simp
  qed
qed

lemma length_rangeRunes: "length (rangeRunes f) \<le> length f"
proof (induction f rule: rangeRunes.induct)
  case 1
  then show ?case by simp
next
  case (2 c s)
  show ?case
  proof (cases "(of_char c :: nat) < 0x80")
    case True
    with 2 show ?thesis by simp
  next
    case False
    with 2 have "length (rangeRunes (drop (snd (decoderune c s) - 1) s))
                   \<le> length (drop (snd (decoderune c s) - 1) s)"
      by simp
    also have "\<dots> \<le> length s" by simp
    finally show ?thesis using False by simp
  qed
qed

lemma sum_list_bound: "\<forall>x\<in>set xs. x \<le> (B::nat) \<Longrightarrow> sum_list xs \<le> B * length xs"
  by (induction xs) auto

lemma wrap64_id: "- (2 ^ 63) \<le> x \<Longrightarrow> x < 2 ^ 63 \<Longrightarrow> wrap64 x = x"
  by (simp add: wrap64_def)

lemma foldl_wrap64:
  "0 \<le> a \<Longrightarrow> a + int (sum_list xs) < 2 ^ 63 \<Longrightarrow>
   foldl (\<lambda>s c. wrap64 (s + int c)) a xs = a + int (sum_list xs)"
proof (induction xs arbitrary: a)
  case Nil
  then show ?case by simp
next
  case (Cons x xs)
  have w: "wrap64 (a + int x) = a + int x"
    using Cons.prems by (intro wrap64_id) auto
  have "foldl (\<lambda>s c. wrap64 (s + int c)) (a + int x) xs = (a + int x) + int (sum_list xs)"
    using Cons.prems by (intro Cons.IH) auto
  with w show ?case by (simp add: add.assoc)
qed

lemma runeSum_bound: "length f < 2 ^ 42 \<Longrightarrow> int (runeSum f) < 2 ^ 63"
proof -
  assume l: "length f < 2 ^ 42"
  have "runeSum f \<le> 0x10FFFF * length (rangeRunes f)"
    unfolding runeSum_def by (rule sum_list_bound) (rule rangeRunes_le)
  also have "\<dots> \<le> 0x10FFFF * length f"
    using length_rangeRunes [of f] by simp
  also have "\<dots> < 0x10FFFF * 2 ^ 42"
    using l by simp
  also have "\<dots> < (2::nat) ^ 63" by simp
  finally have "runeSum f < 2 ^ 63" .
  then have "int (runeSum f) < int (2 ^ 63)" by (rule iffD2 [OF of_nat_less_iff])
  then show ?thesis by simp
qed

lemma hashSum_runeSum: "length f < 2 ^ 42 \<Longrightarrow> hashSum f = int (runeSum f)"
  using foldl_wrap64 [of 0 "rangeRunes f"] runeSum_bound [of f]
  by (simp add: hashSum_def runeSum_def)

lemma go_rem_100: "0 \<le> a \<Longrightarrow> go_rem a 100 = a mod 100"
  by (cases "a = 0") (simp_all add: go_rem_def minus_mult_div_eq_mod)

lemma rangeRunes_ascii: "isASCII f \<Longrightarrow> rangeRunes f = map of_char f"
  by (induction f) (simp_all add: isASCII_def)

text \<open>
  C6, as the code has it: \<open>ShouldReceiveUpdate\<close> answers true for a percentage of
  100 or more and false for 0 or less; otherwise, for a non-empty fingerprint
  (shorter than \<open>2^42\<close> bytes, so that the 64-bit sum cannot overflow), it answers
  whether the sum of the fingerprint's runes, modulo 100, is below the percentage.
  The runes are the Unicode code points of the UTF-8 decoding (U+FFFD for each
  ill-formed byte); for an ASCII fingerprint their sum is the sum of the bytes. In
  all three cases the answer does not depend on the random generator: the same
  fingerprint and percentage give the same answer on every call.
\<close>

theorem C6_should_serve:
  "(100 \<le> p \<longrightarrow> ShouldReceiveUpdate r p f) \<and>
   (p \<le> 0 \<longrightarrow> \<not> ShouldReceiveUpdate r p f) \<and>
   (0 < p \<and> p < 100 \<and> f \<noteq> [] \<and> length f < 2 ^ 42 \<longrightarrow>
      ShouldReceiveUpdate r p f = (int (runeSum f) mod 100 < p)) \<and>
   (isASCII f \<longrightarrow> runeSum f = byteSum f) \<and>
   (100 \<le> p \<or> p \<le> 0 \<or> f \<noteq> [] \<longrightarrow> ShouldReceiveUpdate r p f = ShouldReceiveUpdate r' p f)"
proof -
  have "0 < p \<and> p < 100 \<and> f \<noteq> [] \<and> length f < 2 ^ 42 \<longrightarrow>
      ShouldReceiveUpdate r p f = (int (runeSum f) mod 100 < p)"
    by (simp add: ShouldReceiveUpdate_def deterministicRollout_def hashSum_runeSum go_rem_100)
  moreover have "isASCII f \<longrightarrow> runeSum f = byteSum f"
    by (simp add: runeSum_def byteSum_def rangeRunes_ascii)
  moreover have "100 \<le> p \<longrightarrow> ShouldReceiveUpdate r p f"
    and "p \<le> 0 \<longrightarrow> \<not> ShouldReceiveUpdate r p f"
    and "100 \<le> p \<or> p \<le> 0 \<or> f \<noteq> [] \<longrightarrow>
           ShouldReceiveUpdate r p f = ShouldReceiveUpdate r' p f"
    by (auto simp: ShouldReceiveUpdate_def)
  ultimately show ?thesis by blast
qed

lemma rangeRunes_e_acute: "rangeRunes [CHR 0xC3, CHR 0xA9] = [233]"
  by (simp add: decoderune_def isCont_def)

text \<open>
  With the sum of the byte values the property fails: the fingerprint \<open>0xC3 0xA9\<close>
  (the letter e with acute accent in UTF-8) has byte sum 364, bucket 64, which is
  not below 50; the code reads the single rune 233, bucket 33, and serves.
\<close>

theorem C6_counterexample:
  "ShouldReceiveUpdate \<lparr>nextIntn = 0\<rparr> 50 [CHR 0xC3, CHR 0xA9] \<and>
   \<not> (int (byteSum [CHR 0xC3, CHR 0xA9]) mod 100 < 50)"
proof -
  have h: "hashSum [CHR 0xC3, CHR 0xA9] = 233"
    unfolding hashSum_def rangeRunes_e_acute by (simp add: wrap64_def)
  have g: "go_rem 233 100 = 33"
    by (simp add: go_rem_def)
  have b: "byteSum [CHR 0xC3, CHR 0xA9] = 364"
    by (simp add: byteSum_def)
  show ?thesis
    unfolding ShouldReceiveUpdate_def deterministicRollout_def h g b Let_def by simp
qed

text \<open>The fingerprint \<open>abc\<close> (sum 294, bucket 94) at 100, 0, 50 and 95 percent.\<close>

theorem C6_should_serve_witness:
  "ShouldReceiveUpdate \<lparr>nextIntn = 7\<rparr> 100 ''abc'' \<and>
   \<not> ShouldReceiveUpdate \<lparr>nextIntn = 7\<rparr> 0 ''abc'' \<and>
   \<not> ShouldReceiveUpdate \<lparr>nextIntn = 7\<rparr> 50 ''abc'' \<and>
   ShouldReceiveUpdate \<lparr>nextIntn = 7\<rparr> 95 ''abc'' \<and>
   runeSum ''abc'' = byteSum ''abc'' \<and>
   ShouldReceiveUpdate \<lparr>nextIntn = 7\<rparr> 50 ''abc'' = ShouldReceiveUpdate \<lparr>nextIntn = 99\<rparr> 50 ''abc''"
proof -
  have s: "runeSum ''abc'' = 294" by (simp add: runeSum_def)
  have a: "isASCII ''abc''" by (simp add: isASCII_def)
  have l: "length ''abc'' < 2 ^ 42" by simp
  have f1: "ShouldReceiveUpdate \<lparr>nextIntn = 7\<rparr> 100 ''abc''"
    using C6_should_serve [of 100 "\<lparr>nextIntn = 7\<rparr>" "''abc''" "\<lparr>nextIntn = 99\<rparr>"] by simp
  have f2: "\<not> ShouldReceiveUpdate \<lparr>nextIntn = 7\<rparr> 0 ''abc''"
    using C6_should_serve [of 0 "\<lparr>nextIntn = 7\<rparr>" "''abc''" "\<lparr>nextIntn = 99\<rparr>"] by simp
  have f3: "\<not> ShouldReceiveUpdate \<lparr>nextIntn = 7\<rparr> 50 ''abc''"
    and f5: "runeSum ''abc'' = byteSum ''abc''"
    and f6: "ShouldReceiveUpdate \<lparr>nextIntn = 7\<rparr> 50 ''abc'' =
             ShouldReceiveUpdate \<lparr>nextIntn = 99\<rparr> 50 ''abc''"
    using C6_should_serve [of 50 "\<lparr>nextIntn = 7\<rparr>" "''abc''" "\<lparr>nextIntn = 99\<rparr>"] s a l
    by auto
  have f4: "ShouldReceiveUpdate \<lparr>nextIntn = 7\<rparr> 95 ''abc''"
    using C6_should_serve [of 95 "\<lparr>nextIntn = 7\<rparr>" "''abc''" "\<lparr>nextIntn = 99\<rparr>"] s l
    by simp
  from f1 f2 f3 f4 f5 f6 show ?thesis by blast
qed

section \<open>The manifest endpoint and the rollout percentage\<close>

text \<open>
  C1: the manifest endpoint is meant to apply rollout gating to the candidate, so
  that a device outside the candidate's \<open>rolloutPercentage\<close> does not receive the
  full manifest. The handler holds the rollout service but never consults it:
  whatever the candidate's percentage, the request receives the full manifest,
  also at 0 percent, where \<open>ShouldReceiveUpdate\<close> admits no device at all.
\<close>

theorem C1_no_rollout_gating:
  "(\<forall>k. ManifestHandler_Handle env0 (handlerOver [shippedUpdate k])
          (manifestRequest [(''expo-protocol-version'', ''1''), (''expo-platform'', ''android''),
             (''expo-runtime-version'', ''1''), (''expo-channel-name'', ''production'')]) =
        Multipart 200
          [(''expo-protocol-version'', ''1''), (''expo-sfv-version'', ''0''),
           (''cache-control'', ''private, max-age=0'')]
          [(''Content-Type'', ''application/json''),
           (''Content-Disposition'', ''form-data; name='' @ [CHR 0x22] @ ''manifest'' @ [CHR 0x22])]
          shippedManifest) \<and>
   RolloutPercentage (shippedUpdate 0) = 0 \<and>
   (\<forall>r f. \<not> ShouldReceiveUpdate r 0 f)"
proof -
  let ?r = "manifestRequest [(''expo-protocol-version'', ''1''), (''expo-platform'', ''android''),
        (''expo-runtime-version'', ''1''), (''expo-channel-name'', ''production'')]"
  have v: "effectiveProtocolVersion ?r = 1"
    by (simp add: effectiveProtocolVersion_def manifestRequest_def Atoi_1)
  have e: "effectivePlatform ?r = ''android''" "effectiveRuntimeVersion ?r = ''1''"
    "Headers ?r ''expo-current-update-id'' = []"
    by (simp_all add: effectivePlatform_def effectiveRuntimeVersion_def manifestRequest_def)
  have h: "ManifestHandler_Handle env0 (handlerOver [shippedUpdate k]) ?r =
     Multipart 200
       [(''expo-protocol-version'', ''1''), (''expo-sfv-version'', ''0''),
        (''cache-control'', ''private, max-age=0'')]
       [(''Content-Type'', ''application/json''),
        (''Content-Disposition'', ''form-data; name='' @ [CHR 0x22] @ ''manifest'' @ [CHR 0x22])]
       shippedManifest" for k
  proof -
    let ?h = "handlerOver [shippedUpdate k]"
    have p: "passesPreChecks ?h ?r"
      by (simp add: passesPreChecks_def handlerOver_def manifestRequest_def
          effectivePlatform_def effectiveRuntimeVersion_def)
    have c: "latestCandidate ?h ?r = Inr (Some (shippedUpdate k))"
      by (simp add: latestCandidate_def handlerOver_def UpdateRepository_FindLatest_def
          manifestRequest_def effectivePlatform_def effectiveRuntimeVersion_def
          effectiveChannel_def findLatestFilter_def shippedUpdate_def)
    have s: "\<And>d. signatureFor ?h ?r d = []"
      by (simp add: signatureFor_def handlerOver_def IsLoaded_def)
    have u: "IsRollback (shippedUpdate k) = False"
      "UpdateID (shippedUpdate k) = ''2d711642-b726-b044-0162-7ca9fbac32f5''"
      "ID (shippedUpdate k) = ''65a000000000000000000007''"
      "BundlePath (shippedUpdate k) = []"
      "CreatedAt (shippedUpdate k) = 1735787045678"
      "Metadata (shippedUpdate k) = Some
          \<lparr>FileMetadata = Some
             [''android'' \<mapsto>
                \<lparr>Bundle = ''bundles/android-a.js'', BundleUrl = [],
                 BundleKey = ''2d711642b726b04401627ca9fbac32f5'',
                 BundleHash = ''LXEWQrcmsEQBYnyp-6wy9chTD7GQPMTbAiWHF5IaSIE'',
                 Assets = []\<rparr>],
           ExpoConfig = [(''slug'', JString ''demo'')]\<rparr>"
      by (simp_all add: shippedUpdate_def)
    have m: "sendManifest env0 ?h ?r []
          \<lparr>FileMetadata = Some
             [''android'' \<mapsto>
                \<lparr>Bundle = ''bundles/android-a.js'', BundleUrl = [],
                 BundleKey = ''2d711642b726b04401627ca9fbac32f5'',
                 BundleHash = ''LXEWQrcmsEQBYnyp-6wy9chTD7GQPMTbAiWHF5IaSIE'',
                 Assets = []\<rparr>],
           ExpoConfig = [(''slug'', JString ''demo'')]\<rparr>
          ''2d711642-b726-b044-0162-7ca9fbac32f5'' ''65a000000000000000000007''
          ''2025-01-02T03:04:05.678Z'' ''1'' ''android'' 1 =
       Multipart 200
         [(''expo-protocol-version'', ''1''), (''expo-sfv-version'', ''0''),
          (''cache-control'', ''private, max-age=0'')]
         [(''Content-Type'', ''application/json''),
          (''Content-Disposition'', ''form-data; name='' @ [CHR 0x22] @ ''manifest'' @ [CHR 0x22])]
         shippedManifest"
      by (simp add: sendManifest_def getAssetInfoFromMetadataOrFile_def assetInfo_def
          assetContentType_def filepath_IsAbs_def strings_HasPrefix_def filepath_ToSlash_def
          env0_def s sendMultipartResponse_def Itoa_1 shippedManifest_def map_filter_simps
          Let_def)
    show ?thesis
      unfolding Handle_after_prechecks [OF p] c
      by (simp add: u v e FormatUTCMillis_example m)
  qed
  have g: "\<forall>r f. \<not> ShouldReceiveUpdate r 0 f"
    by (simp add: ShouldReceiveUpdate_def)
  have z: "RolloutPercentage (shippedUpdate 0) = 0"
    by (simp add: shippedUpdate_def)
  from h g z show ?thesis by blast
qed

section \<open>Hashing\<close>

lemma hexval_hexdigit: "n < 16 \<Longrightarrow> hexval (hexdigit n) = Some n"
proof -
  have "\<forall>n\<in>set [0..<16]. hexval (hexdigit n) = Some n"
    by (simp add: upt_rec hexval_def hexdigit_def)
  then show "n < 16 \<Longrightarrow> hexval (hexdigit n) = Some n" by simp
qed

lemma b64val_b64char: "n < 64 \<Longrightarrow> b64val (b64char n) = Some n"
proof -
  have "\<forall>n\<in>set [0..<64]. b64val (b64char n) = Some n"
    by (simp add: upt_rec b64val_def b64char_def encodeURL_def)
  then show "n < 64 \<Longrightarrow> b64val (b64char n) = Some n" by simp
qed


lemma of_char_lt_256: "(of_char c :: nat) < 256"
proof -
  have "(of_char c :: nat) mod 256 < 256" by simp
  then show ?thesis by (simp only: of_char_mod_256)
qed

lemma hex_byte_roundtrip:
  "char_of ((of_char c :: nat) div 16 * 16 + of_char c mod 16) = c"
  by simp

lemma hex_roundtrip: "hex_DecodeString (hex_EncodeToString bs) = Some bs"
proof (induction bs)
  case Nil
  then show ?case by (simp add: hex_EncodeToString_def)
next
  case (Cons c bs)
  have d: "(of_char c :: nat) div 16 < 16"
    using of_char_lt_256 [of c] by (simp add: less_mult_imp_div_less)
  have m: "(of_char c :: nat) mod 16 < 16" by simp
  from Cons show ?case
    by (simp add: hex_EncodeToString_def hexval_hexdigit [OF d] hexval_hexdigit [OF m]
        del: of_char_mod_256)
qed

lemma take_hex: "take (2 * n) (hex_EncodeToString bs) = hex_EncodeToString (take n bs)"
proof (induction bs arbitrary: n)
  case Nil
  then show ?case by (simp add: hex_EncodeToString_def)
next
  case (Cons c bs)
  show ?case
  proof (cases n)
    case 0
    then show ?thesis by (simp add: hex_EncodeToString_def)
  next
    case (Suc k)
    with Cons [of k] show ?thesis by (simp add: hex_EncodeToString_def)
  qed
qed

lemma length_hex: "length (hex_EncodeToString bs) = 2 * length bs"
  by (induction bs) (simp_all add: hex_EncodeToString_def)

lemma dm_div: "y < k \<Longrightarrow> (x * k + y) div k = (x::nat)"
  by simp

lemma dm_mod: "y < k \<Longrightarrow> (x * k + y) mod k = (y::nat)"
  by simp

lemma b64_bounds:
  assumes "a < 256" "b < 256" "c < (256::nat)"
  shows "a div 4 < 64" "(a mod 4) * 16 + b div 16 < 64" "(b mod 16) * 4 + c div 64 < 64"
    "c mod 64 < 64" "(b mod 16) * 4 < 64" "(a mod 4) * 16 < 64"
proof -
  have a4: "a mod 4 < 4" and b16: "b mod 16 < 16" by simp_all
  have bd: "b div 16 < 16" and cd: "c div 64 < 4" and ad: "a div 4 < 64"
    using assms by (simp_all add: less_mult_imp_div_less)
  show "a div 4 < 64" by (rule ad)
  show "(a mod 4) * 16 + b div 16 < 64" using a4 bd by linarith
  show "(b mod 16) * 4 + c div 64 < 64" using b16 cd by linarith
  show "c mod 64 < 64" by simp
  show "(b mod 16) * 4 < 64" using b16 by linarith
  show "(a mod 4) * 16 < 64" using a4 by linarith
qed

lemma b64_recombine:
  assumes "b < 256" "c < (256::nat)"
  shows "a div 4 * 4 + ((a mod 4) * 16 + b div 16) div 16 = a"
    "(((a mod 4) * 16 + b div 16) mod 16) * 16 + ((b mod 16) * 4 + c div 64) div 4 = b"
    "(((b mod 16) * 4 + c div 64) mod 4) * 64 + c mod 64 = c"
    "(((a mod 4) * 16 + b div 16) mod 16) * 16 + ((b mod 16) * 4) div 4 = b"
    "a div 4 * 4 + ((a mod 4) * 16) div 16 = a"
proof -
  have bd: "b div 16 < 16" and cd: "c div 64 < 4"
    using assms by (simp_all add: less_mult_imp_div_less)
  show "a div 4 * 4 + ((a mod 4) * 16 + b div 16) div 16 = a"
    by (simp only: dm_div [OF bd] div_mult_mod_eq)
  show "(((a mod 4) * 16 + b div 16) mod 16) * 16 + ((b mod 16) * 4 + c div 64) div 4 = b"
    by (simp only: dm_mod [OF bd] dm_div [OF cd] div_mult_mod_eq)
  show "(((b mod 16) * 4 + c div 64) mod 4) * 64 + c mod 64 = c"
    by (simp only: dm_mod [OF cd] div_mult_mod_eq)
  show "(((a mod 4) * 16 + b div 16) mod 16) * 16 + ((b mod 16) * 4) div 4 = b"
    by (simp only: dm_mod [OF bd] nonzero_mult_div_cancel_right div_mult_mod_eq)
  show "a div 4 * 4 + ((a mod 4) * 16) div 16 = a"
    by simp
qed


lemma b64_roundtrip_nat:
  "\<forall>x\<in>set bs. x < 256 \<Longrightarrow>
   list_all (\<lambda>c. b64val c \<noteq> None) (b64enc bs) \<and>
   b64dec (map (\<lambda>c. the (b64val c)) (b64enc bs)) = Some bs"
proof (induction bs rule: b64enc.induct)
  case (1 a b c r)
  then have abc: "a < 256" "b < 256" "c < 256" and r: "\<forall>x\<in>set r. x < 256"
    by simp_all
  from 1 r have ih: "list_all (\<lambda>c. b64val c \<noteq> None) (b64enc r)"
    "b64dec (map (\<lambda>c. the (b64val c)) (b64enc r)) = Some r"
    by simp_all
  define s0 where "s0 = a div 4"
  define s1 where "s1 = (a mod 4) * 16 + b div 16"
  define s2 where "s2 = (b mod 16) * 4 + c div 64"
  define s3 where "s3 = c mod 64"
  note bd = b64_bounds [OF abc, folded s0_def s1_def s2_def s3_def]
  note rc = b64_recombine(1) [OF abc(2,3), of a, folded s0_def s1_def s2_def s3_def]
    b64_recombine(2) [OF abc(2,3), of a, folded s0_def s1_def s2_def s3_def]
    b64_recombine(3) [OF abc(2,3), folded s0_def s1_def s2_def s3_def]
  have e: "b64enc (a # b # c # r) = b64char s0 # b64char s1 # b64char s2 # b64char s3 # b64enc r"
    by (simp add: s0_def s1_def s2_def s3_def)
  have v: "b64val (b64char s0) = Some s0" "b64val (b64char s1) = Some s1"
    "b64val (b64char s2) = Some s2" "b64val (b64char s3) = Some s3"
    using bd by (simp_all add: b64val_b64char)
  have d: "b64dec (s0 # s1 # s2 # s3 # map (\<lambda>c. the (b64val c)) (b64enc r)) =
           Some ((s0 * 4 + s1 div 16) # ((s1 mod 16) * 16 + s2 div 4) # ((s2 mod 4) * 64 + s3) # r)"
    by (simp only: b64dec.simps ih option.map)
  show ?case
    unfolding e by (simp only: list.pred_inject list.map v option.sel d rc ih) simp
next
  case (2 a b)
  then have ab: "a < 256" "b < 256" by simp_all
  define s0 where "s0 = a div 4"
  define s1 where "s1 = (a mod 4) * 16 + b div 16"
  define s2 where "s2 = (b mod 16) * 4"
  note bd = b64_bounds(1,2,5) [OF ab ab(2), folded s0_def s1_def s2_def]
  note rc = b64_recombine(1) [OF ab(2) ab(2), of a, folded s0_def s1_def s2_def]
    b64_recombine(4) [OF ab(2) ab(2), of a, folded s0_def s1_def s2_def]
  have e: "b64enc [a, b] = [b64char s0, b64char s1, b64char s2]"
    by (simp add: s0_def s1_def s2_def)
  have v: "b64val (b64char s0) = Some s0" "b64val (b64char s1) = Some s1"
    "b64val (b64char s2) = Some s2"
    using bd by (simp_all add: b64val_b64char)
  show ?case
    unfolding e by (simp only: list.pred_inject list.map v option.sel b64dec.simps rc) simp
next
  case (3 a)
  then have a: "a < 256" by simp
  define s0 where "s0 = a div 4"
  define s1 where "s1 = (a mod 4) * 16"
  note bd = b64_bounds(1,6) [OF a a a, folded s0_def s1_def]
  note rc = b64_recombine(5) [OF a a, of a, folded s0_def s1_def]
  have e: "b64enc [a] = [b64char s0, b64char s1]"
    by (simp add: s0_def s1_def)
  have v: "b64val (b64char s0) = Some s0" "b64val (b64char s1) = Some s1"
    using bd by (simp_all add: b64val_b64char)
  show ?case
    unfolding e by (simp only: list.pred_inject list.map v option.sel b64dec.simps rc) simp
next
  case 4
  show ?case by simp
qed

lemma base64_roundtrip:
  "RawURLEncoding_DecodeString (RawURLEncoding_EncodeToString data) = Some data"
proof -
  have "\<forall>x\<in>set (map of_char data). x < (256::nat)"
    by (simp add: of_char_lt_256)
  from b64_roundtrip_nat [OF this]
  show ?thesis
    by (simp add: RawURLEncoding_DecodeString_def RawURLEncoding_EncodeToString_def
        comp_def map_idI)
qed

lemma length_word_bytes: "length (word_bytes w) = 4"
  by (simp add: word_bytes_def)

lemma length_Sum256: "length (sha256_Sum256 data) = 32"
  by (simp add: sha256_Sum256_def Let_def length_word_bytes split: prod.split)

section \<open>Ingestion\<close>

lemma RegisterUpdate_reaches:
  assumes "ingestReachesCreate io repo"
  shows "AdminHandler_RegisterUpdate env io repo projects =
     (case UpdateRepository_Create repo (TimeNow io) (InsertedID io) (ingestRecord env io) of
        Inl err \<Rightarrow> (JSON 500 (errorBody err), repo, ingestProjects io projects)
      | Inr (created, repo') \<Rightarrow>
          (JSONWithUpdate 201 [(''message'', JString ''Update registered successfully'')]
             ''update'' created, repo', ingestProjects io projects))"
proof -
  from assms obtain filename tempDir where
    f: "FormFileBundle io = Inr filename" and t: "MkdirTemp io = Some tempDir"
    and r: "repo \<noteq> None" "ParseMultipartFormErr io = None"
      "c_PostForm io ''projectSlug'' \<noteq> []" "c_PostForm io ''runtimeVersion'' \<noteq> []"
      "CreateZipOk io" "CopyZipOk io" "UnzipErr io = None"
    by (auto simp: ingestReachesCreate_def split: sum.splits)
  show ?thesis
    unfolding AdminHandler_RegisterUpdate_def ingestRecord_def ingestBundlePath_def
      ingestProjects_def
    by (simp add: f t r Let_def ChannelProduction_def PlatformAll_def)
qed

lemma errorBody_ex: "\<exists>msg. errorBody m = errorBody msg"
  by (rule exI) (rule refl)

lemma RegisterUpdate_early:
  assumes "\<not> ingestReachesCreate io repo"
  shows "snd (AdminHandler_RegisterUpdate env io repo projects) = (repo, projects) \<and>
         (\<exists>status msg. fst (AdminHandler_RegisterUpdate env io repo projects) =
              JSON status (errorBody msg) \<and>
            (status = 400 \<or> status = 500 \<or> status = 503))"
proof (cases "repo = None")
  case True
  then show ?thesis by (simp add: AdminHandler_RegisterUpdate_def errorBody_ex)
next
  case r: False
  show ?thesis
  proof (cases "ParseMultipartFormErr io")
    case (Some err)
    with r show ?thesis by (simp add: AdminHandler_RegisterUpdate_def errorBody_ex)
  next
    case p: None
    show ?thesis
    proof (cases "c_PostForm io ''projectSlug'' = [] \<or> c_PostForm io ''runtimeVersion'' = []")
      case True
      with r p show ?thesis by (simp add: AdminHandler_RegisterUpdate_def Let_def errorBody_ex)
    next
      case s: False
      show ?thesis
      proof (cases "FormFileBundle io")
        case (Inl err)
        with r p s show ?thesis by (simp add: AdminHandler_RegisterUpdate_def Let_def errorBody_ex)
      next
        case f: (Inr filename)
        show ?thesis
        proof (cases "MkdirTemp io")
          case None
          with r p s f show ?thesis by (simp add: AdminHandler_RegisterUpdate_def Let_def errorBody_ex)
        next
          case t: (Some tempDir)
          show ?thesis
          proof (cases "CreateZipOk io")
            case False
            with r p s f t show ?thesis by (simp add: AdminHandler_RegisterUpdate_def Let_def errorBody_ex)
          next
            case cz: True
            show ?thesis
            proof (cases "CopyZipOk io")
              case False
              with r p s f t cz show ?thesis
                by (simp add: AdminHandler_RegisterUpdate_def Let_def errorBody_ex)
            next
              case cp: True
              show ?thesis
              proof (cases "UnzipErr io")
                case (Some err)
                with r p s f t cz cp show ?thesis
                  by (simp add: AdminHandler_RegisterUpdate_def Let_def errorBody_ex)
              next
                case None
                with r p s f t cz cp have "ingestReachesCreate io repo"
                  by (simp add: ingestReachesCreate_def)
                with assms show ?thesis by simp
              qed
            qed
          qed
        qed
      qed
    qed
  qed
qed

lemma join_extracted:
  "filepath_Join ''/tmp/otaship-upload-1'' ''extracted'' = ''/tmp/otaship-upload-1/extracted''"
  "filepath_Join ''/tmp/otaship-upload-1/extracted'' ''metadata.json'' =
     ''/tmp/otaship-upload-1/extracted/metadata.json''"
  "filepath_Join ''/tmp/otaship-upload-1/extracted'' ''expoConfig.json'' =
     ''/tmp/otaship-upload-1/extracted/expoConfig.json''"
  "filepath_Join ''/tmp/otaship-upload-1/extracted'' ''bundles/android-a.js'' =
     ''/tmp/otaship-upload-1/extracted/bundles/android-a.js''"
  "filepath_Join ''/tmp/otaship-upload-1/extracted'' ''assets/a'' =
     ''/tmp/otaship-upload-1/extracted/assets/a''"
  by (simp_all add: filepath_Join_def filepath_Clean_def cleanStep_def)

lemma map_option_comp_upd:
  "map_option f \<circ> (m(k \<mapsto> v)) = (map_option f \<circ> m)(k \<mapsto> f v)"
  "map_option f \<circ> Map.empty = Map.empty"
  by (rule ext, simp)+

lemma ingest_reaches: "ingestReachesCreate ingestIO (Some \<lparr>docs = [], fault = f\<rparr>)"
  by (simp add: ingestReachesCreate_def ingestIO_def c_PostForm_def)

lemma ingest_projects:
  "ingestProjects ingestIO noProjects =
     Some (Some \<lparr>projectDocs = [demoProject], projectFault = None\<rparr>)"
  by (simp add: ingestProjects_def noProjects_def EnsureProjectExists_def ingestIO_def
      c_PostForm_def demoProject_def)

lemma ingest_bundlePath:
  "Files (ingestEnv files) ''/tmp/otaship-upload-1/extracted/metadata.json'' = Regular ''{metadata}''
   \<Longrightarrow> ingestBundlePath (ingestEnv files) ingestIO = ''/tmp/otaship-upload-1/extracted''"
  by (simp add: ingestBundlePath_def ingestIO_def resolveBundlePath_def join_extracted)

lemma ingest_decoded:
  assumes "Files (ingestEnv files) ''/tmp/otaship-upload-1/extracted/metadata.json'' =
             Regular ''{metadata}''"
  shows "decodedMetadata (ingestEnv files) ''/tmp/otaship-upload-1/extracted'' =
           Some (parsedMetadata [] [])"
proof -
  have u: "json_Unmarshal_UpdateMetadata (ingestEnv files) ''{metadata}'' =
             Some (parsedMetadata [] [])"
    by (simp add: ingestEnv_def)
  show ?thesis
    by (simp add: decodedMetadata_def os_ReadFile_def join_extracted assms u)
qed

lemma ingest_parse:
  assumes "Files (ingestEnv files) ''/tmp/otaship-upload-1/extracted/metadata.json'' =
             Regular ''{metadata}''"
    and "Files (ingestEnv files) ''/tmp/otaship-upload-1/extracted/expoConfig.json'' = NotExist"
  shows "parseMetadata (ingestEnv files) ''/tmp/otaship-upload-1/extracted'' =
           Some (computeHashes (ingestEnv files) ''/tmp/otaship-upload-1/extracted''
                   (parsedMetadata [] []))"
proof -
  have u: "json_Unmarshal_UpdateMetadata (ingestEnv files) ''{metadata}'' =
             Some (parsedMetadata [] [])"
    by (simp add: ingestEnv_def)
  show ?thesis
    by (simp add: parseMetadata_def os_ReadFile_def join_extracted assms u)
qed

lemma ingest_record_value:
  assumes "Files (ingestEnv files) ''/tmp/otaship-upload-1/extracted/metadata.json'' =
             Regular ''{metadata}''"
    and "Files (ingestEnv files) ''/tmp/otaship-upload-1/extracted/expoConfig.json'' = NotExist"
    and "computeHashes (ingestEnv files) ''/tmp/otaship-upload-1/extracted''
           (parsedMetadata [] []) = parsedMetadata k h"
  shows "ingestRecord (ingestEnv files) ingestIO =
     \<lparr>ID = NilObjectID, ProjectSlug = ''demo'',
      UpdateID = ''0f0e0d0c-0b0a-0908-0706-050403020100'', RuntimeVersion = ''1'',
      Channel = ''production'', Platform = ''all'',
      BundlePath = ''/tmp/otaship-upload-1/extracted'', CreatedAt = zeroTime,
      IsActive = True, IsRollback = False, RolloutPercentage = 100, Downloads = 0,
      Metadata = Some (parsedMetadata k h)\<rparr>"
proof -
  have io: "UploadDirectory ingestIO = None"
    "GenerateUUID ingestIO = ''0f0e0d0c-0b0a-0908-0706-050403020100''"
    "c_PostForm ingestIO ''projectSlug'' = ''demo''" "c_PostForm ingestIO ''runtimeVersion'' = ''1''"
    "c_PostForm ingestIO ''updateId'' = []"
    "c_DefaultPostForm ingestIO ''channel'' ''production'' = ''production''"
    "c_DefaultPostForm ingestIO ''platform'' ''all'' = ''all''"
    "c_DefaultPostForm ingestIO ''rolloutPercentage'' ''100'' = ''100''"
    by (simp_all add: ingestIO_def c_PostForm_def c_DefaultPostForm_def)
  have m: "Metadata (ingestRecord (ingestEnv files) ingestIO) = Some (parsedMetadata k h)"
    by (simp add: ingestRecord_def ingest_bundlePath [OF assms(1)] ingest_parse [OF assms(1,2)]
        assms(3) uploadToCloudinary_def io)
  have a: "strconv_Atoi ''100'' = 100"
    by (simp add: strconv_Atoi_def isDigit_def digitsValue_def)
  have "ingestRecord (ingestEnv files) ingestIO =
     (ingestRecord (ingestEnv files) ingestIO)\<lparr>Metadata := Some (parsedMetadata k h)\<rparr>"
    using m by simp
  also have "\<dots> = \<lparr>ID = NilObjectID, ProjectSlug = ''demo'',
    UpdateID = ''0f0e0d0c-0b0a-0908-0706-050403020100'', RuntimeVersion = ''1'',
    Channel = ''production'', Platform = ''all'',
    BundlePath = ''/tmp/otaship-upload-1/extracted'', CreatedAt = zeroTime,
    IsActive = True, IsRollback = False, RolloutPercentage = 100, Downloads = 0,
    Metadata = Some (parsedMetadata k h)\<rparr>"
    by (simp add: ingestRecord_def ingest_bundlePath [OF assms(1)] io a)
  finally show ?thesis .
qed

lemma ingest_record:
  assumes "Files (ingestEnv files) ''/tmp/otaship-upload-1/extracted/metadata.json'' =
             Regular ''{metadata}''"
    and "Files (ingestEnv files) ''/tmp/otaship-upload-1/extracted/expoConfig.json'' = NotExist"
    and "computeHashes (ingestEnv files) ''/tmp/otaship-upload-1/extracted''
           (parsedMetadata [] []) = parsedMetadata k h"
  shows "AdminHandler_RegisterUpdate (ingestEnv files) ingestIO
           (Some \<lparr>docs = [], fault = None\<rparr>) noProjects =
           (JSONWithUpdate 201 [(''message'', JString ''Update registered successfully'')]
              ''update'' (ingestedUpdate k h),
            Some \<lparr>docs = [ingestedUpdate k h], fault = None\<rparr>,
            Some (Some \<lparr>projectDocs = [demoProject], projectFault = None\<rparr>))"
proof -
  have io: "TimeNow ingestIO = 5000" "InsertedID ingestIO = ''65a00000000000000000000a''"
    by (simp_all add: ingestIO_def)
  show ?thesis
    unfolding RegisterUpdate_reaches [OF ingest_reaches] ingest_record_value [OF assms]
      ingest_projects
    by (simp add: UpdateRepository_Create_def NilObjectID_def ingestedUpdate_def io
        ChannelProduction_def Let_def)
qed

lemma ingest_missing_files:
  "AdminHandler_RegisterUpdate
     (ingestEnv [(''/tmp/otaship-upload-1/extracted/metadata.json'', Regular ''{metadata}'')])
     ingestIO (Some \<lparr>docs = [], fault = None\<rparr>) noProjects =
     (JSONWithUpdate 201 [(''message'', JString ''Update registered successfully'')]
        ''update'' (ingestedUpdate [] []),
      Some \<lparr>docs = [ingestedUpdate [] []], fault = None\<rparr>,
      Some (Some \<lparr>projectDocs = [demoProject], projectFault = None\<rparr>))"
proof (rule ingest_record)
  let ?env = "ingestEnv [(''/tmp/otaship-upload-1/extracted/metadata.json'', Regular ''{metadata}'')]"
  show "Files ?env ''/tmp/otaship-upload-1/extracted/metadata.json'' = Regular ''{metadata}''"
    by (simp add: ingestEnv_def)
  show "Files ?env ''/tmp/otaship-upload-1/extracted/expoConfig.json'' = NotExist"
    by (simp add: ingestEnv_def)
  have f: "Files ?env ''/tmp/otaship-upload-1/extracted/bundles/android-a.js'' = NotExist"
    "Files ?env ''/tmp/otaship-upload-1/extracted/assets/a'' = NotExist"
    by (simp_all add: ingestEnv_def)
  show "computeHashes ?env ''/tmp/otaship-upload-1/extracted'' (parsedMetadata [] []) =
          parsedMetadata [] []"
    by (simp add: computeHashes_def parsedMetadata_def map_option_comp_upd hashPlatform_def
        hashAsset_def os_ReadFile_def join_extracted f)
qed

lemma ingest_bundle_readable:
  "AdminHandler_RegisterUpdate
     (ingestEnv [(''/tmp/otaship-upload-1/extracted/metadata.json'', Regular ''{metadata}''),
                 (''/tmp/otaship-upload-1/extracted/bundles/android-a.js'', Regular ''x'')])
     ingestIO (Some \<lparr>docs = [], fault = None\<rparr>) noProjects =
     (JSONWithUpdate 201 [(''message'', JString ''Update registered successfully'')]
        ''update''
        (ingestedUpdate (take 32 (ComputeSHA256Hash ''x''))
           (Base64URLEncode (ComputeSHA256HashBytes ''x''))),
      Some \<lparr>docs = [ingestedUpdate (take 32 (ComputeSHA256Hash ''x''))
                          (Base64URLEncode (ComputeSHA256HashBytes ''x''))], fault = None\<rparr>,
      Some (Some \<lparr>projectDocs = [demoProject], projectFault = None\<rparr>))"
proof (rule ingest_record)
  let ?env = "ingestEnv [(''/tmp/otaship-upload-1/extracted/metadata.json'', Regular ''{metadata}''),
                 (''/tmp/otaship-upload-1/extracted/bundles/android-a.js'', Regular ''x'')]"
  show "Files ?env ''/tmp/otaship-upload-1/extracted/metadata.json'' = Regular ''{metadata}''"
    by (simp add: ingestEnv_def)
  show "Files ?env ''/tmp/otaship-upload-1/extracted/expoConfig.json'' = NotExist"
    by (simp add: ingestEnv_def)
  have f: "Files ?env ''/tmp/otaship-upload-1/extracted/bundles/android-a.js'' = Regular ''x''"
    "Files ?env ''/tmp/otaship-upload-1/extracted/assets/a'' = NotExist"
    by (simp_all add: ingestEnv_def)
  show "computeHashes ?env ''/tmp/otaship-upload-1/extracted'' (parsedMetadata [] []) =
          parsedMetadata (take 32 (ComputeSHA256Hash ''x''))
            (Base64URLEncode (ComputeSHA256HashBytes ''x''))"
    by (simp add: computeHashes_def parsedMetadata_def map_option_comp_upd hashPlatform_def
        hashAsset_def os_ReadFile_def join_extracted f)
qed

lemma ingest_store_fault:
  "AdminHandler_RegisterUpdate (ingestEnv files) ingestIO
     (Some \<lparr>docs = [], fault = Some ''server selection timeout''\<rparr>) noProjects =
     (JSON 500 (errorBody ''failed to insert update: server selection timeout''),
      Some \<lparr>docs = [], fault = Some ''server selection timeout''\<rparr>,
      Some (Some \<lparr>projectDocs = [demoProject], projectFault = None\<rparr>))"
  unfolding RegisterUpdate_reaches [OF ingest_reaches] ingest_projects
  by (simp add: UpdateRepository_Create_def Let_def)

lemma hashAsset_fields:
  "Path (hashAsset env bp a) = Path a"
  "hashedFrom env bp (Path a) (Key a) (Hash a) (Key (hashAsset env bp a)) (Hash (hashAsset env bp a))"
  by (simp_all add: hashAsset_def hashedFrom_def keyHashAgree_def ComputeSHA256Hash_def
      ComputeSHA256HashBytes_def Base64URLEncode_def split: option.splits)

lemma hashAsset_missing:
  "os_ReadFile env (filepath_Join bp (Path a)) = None \<Longrightarrow> hashAsset env bp a = a"
  by (simp add: hashAsset_def)

lemma hashPlatform_missing:
  "os_ReadFile env (filepath_Join bp (Bundle pm)) = None \<Longrightarrow>
   BundleKey (hashPlatform env bp pm) = BundleKey pm \<and>
   BundleHash (hashPlatform env bp pm) = BundleHash pm"
  by (simp add: hashPlatform_def)

lemma hashPlatform_hashed: "platformHashed env bp pm (hashPlatform env bp pm)"
proof -
  have a: "list_all2
             (\<lambda>d a. Path a = Path d \<and>
                hashedFrom env bp (Path d) (Key d) (Hash d) (Key a) (Hash a))
             as (map (hashAsset env bp) as)" for as
    by (simp add: list_all2_map2 list_all2_same hashAsset_fields)
  have b: "hashedFrom env bp (Bundle pm) (BundleKey pm) (BundleHash pm)
             (BundleKey (hashPlatform env bp pm)) (BundleHash (hashPlatform env bp pm))"
    by (simp add: hashPlatform_def Let_def hashedFrom_def keyHashAgree_def ComputeSHA256Hash_def
        ComputeSHA256HashBytes_def Base64URLEncode_def split: option.splits)
  have c: "Bundle (hashPlatform env bp pm) = Bundle pm"
    "Assets (hashPlatform env bp pm) = map (hashAsset env bp) (Assets pm)"
    by (simp_all add: hashPlatform_def Let_def split: option.splits)
  show ?thesis
    unfolding platformHashed_def c by (simp only: a b simp_thms)
qed

lemma injectAssetUrl_fields:
  "Path (injectAssetUrl m a) = Path a" "Key (injectAssetUrl m a) = Key a"
  "Hash (injectAssetUrl m a) = Hash a"
  by (simp_all add: injectAssetUrl_def split: option.splits)

lemma injectUrls_hashed:
  assumes "platformHashed env bp d pm"
  shows "platformHashed env bp d (injectUrls m pm)"
proof -
  have c: "Bundle (injectUrls m pm) = Bundle pm" "BundleKey (injectUrls m pm) = BundleKey pm"
    "BundleHash (injectUrls m pm) = BundleHash pm"
    "Assets (injectUrls m pm) = map (injectAssetUrl m) (Assets pm)"
    by (simp_all add: injectUrls_def Let_def split: option.splits)
  from assms show ?thesis
    unfolding platformHashed_def c
    by (simp add: list_all2_map2 injectAssetUrl_fields)
qed

lemma parseMetadata_hashed:
  assumes "parseMetadata env bp = Some md" "FileMetadata md = Some fm" "fm plat = Some pm"
  shows "\<exists>md0 fm0 pm0. decodedMetadata env bp = Some md0 \<and> FileMetadata md0 = Some fm0 \<and>
           fm0 plat = Some pm0 \<and> platformHashed env bp pm0 pm"
proof -
  from assms(1) obtain f md0 where
    f: "os_ReadFile env (filepath_Join bp ''metadata.json'') = Some f"
    and d: "json_Unmarshal_UpdateMetadata env f = Some md0"
    by (auto simp: parseMetadata_def split: option.splits)
  define md1 where "md1 =
    (case os_ReadFile env (filepath_Join bp ''expoConfig.json'') of
       None \<Rightarrow> md0
     | Some expoConfigFile \<Rightarrow>
         (case json_Unmarshal_map env expoConfigFile of
            None \<Rightarrow> md0
          | Some (JObject entries) \<Rightarrow> md0\<lparr>ExpoConfig := entries\<rparr>
          | Some _ \<Rightarrow> md0\<lparr>ExpoConfig := []\<rparr>))"
  have e: "FileMetadata md1 = FileMetadata md0"
    by (simp add: md1_def split: option.splits json.splits)
  from assms(1) have md: "md = computeHashes env bp md1"
    by (simp add: parseMetadata_def f d Let_def md1_def)
  from f d have dm: "decodedMetadata env bp = Some md0"
    by (simp add: decodedMetadata_def)
  from md assms(2,3) e obtain fm0 pm0 where "FileMetadata md0 = Some fm0" "fm0 plat = Some pm0"
    "pm = hashPlatform env bp pm0"
    by (auto simp: computeHashes_def)
  with dm show ?thesis by (auto intro: hashPlatform_hashed)
qed

lemma uploadToCloudinary_hashed:
  assumes "uploadToCloudinary io (parseMetadata env bp) = Some md" "FileMetadata md = Some fm"
    "fm plat = Some pm"
  shows "\<exists>md0 fm0 pm0. decodedMetadata env bp = Some md0 \<and> FileMetadata md0 = Some fm0 \<and>
           fm0 plat = Some pm0 \<and> platformHashed env bp pm0 pm"
proof -
  have "uploadToCloudinary io (parseMetadata env bp) = parseMetadata env bp \<or>
        (\<exists>urlMap. UploadDirectory io = Some (Inr urlMap))"
  proof (cases "UploadDirectory io")
    case None
    then show ?thesis by (simp add: uploadToCloudinary_def)
  next
    case (Some res)
    then show ?thesis by (cases res) (simp_all add: uploadToCloudinary_def)
  qed
  then consider "uploadToCloudinary io (parseMetadata env bp) = parseMetadata env bp"
    | urlMap where "UploadDirectory io = Some (Inr urlMap)"
    by blast
  then show ?thesis
  proof cases
    case 1
    with assms(1) have "parseMetadata env bp = Some md" by simp
    from parseMetadata_hashed [OF this assms(2,3)] show ?thesis .
  next
    case 2
    with assms(1) obtain md1 where p: "parseMetadata env bp = Some md1"
      and m: "md = md1\<lparr>FileMetadata :=
               map_option (\<lambda>fm. map_option (injectUrls urlMap) \<circ> fm) (FileMetadata md1)\<rparr>"
      by (auto simp: uploadToCloudinary_def)
    with assms(2,3) obtain fm1 pm1 where q: "FileMetadata md1 = Some fm1" "fm1 plat = Some pm1"
      and i: "pm = injectUrls urlMap pm1"
      by auto
    from parseMetadata_hashed [OF p q] obtain md0 fm0 pm0 where
      "decodedMetadata env bp = Some md0" "FileMetadata md0 = Some fm0" "fm0 plat = Some pm0"
      "platformHashed env bp pm0 pm1" by blast
    with i show ?thesis by (auto intro: injectUrls_hashed)
  qed
qed

lemma Create_Inr:
  assumes "UpdateRepository_Create repo now nid u = Inr (created, repo')"
  shows "Metadata created = Metadata u \<and> BundlePath created = BundlePath u \<and>
         (\<exists>coll. repo = Some coll \<and> fault coll = None \<and>
                 repo' = Some (coll\<lparr>docs := docs coll @ [created]\<rparr>))"
  using assms
  by (auto simp: UpdateRepository_Create_def Let_def split: option.splits if_splits)

lemma RegisterUpdate_created:
  assumes "AdminHandler_RegisterUpdate env io repo projects =
             (JSONWithUpdate 201 msg k created, repo', projects')"
  shows "Metadata created = uploadToCloudinary io (parseMetadata env (BundlePath created)) \<and>
         (\<exists>coll. repo = Some coll \<and> fault coll = None \<and>
                 repo' = Some (coll\<lparr>docs := docs coll @ [created]\<rparr>))"
proof (cases "ingestReachesCreate io repo")
  case False
  from RegisterUpdate_early [OF False, of env projects] assms show ?thesis by auto
next
  case True
  from assms obtain c where c: "UpdateRepository_Create repo (TimeNow io) (InsertedID io)
      (ingestRecord env io) = Inr (created, repo')"
    unfolding RegisterUpdate_reaches [OF True]
    by (auto split: sum.splits)
  from Create_Inr [OF c] show ?thesis
    by (auto simp: ingestRecord_def)
qed

text \<open>
  C7, as the code has it: for every byte sequence \<open>b\<close>, the key (the first 32
  hexadecimal digits of the SHA-256 digest) and the hash (the digest in unpadded
  URL-safe base64) decode to the same 32-byte digest, the key to its first 16
  bytes; and in every update that ingestion persists, each platform entry comes
  from the entry of the same platform in the decoded \<open>metadata.json\<close>, with the
  same bundle and the same asset paths, such that the launch bundle and each
  listed asset whose file could be read under the bundle path at ingestion time
  carry the key and hash of that file's bytes, and an entry whose file could not
  be read keeps the key and hash that \<open>metadata.json\<close> gave it.
\<close>

theorem C7_key_hash_agreement:
  "hex_DecodeString (take 32 (ComputeSHA256Hash b)) = Some (take 16 (sha256_Sum256 b)) \<and>
   RawURLEncoding_DecodeString (Base64URLEncode (ComputeSHA256HashBytes b)) =
     Some (sha256_Sum256 b) \<and>
   length (sha256_Sum256 b) = 32 \<and>
   keyHashAgree (take 32 (ComputeSHA256Hash b)) (Base64URLEncode (ComputeSHA256HashBytes b)) b \<and>
   (\<forall>msg k created repo' projects' md fm plat pm.
      AdminHandler_RegisterUpdate env io repo projects =
        (JSONWithUpdate 201 msg k created, repo', projects') \<and>
      Metadata created = Some md \<and> FileMetadata md = Some fm \<and> fm plat = Some pm \<longrightarrow>
        (\<exists>md0 fm0 pm0.
           decodedMetadata env (BundlePath created) = Some md0 \<and> FileMetadata md0 = Some fm0 \<and>
           fm0 plat = Some pm0 \<and> platformHashed env (BundlePath created) pm0 pm) \<and>
        (\<exists>coll. repo = Some coll \<and> repo' = Some (coll\<lparr>docs := docs coll @ [created]\<rparr>)))"
proof -
  have "take 32 (ComputeSHA256Hash b) = hex_EncodeToString (take 16 (sha256_Sum256 b))"
    using take_hex [of 16 "sha256_Sum256 b"] by (simp add: ComputeSHA256Hash_def)
  then have h: "hex_DecodeString (take 32 (ComputeSHA256Hash b)) = Some (take 16 (sha256_Sum256 b))"
    by (simp only: hex_roundtrip)
  have d: "RawURLEncoding_DecodeString (Base64URLEncode (ComputeSHA256HashBytes b)) =
             Some (sha256_Sum256 b)"
    by (simp add: Base64URLEncode_def ComputeSHA256HashBytes_def base64_roundtrip)
  have k: "keyHashAgree (take 32 (ComputeSHA256Hash b))
             (Base64URLEncode (ComputeSHA256HashBytes b)) b"
    by (simp add: keyHashAgree_def ComputeSHA256Hash_def ComputeSHA256HashBytes_def
        Base64URLEncode_def)
  have pa: "\<forall>msg k created repo' projects' md fm plat pm.
      AdminHandler_RegisterUpdate env io repo projects =
        (JSONWithUpdate 201 msg k created, repo', projects') \<and>
      Metadata created = Some md \<and> FileMetadata md = Some fm \<and> fm plat = Some pm \<longrightarrow>
        (\<exists>md0 fm0 pm0.
           decodedMetadata env (BundlePath created) = Some md0 \<and> FileMetadata md0 = Some fm0 \<and>
           fm0 plat = Some pm0 \<and> platformHashed env (BundlePath created) pm0 pm) \<and>
        (\<exists>coll. repo = Some coll \<and> repo' = Some (coll\<lparr>docs := docs coll @ [created]\<rparr>))"
  proof (intro allI impI)
    fix msg k created repo' projects' md fm plat pm
    assume a: "AdminHandler_RegisterUpdate env io repo projects =
        (JSONWithUpdate 201 msg k created, repo', projects') \<and>
      Metadata created = Some md \<and> FileMetadata md = Some fm \<and> fm plat = Some pm"
    then have a1: "AdminHandler_RegisterUpdate env io repo projects =
        (JSONWithUpdate 201 msg k created, repo', projects')"
      and a2: "Metadata created = Some md" and a3: "FileMetadata md = Some fm"
      and a4: "fm plat = Some pm"
      by (rule conjunct1, rule conjunct2 [THEN conjunct1],
          rule conjunct2 [THEN conjunct2, THEN conjunct1],
          rule conjunct2 [THEN conjunct2, THEN conjunct2])
    from RegisterUpdate_created [OF a1]
    have m: "Metadata created = uploadToCloudinary io (parseMetadata env (BundlePath created))"
      and c: "\<exists>coll. repo = Some coll \<and> repo' = Some (coll\<lparr>docs := docs coll @ [created]\<rparr>)"
      by auto
    from m a2 have "uploadToCloudinary io (parseMetadata env (BundlePath created)) = Some md"
      by simp
    from uploadToCloudinary_hashed [OF this a3 a4] c
    show "(\<exists>md0 fm0 pm0.
           decodedMetadata env (BundlePath created) = Some md0 \<and> FileMetadata md0 = Some fm0 \<and>
           fm0 plat = Some pm0 \<and> platformHashed env (BundlePath created) pm0 pm) \<and>
        (\<exists>coll. repo = Some coll \<and> repo' = Some (coll\<lparr>docs := docs coll @ [created]\<rparr>))"
      by (rule conjI)
  qed
  show ?thesis
    apply (intro conjI)
        apply (rule h)
       apply (rule d)
      apply (rule length_Sum256)
     apply (rule k)
    apply (rule pa)
    done
qed

text \<open>
  Stated of each listed asset and the launch bundle, the property fails: with the
  bundle and the asset missing from disk the update is persisted all the same,
  and both entries carry an empty key and an empty hash, which decode to no
  bytes at all, whereas a SHA-256 digest has 32.
\<close>

theorem C7_counterexample:
  "fst (snd (AdminHandler_RegisterUpdate
          (ingestEnv [(''/tmp/otaship-upload-1/extracted/metadata.json'', Regular ''{metadata}'')])
          ingestIO (Some \<lparr>docs = [], fault = None\<rparr>) noProjects)) =
     Some \<lparr>docs = [ingestedUpdate [] []], fault = None\<rparr> \<and>
   Metadata (ingestedUpdate [] []) =
     Some \<lparr>FileMetadata = Some
             [''android'' \<mapsto>
                \<lparr>Bundle = ''bundles/android-a.js'', BundleUrl = [],
                 BundleKey = [], BundleHash = [],
                 Assets = [\<lparr>Path = ''assets/a'', Ext = ''png'', Url = [], Key = [], Hash = []\<rparr>]\<rparr>],
           ExpoConfig = []\<rparr> \<and>
   hex_DecodeString [] = Some [] \<and> RawURLEncoding_DecodeString [] = Some [] \<and>
   length (sha256_Sum256 []) = 32"
  by (simp add: ingest_missing_files ingestedUpdate_def parsedMetadata_def
      RawURLEncoding_DecodeString_def length_Sum256)

text \<open>
  The same upload with the launch bundle on disk (content \<open>x\<close>) and the asset
  missing: the persisted bundle entry carries the key and hash of \<open>x\<close>, and the
  asset entry the empty key and hash of the decoded metadata.
\<close>

theorem C7_key_hash_agreement_witness:
  "platformHashed
     (ingestEnv [(''/tmp/otaship-upload-1/extracted/metadata.json'', Regular ''{metadata}''),
                 (''/tmp/otaship-upload-1/extracted/bundles/android-a.js'', Regular ''x'')])
     ''/tmp/otaship-upload-1/extracted''
     \<lparr>Bundle = ''bundles/android-a.js'', BundleUrl = [], BundleKey = [], BundleHash = [],
      Assets = [\<lparr>Path = ''assets/a'', Ext = ''png'', Url = [], Key = [], Hash = []\<rparr>]\<rparr>
     \<lparr>Bundle = ''bundles/android-a.js'', BundleUrl = [],
      BundleKey = take 32 (ComputeSHA256Hash ''x''),
      BundleHash = Base64URLEncode (ComputeSHA256HashBytes ''x''),
      Assets = [\<lparr>Path = ''assets/a'', Ext = ''png'', Url = [], Key = [], Hash = []\<rparr>]\<rparr> \<and>
   hex_DecodeString (take 32 (ComputeSHA256Hash ''x'')) = Some (take 16 (sha256_Sum256 ''x'')) \<and>
   RawURLEncoding_DecodeString (Base64URLEncode (ComputeSHA256HashBytes ''x'')) =
     Some (sha256_Sum256 ''x'')"
proof -
  let ?env = "ingestEnv [(''/tmp/otaship-upload-1/extracted/metadata.json'', Regular ''{metadata}''),
                 (''/tmp/otaship-upload-1/extracted/bundles/android-a.js'', Regular ''x'')]"
  let ?u = "ingestedUpdate (take 32 (ComputeSHA256Hash ''x''))
              (Base64URLEncode (ComputeSHA256HashBytes ''x''))"
  let ?d = "\<lparr>Bundle = ''bundles/android-a.js'', BundleUrl = [], BundleKey = [], BundleHash = [],
      Assets = [\<lparr>Path = ''assets/a'', Ext = ''png'', Url = [], Key = [], Hash = []\<rparr>]\<rparr>"
  let ?pm = "\<lparr>Bundle = ''bundles/android-a.js'', BundleUrl = [],
      BundleKey = take 32 (ComputeSHA256Hash ''x''),
      BundleHash = Base64URLEncode (ComputeSHA256HashBytes ''x''),
      Assets = [\<lparr>Path = ''assets/a'', Ext = ''png'', Url = [], Key = [], Hash = []\<rparr>]\<rparr>"
  have m: "Metadata ?u = Some (parsedMetadata (take 32 (ComputeSHA256Hash ''x''))
              (Base64URLEncode (ComputeSHA256HashBytes ''x'')))"
    and b: "BundlePath ?u = ''/tmp/otaship-upload-1/extracted''"
    by (simp_all add: ingestedUpdate_def)
  have f: "FileMetadata (parsedMetadata (take 32 (ComputeSHA256Hash ''x''))
              (Base64URLEncode (ComputeSHA256HashBytes ''x''))) = Some [''android'' \<mapsto> ?pm]"
    by (simp add: parsedMetadata_def)
  have g: "[''android'' \<mapsto> ?pm] ''android'' = Some ?pm"
    by simp
  have dm: "decodedMetadata ?env ''/tmp/otaship-upload-1/extracted'' = Some (parsedMetadata [] [])"
    by (rule ingest_decoded) (simp add: ingestEnv_def)
  have df: "FileMetadata (parsedMetadata [] []) = Some [''android'' \<mapsto> ?d]"
    by (simp add: parsedMetadata_def)
  note t = C7_key_hash_agreement [of "''x''" ?env ingestIO "Some \<lparr>docs = [], fault = None\<rparr>"
      noProjects]
  from t have t1: "hex_DecodeString (take 32 (ComputeSHA256Hash ''x'')) =
                     Some (take 16 (sha256_Sum256 ''x''))"
    and t2: "RawURLEncoding_DecodeString (Base64URLEncode (ComputeSHA256HashBytes ''x'')) =
               Some (sha256_Sum256 ''x'')"
    by blast+
  from t have "AdminHandler_RegisterUpdate ?env ingestIO (Some \<lparr>docs = [], fault = None\<rparr>)
          noProjects =
        (JSONWithUpdate 201 [(''message'', JString ''Update registered successfully'')] ''update'' ?u,
         Some \<lparr>docs = [?u], fault = None\<rparr>,
         Some (Some \<lparr>projectDocs = [demoProject], projectFault = None\<rparr>)) \<and>
      Metadata ?u = Some (parsedMetadata (take 32 (ComputeSHA256Hash ''x''))
              (Base64URLEncode (ComputeSHA256HashBytes ''x''))) \<and>
      FileMetadata (parsedMetadata (take 32 (ComputeSHA256Hash ''x''))
              (Base64URLEncode (ComputeSHA256HashBytes ''x''))) = Some [''android'' \<mapsto> ?pm] \<and>
      [''android'' \<mapsto> ?pm] ''android'' = Some ?pm \<longrightarrow>
      (\<exists>md0 fm0 pm0.
         decodedMetadata ?env (BundlePath ?u) = Some md0 \<and> FileMetadata md0 = Some fm0 \<and>
         fm0 ''android'' = Some pm0 \<and> platformHashed ?env (BundlePath ?u) pm0 ?pm)"
    by blast
  with ingest_bundle_readable m f g obtain md0 fm0 pm0 where
    e1: "decodedMetadata ?env (BundlePath ?u) = Some md0" and e2: "FileMetadata md0 = Some fm0"
    and e3: "fm0 ''android'' = Some pm0" and p: "platformHashed ?env (BundlePath ?u) pm0 ?pm"
    by blast
  from e1 dm have "md0 = parsedMetadata [] []" unfolding b by simp
  with e2 df have "fm0 = [''android'' \<mapsto> ?d]" by simp
  with e3 have "pm0 = ?d" by simp
  with p b t1 t2 show ?thesis by simp
qed

text \<open>
  C8, as the code has it: an ingestion request either answers 201 and appends
  exactly one record to the update store, or answers a JSON error with status
  400, 500 or 503 and leaves the update store as it was: no update record is
  inserted. The project collection is as it was when the request fails before
  the build is unpacked; from then on it has been through the project upsert,
  whether or not the insert of the update succeeds. A file named by the parsed
  metadata that is missing from disk when its hash is computed is not a failure:
  whatever the file system holds, a request that passes the steps before the
  hashing is answered 201 when the store accepts the insert, and the entry of an
  unreadable file keeps the key and hash it had.
\<close>

theorem C8_ingestion_outcome:
  "((\<exists>coll created. repo = Some coll \<and> fault coll = None \<and>
        fst (AdminHandler_RegisterUpdate env io repo projects) =
          JSONWithUpdate 201 [(''message'', JString ''Update registered successfully'')]
            ''update'' created \<and>
        fst (snd (AdminHandler_RegisterUpdate env io repo projects)) =
          Some (coll\<lparr>docs := docs coll @ [created]\<rparr>)) \<or>
    (fst (snd (AdminHandler_RegisterUpdate env io repo projects)) = repo \<and>
     (\<exists>status msg. fst (AdminHandler_RegisterUpdate env io repo projects) =
          JSON status (errorBody msg) \<and>
        (status = 400 \<or> status = 500 \<or> status = 503)))) \<and>
   snd (snd (AdminHandler_RegisterUpdate env io repo projects)) =
     (if ingestReachesCreate io repo then ingestProjects io projects else projects) \<and>
   (ingestReachesCreate io (Some coll0) \<and> fault coll0 = None \<longrightarrow>
      (\<exists>created. AdminHandler_RegisterUpdate env io (Some coll0) projects =
          (JSONWithUpdate 201 [(''message'', JString ''Update registered successfully'')]
             ''update'' created,
           Some (coll0\<lparr>docs := docs coll0 @ [created]\<rparr>), ingestProjects io projects))) \<and>
   (os_ReadFile env (filepath_Join bundlePath (Path a)) = None \<longrightarrow>
      hashAsset env bundlePath a = a) \<and>
   (os_ReadFile env (filepath_Join bundlePath (Bundle pm)) = None \<longrightarrow>
      BundleKey (hashPlatform env bundlePath pm) = BundleKey pm \<and>
      BundleHash (hashPlatform env bundlePath pm) = BundleHash pm)"
proof -
  let ?R = "AdminHandler_RegisterUpdate env io repo projects"
  have reach: "\<exists>created. AdminHandler_RegisterUpdate env io (Some c) projects =
          (JSONWithUpdate 201 [(''message'', JString ''Update registered successfully'')]
             ''update'' created,
           Some (c\<lparr>docs := docs c @ [created]\<rparr>), ingestProjects io projects)"
    if "ingestReachesCreate io (Some c)" "fault c = None" for c
    unfolding RegisterUpdate_reaches [OF that(1)]
    by (simp add: UpdateRepository_Create_def Let_def that(2))
  have fail: "snd (AdminHandler_RegisterUpdate env io (Some c) projects) =
       (Some c, ingestProjects io projects) \<and>
     (\<exists>status msg. fst (AdminHandler_RegisterUpdate env io (Some c) projects) =
          JSON status (errorBody msg) \<and>
        (status = 400 \<or> status = 500 \<or> status = 503))"
    if "ingestReachesCreate io (Some c)" "fault c = Some e" for c e
    unfolding RegisterUpdate_reaches [OF that(1)]
    by (simp add: UpdateRepository_Create_def Let_def that(2) errorBody_ex)
  have both: "((\<exists>coll created. repo = Some coll \<and> fault coll = None \<and>
        fst ?R = JSONWithUpdate 201 [(''message'', JString ''Update registered successfully'')]
            ''update'' created \<and>
        fst (snd ?R) = Some (coll\<lparr>docs := docs coll @ [created]\<rparr>)) \<or>
    (fst (snd ?R) = repo \<and>
     (\<exists>status msg. fst ?R = JSON status (errorBody msg) \<and>
        (status = 400 \<or> status = 500 \<or> status = 503)))) \<and>
    snd (snd ?R) = (if ingestReachesCreate io repo then ingestProjects io projects else projects)"
  proof (cases "ingestReachesCreate io repo")
    case False
    from RegisterUpdate_early [OF False, of env projects] False show ?thesis
      by (simp add: snd_def split: prod.splits)
  next
    case True
    then obtain c where c: "repo = Some c"
      by (auto simp: ingestReachesCreate_def)
    show ?thesis
    proof (cases "fault c")
      case None
      from reach [of c] True c None obtain created where
        "?R = (JSONWithUpdate 201 [(''message'', JString ''Update registered successfully'')]
             ''update'' created,
           Some (c\<lparr>docs := docs c @ [created]\<rparr>), ingestProjects io projects)"
        by blast
      with True c None show ?thesis by simp
    next
      case (Some e)
      from fail [of c e] True c Some show ?thesis by simp
    qed
  qed
  have second: "ingestReachesCreate io (Some coll0) \<and> fault coll0 = None \<longrightarrow>
      (\<exists>created. AdminHandler_RegisterUpdate env io (Some coll0) projects =
          (JSONWithUpdate 201 [(''message'', JString ''Update registered successfully'')]
             ''update'' created,
           Some (coll0\<lparr>docs := docs coll0 @ [created]\<rparr>), ingestProjects io projects))"
    using reach [of coll0] by blast
  have third: "os_ReadFile env (filepath_Join bundlePath (Path a)) = None \<longrightarrow>
      hashAsset env bundlePath a = a"
    by (simp add: hashAsset_missing)
  have fourth: "os_ReadFile env (filepath_Join bundlePath (Bundle pm)) = None \<longrightarrow>
      BundleKey (hashPlatform env bundlePath pm) = BundleKey pm \<and>
      BundleHash (hashPlatform env bundlePath pm) = BundleHash pm"
    by (simp add: hashPlatform_missing)
  show ?thesis
    apply (intro conjI)
        apply (rule both [THEN conjunct1])
       apply (rule both [THEN conjunct2])
      apply (rule second)
     apply (rule third)
    apply (rule fourth)
    done
qed

text \<open>
  With the launch bundle and the asset missing from disk, the request is answered
  201 and the record is inserted.
\<close>

theorem C8_counterexample:
  "Files (ingestEnv [(''/tmp/otaship-upload-1/extracted/metadata.json'', Regular ''{metadata}'')])
     ''/tmp/otaship-upload-1/extracted/bundles/android-a.js'' = NotExist \<and>
   Files (ingestEnv [(''/tmp/otaship-upload-1/extracted/metadata.json'', Regular ''{metadata}'')])
     ''/tmp/otaship-upload-1/extracted/assets/a'' = NotExist \<and>
   AdminHandler_RegisterUpdate
     (ingestEnv [(''/tmp/otaship-upload-1/extracted/metadata.json'', Regular ''{metadata}'')])
     ingestIO (Some \<lparr>docs = [], fault = None\<rparr>) noProjects =
     (JSONWithUpdate 201 [(''message'', JString ''Update registered successfully'')]
        ''update'' (ingestedUpdate [] []),
      Some \<lparr>docs = [ingestedUpdate [] []], fault = None\<rparr>,
      Some (Some \<lparr>projectDocs = [demoProject], projectFault = None\<rparr>))"
  by (simp add: ingest_missing_files) (simp add: ingestEnv_def)

text \<open>
  The same upload: the insert is reached and the missing asset's entry is
  unchanged; and against an update store that refuses the insert, the update
  store is left as it was while the project document has been upserted.
\<close>

theorem C8_ingestion_outcome_witness:
  "(\<exists>created.
      AdminHandler_RegisterUpdate
        (ingestEnv [(''/tmp/otaship-upload-1/extracted/metadata.json'', Regular ''{metadata}'')])
        ingestIO (Some \<lparr>docs = [], fault = None\<rparr>) noProjects =
        (JSONWithUpdate 201 [(''message'', JString ''Update registered successfully'')]
           ''update'' created,
         Some \<lparr>docs = [created], fault = None\<rparr>,
         Some (Some \<lparr>projectDocs = [demoProject], projectFault = None\<rparr>))) \<and>
   hashAsset
     (ingestEnv [(''/tmp/otaship-upload-1/extracted/metadata.json'', Regular ''{metadata}'')])
     ''/tmp/otaship-upload-1/extracted''
     \<lparr>Path = ''assets/a'', Ext = ''png'', Url = [], Key = [], Hash = []\<rparr> =
     \<lparr>Path = ''assets/a'', Ext = ''png'', Url = [], Key = [], Hash = []\<rparr> \<and>
   snd (AdminHandler_RegisterUpdate
        (ingestEnv [(''/tmp/otaship-upload-1/extracted/metadata.json'', Regular ''{metadata}'')])
        ingestIO (Some \<lparr>docs = [], fault = Some ''server selection timeout''\<rparr>) noProjects) =
     (Some \<lparr>docs = [], fault = Some ''server selection timeout''\<rparr>,
      Some (Some \<lparr>projectDocs = [demoProject], projectFault = None\<rparr>))"
proof -
  let ?env = "ingestEnv [(''/tmp/otaship-upload-1/extracted/metadata.json'', Regular ''{metadata}'')]"
  let ?a = "\<lparr>Path = ''assets/a'', Ext = ''png'', Url = [], Key = [], Hash = []\<rparr>"
  let ?F = "AdminHandler_RegisterUpdate ?env ingestIO
              (Some \<lparr>docs = [], fault = Some ''server selection timeout''\<rparr>) noProjects"
  have r: "ingestReachesCreate ingestIO (Some \<lparr>docs = [], fault = None\<rparr>)"
    and r': "ingestReachesCreate ingestIO (Some \<lparr>docs = [], fault = Some ''server selection timeout''\<rparr>)"
    by (rule ingest_reaches)+
  have f: "fault \<lparr>docs = [], fault = None\<rparr> = None" by simp
  have m: "os_ReadFile ?env (filepath_Join ''/tmp/otaship-upload-1/extracted'' (Path ?a)) = None"
    by (simp add: os_ReadFile_def join_extracted ingestEnv_def)
  note t = C8_ingestion_outcome [of "Some \<lparr>docs = [], fault = None\<rparr>" ?env ingestIO noProjects
      "\<lparr>docs = [], fault = None\<rparr>" "''/tmp/otaship-upload-1/extracted''" ?a]
  note t' = C8_ingestion_outcome [of "Some \<lparr>docs = [], fault = Some ''server selection timeout''\<rparr>"
      ?env ingestIO noProjects]
  from t r f have "\<exists>created.
      AdminHandler_RegisterUpdate ?env ingestIO (Some \<lparr>docs = [], fault = None\<rparr>) noProjects =
        (JSONWithUpdate 201 [(''message'', JString ''Update registered successfully'')]
           ''update'' created,
         Some (\<lparr>docs = [], fault = None\<rparr>\<lparr>docs := docs \<lparr>docs = [], fault = None\<rparr> @ [created]\<rparr>),
         ingestProjects ingestIO noProjects)"
    by blast
  then have one: "\<exists>created.
      AdminHandler_RegisterUpdate ?env ingestIO (Some \<lparr>docs = [], fault = None\<rparr>) noProjects =
        (JSONWithUpdate 201 [(''message'', JString ''Update registered successfully'')]
           ''update'' created,
         Some \<lparr>docs = [created], fault = None\<rparr>,
         Some (Some \<lparr>projectDocs = [demoProject], projectFault = None\<rparr>))"
    by (simp add: ingest_projects)
  from t m have two: "hashAsset ?env ''/tmp/otaship-upload-1/extracted'' ?a = ?a"
    by blast
  from t' have "(fst (snd ?F) = Some \<lparr>docs = [], fault = Some ''server selection timeout''\<rparr>) \<and>
      snd (snd ?F) = (if ingestReachesCreate ingestIO
          (Some \<lparr>docs = [], fault = Some ''server selection timeout''\<rparr>)
        then ingestProjects ingestIO noProjects else noProjects)"
    by auto
  with r' have three: "snd ?F = (Some \<lparr>docs = [], fault = Some ''server selection timeout''\<rparr>,
      Some (Some \<lparr>projectDocs = [demoProject], projectFault = None\<rparr>))"
    by (simp add: ingest_projects prod_eq_iff)
  from one two three show ?thesis by blast
qed

end
